theory Spec2Isabelle
  imports Main "HOL-Library.Word"
begin

section \<open>Remote server list synchronisation (psiphon/remoteServerList.go)\<close>

text \<open>
  A shallow embedding of \<^verbatim>\<open>FetchCommonRemoteServerList\<close>,
  \<^verbatim>\<open>FetchObfuscatedServerLists\<close>, \<^verbatim>\<open>downloadRemoteServerListFile\<close>,
  \<^verbatim>\<open>unpackRemoteServerListFile\<close> and \<^verbatim>\<open>storeServerEntries\<close>.

  Everything these functions call outside the file (the data store, the resumable download,
  the file system, zlib, the authenticated package reader, the OSL directory, the server
  entry decoder) is a parameter: a field of the record \<open>env\<close>, acting on a world of an
  arbitrary type \<open>'w\<close>. The functions of the file thread a state through these calls: the
  world, and a trace that records, in program order, every notice the code emits and every
  call it makes to a collaborator, with the arguments and whether the call returned an error.
\<close>

subsection \<open>Data\<close>

type_synonym bytes = "8 word list"

text \<open>
  Go \<^verbatim>\<open>error\<close> values. \<open>New m\<close> is \<^verbatim>\<open>errors.New(m)\<close> (and any error a collaborator
  returns), \<open>ContextError e\<close> is \<^verbatim>\<open>common.ContextError(e)\<close>, and \<open>Errorf m e\<close> is
  \<^verbatim>\<open>fmt.Errorf(m + ": %s", e)\<close>. A Go result of type \<^verbatim>\<open>error\<close> is an \<open>error option\<close>,
  \<open>None\<close> for \<^verbatim>\<open>nil\<close>.
\<close>

datatype error = New string | ContextError error | Errorf string error

typedecl Tunnel
typedecl DialConfig

record Config =
  RemoteServerListUrl :: string
  RemoteServerListDownloadFilename :: string
  RemoteServerListSignaturePublicKey :: string
  ObfuscatedServerListRootURL :: string
  ObfuscatedServerListDownloadDirectory :: string
  FetchRemoteServerListTimeoutSeconds :: int

text \<open>
  A call to a collaborator, with its arguments; for the three reads whose value decides the
  control flow, also the value read (\<open>GetUrlETagC url etag\<close>,
  \<open>ResumeDownloadC requestURL filename lastETag n responseETag\<close>,
  \<open>GetKeyValueC key value\<close>; the value is \<open>''''\<close> when the call failed).
\<close>

datatype call =
    MakeDownloadHttpClientC string int
  | GetUrlETagC string string
  | ResumeDownloadC string string string int string
  | RecordRemoteServerListStatC string string
  | SetUrlETagC string string
  | ReadFileC string
  | OpenC string
  | CloseC string
  | ZlibNewReaderC
  | ReadAllC
  | ZlibCloseC
  | ReadAuthenticatedDataPackageC string
  | DecodeAndValidateServerEntryListC string string string
  | StoreServerEntriesC bool
  | UnpackDirectoryC string
  | SetKeyValueC string string
  | GetKeyValueC string string
  | LoadDirectoryC string
  | GetSeededOSLIDsC
  | UnpackOSLC bytes string

text \<open>
  The trace: notices (\<^verbatim>\<open>NoticeInfo\<close>, \<^verbatim>\<open>NoticeAlert\<close> with its format, its string
  arguments and its error, and the two download notices), and calls, each with the flag
  "returned no error".
\<close>

datatype event =
    NoticeInfo string
  | NoticeAlert string "string list" error
  | NoticeRemoteServerListResourceDownloadedBytes string int
  | NoticeRemoteServerListResourceDownloaded string
  | Called call bool

record 'w state =
  world :: 'w
  trace :: "event list"

text \<open>
  An alert raised inside a callback that the code hands to the OSL directory: the format
  and the error of the \<^verbatim>\<open>NoticeAlert\<close>.
\<close>

type_synonym alert = "string \<times> error"

text \<open>
  The collaborators. A Go function returning \<^verbatim>\<open>(v, error)\<close> whose value is read only
  when the error is nil returns \<open>error + 'v\<close>; \<^verbatim>\<open>ResumeDownload\<close> and \<^verbatim>\<open>GetSLOK\<close>, whose
  values are read whatever the error, return both. The two methods of the OSL directory
  take the key lookup (and \<^verbatim>\<open>GetSeededOSLIDs\<close> the error sink) as arguments and return,
  beside their result, the alerts their callbacks raised.
  \<^verbatim>\<open>DATA_STORE_OSL_DIRECTORY_KEY\<close> and \<^verbatim>\<open>protocol.SERVER_ENTRY_SOURCE_REMOTE\<close> are
  constants declared outside the file.
\<close>

record ('w, 'c, 'd, 'e) env =
  MakeDownloadHttpClient ::
    "Config \<Rightarrow> Tunnel option \<Rightarrow> DialConfig option \<Rightarrow> string \<Rightarrow> int \<Rightarrow> 'w \<Rightarrow> (error + 'c \<times> string) \<times> 'w"
  GetUrlETag :: "string \<Rightarrow> 'w \<Rightarrow> (error + string) \<times> 'w"
  ResumeDownload :: "'c \<Rightarrow> string \<Rightarrow> string \<Rightarrow> string \<Rightarrow> 'w \<Rightarrow> (int \<times> string \<times> error option) \<times> 'w"
  RecordRemoteServerListStat :: "string \<Rightarrow> string \<Rightarrow> 'w \<Rightarrow> 'w"
  SetUrlETag :: "string \<Rightarrow> string \<Rightarrow> 'w \<Rightarrow> error option \<times> 'w"
  ReadFile :: "string \<Rightarrow> 'w \<Rightarrow> (error + bytes) \<times> 'w"
  Open :: "string \<Rightarrow> 'w \<Rightarrow> (error + bytes) \<times> 'w"
  Close :: "string \<Rightarrow> 'w \<Rightarrow> 'w"
  ZlibNewReader :: "bytes \<Rightarrow> 'w \<Rightarrow> (error + bytes) \<times> 'w"
  ReadAll :: "bytes \<Rightarrow> 'w \<Rightarrow> (error + bytes) \<times> 'w"
  ReadAuthenticatedDataPackage :: "bytes \<Rightarrow> string \<Rightarrow> 'w \<Rightarrow> (error + string) \<times> 'w"
  GetCurrentTimestamp :: "'w \<Rightarrow> string"
  SERVER_ENTRY_SOURCE_REMOTE :: string
  DecodeAndValidateServerEntryList :: "string \<Rightarrow> string \<Rightarrow> string \<Rightarrow> 'w \<Rightarrow> (error + 'e list) \<times> 'w"
  StoreServerEntries :: "'e list \<Rightarrow> bool \<Rightarrow> 'w \<Rightarrow> error option \<times> 'w"
  GetOSLDirectoryFilename :: "string \<Rightarrow> string"
  GetOSLDirectoryURL :: "string \<Rightarrow> string"
  GetOSLFilename :: "string \<Rightarrow> bytes \<Rightarrow> string"
  GetOSLFileURL :: "string \<Rightarrow> bytes \<Rightarrow> string"
  UnpackDirectory :: "bytes \<Rightarrow> string \<Rightarrow> 'w \<Rightarrow> (error + 'd \<times> bytes) \<times> 'w"
  DATA_STORE_OSL_DIRECTORY_KEY :: string
  SetKeyValue :: "string \<Rightarrow> string \<Rightarrow> 'w \<Rightarrow> error option \<times> 'w"
  GetKeyValue :: "string \<Rightarrow> 'w \<Rightarrow> (error + string) \<times> 'w"
  LoadDirectory :: "bytes \<Rightarrow> 'w \<Rightarrow> (error + 'd) \<times> 'w"
  GetSLOK :: "bytes \<Rightarrow> 'w \<Rightarrow> (bytes \<times> error option) \<times> 'w"
  GetSeededOSLIDs ::
    "'d \<Rightarrow> (bytes \<Rightarrow> 'w \<Rightarrow> (bytes \<times> alert list) \<times> 'w) \<Rightarrow> (error \<Rightarrow> alert list) \<Rightarrow> 'w
      \<Rightarrow> (bytes list \<times> alert list) \<times> 'w"
  UnpackOSL ::
    "'d \<Rightarrow> (bytes \<Rightarrow> 'w \<Rightarrow> (bytes \<times> alert list) \<times> 'w) \<Rightarrow> bytes \<Rightarrow> bytes \<Rightarrow> string \<Rightarrow> 'w
      \<Rightarrow> ((error + string) \<times> alert list) \<times> 'w"

text \<open>What a synchroniser does: it returns an error or nil, or dereferences a nil directory.\<close>

datatype outcome = Return "error option" | NilDereference

subsection \<open>Threading the state\<close>

definition emit :: "event \<Rightarrow> 'w state \<Rightarrow> 'w state" where
  "emit ev s = \<lparr>world = world s, trace = trace s @ [ev]\<rparr>"

fun succeeded :: "error + 'a \<Rightarrow> bool" where
  "succeeded (Inl err) = False"
| "succeeded (Inr v) = True"

fun valueOf :: "error + string \<Rightarrow> string" where
  "valueOf (Inl err) = ''''"
| "valueOf (Inr v) = v"

text \<open>
  \<open>call c ok f\<close> runs the collaborator \<open>f\<close> on the world and records the call: \<open>c\<close> builds
  the record from the result, \<open>ok\<close> reads "no error" off the result. \<open>callV\<close> is for a call
  whose result, if it has one, the code discards.
\<close>

definition call :: "('r \<Rightarrow> call) \<Rightarrow> ('r \<Rightarrow> bool) \<Rightarrow> ('w \<Rightarrow> 'r \<times> 'w) \<Rightarrow> 'w state \<Rightarrow> 'r \<times> 'w state" where
  "call c ok f s =
     (case f (world s) of (r, w) \<Rightarrow> (r, \<lparr>world = w, trace = trace s @ [Called (c r) (ok r)]\<rparr>))"

definition callV :: "call \<Rightarrow> ('w \<Rightarrow> 'w) \<Rightarrow> 'w state \<Rightarrow> 'w state" where
  "callV c f s = \<lparr>world = f (world s), trace = trace s @ [Called c True]\<rparr>"

definition alertEvent :: "alert \<Rightarrow> event" where
  "alertEvent a = NoticeAlert (fst a) [] (snd a)"

subsection \<open>Conversions of the Go standard library\<close>

text \<open>\<^verbatim>\<open>time.Duration(n) * time.Second\<close>: a product of 64-bit integers, in nanoseconds.\<close>

definition Second :: "64 word" where
  "Second = 1000000000"

definition Duration :: "int \<Rightarrow> 64 word" where
  "Duration n = word_of_int n"

text \<open>\<^verbatim>\<open>string(b)\<close> and \<^verbatim>\<open>[]byte(s)\<close>.\<close>

definition string_of_bytes :: "bytes \<Rightarrow> string" where
  "string_of_bytes b = map (\<lambda>x. char_of (unat x)) b"

definition bytes_of_string :: "string \<Rightarrow> bytes" where
  "bytes_of_string s = map (\<lambda>c. of_char c) s"

text \<open>\<^verbatim>\<open>hex.EncodeToString\<close>.\<close>

definition hexDigit :: "nat \<Rightarrow> char" where
  "hexDigit n = ''0123456789abcdef'' ! (n mod 16)"

definition EncodeToString :: "bytes \<Rightarrow> string" where
  "EncodeToString b = concat (map (\<lambda>x. [hexDigit (unat x div 16), hexDigit (unat x mod 16)]) b)"

subsection \<open>downloadRemoteServerListFile\<close>

definition downloadRemoteServerListFile ::
  "('w, 'c, 'd, 'e) env \<Rightarrow> Config \<Rightarrow> Tunnel option \<Rightarrow> DialConfig option \<Rightarrow> string \<Rightarrow> string
    \<Rightarrow> 'w state \<Rightarrow> (string \<times> error option) \<times> 'w state" where
  "downloadRemoteServerListFile env config tunnel untunneledDialConfig sourceURL destinationFilename s =
    (let timeout = sint (Duration (FetchRemoteServerListTimeoutSeconds config) * Second) in
     case call (\<lambda>r. MakeDownloadHttpClientC sourceURL timeout) succeeded
            (MakeDownloadHttpClient env config tunnel untunneledDialConfig sourceURL timeout) s of
       (Inl err, s1) \<Rightarrow> (('''', Some (ContextError err)), s1)
     | (Inr (httpClient, requestURL), s1) \<Rightarrow>
        (case call (\<lambda>r. GetUrlETagC sourceURL (valueOf r)) succeeded (GetUrlETag env sourceURL) s1 of
           (Inl err, s2) \<Rightarrow> (('''', Some (ContextError err)), s2)
         | (Inr lastETag, s2) \<Rightarrow>
            (case call (\<lambda>(n, responseETag, err).
                          ResumeDownloadC requestURL destinationFilename lastETag n responseETag)
                    (\<lambda>(n, responseETag, err). err = None)
                    (ResumeDownload env httpClient requestURL destinationFilename lastETag) s2 of
               ((n, responseETag, err), s3) \<Rightarrow>
                 (let s4 = emit (NoticeRemoteServerListResourceDownloadedBytes sourceURL n) s3 in
                  case err of
                    Some e \<Rightarrow> (('''', Some (ContextError e)), s4)
                  | None \<Rightarrow>
                     if responseETag = lastETag then (('''', None), s4)
                     else
                       (let s5 = emit (NoticeRemoteServerListResourceDownloaded sourceURL) s4;
                            s6 = callV (RecordRemoteServerListStatC sourceURL responseETag)
                                   (RecordRemoteServerListStat env sourceURL responseETag) s5
                        in ((responseETag, None), s6))))))"

subsection \<open>unpackRemoteServerListFile\<close>

text \<open>
  The file reader and the zlib reader are the bytes still to be read. The deferred
  \<^verbatim>\<open>fileReader.Close()\<close> runs on every return after a successful \<^verbatim>\<open>os.Open\<close>;
  \<^verbatim>\<open>zlibReader.Close()\<close> runs right after \<^verbatim>\<open>ioutil.ReadAll\<close>, before its error is looked
  at, and touches no file.
\<close>

definition unpackRemoteServerListFile ::
  "('w, 'c, 'd, 'e) env \<Rightarrow> Config \<Rightarrow> string \<Rightarrow> 'w state \<Rightarrow> (string \<times> error option) \<times> 'w state" where
  "unpackRemoteServerListFile env config filename s =
    (case call (\<lambda>r. OpenC filename) succeeded (Open env filename) s of
       (Inl err, s1) \<Rightarrow> (('''', Some (ContextError err)), s1)
     | (Inr fileReader, s1) \<Rightarrow>
        (case
           (case call (\<lambda>r. ZlibNewReaderC) succeeded (ZlibNewReader env fileReader) s1 of
              (Inl err, s2) \<Rightarrow> (('''', Some (ContextError err)), s2)
            | (Inr zlibReader, s2) \<Rightarrow>
               (case call (\<lambda>r. ReadAllC) succeeded (ReadAll env zlibReader) s2 of
                  (r, s3) \<Rightarrow>
                    (let s4 = emit (Called ZlibCloseC True) s3 in
                     case r of
                       Inl err \<Rightarrow> (('''', Some (ContextError err)), s4)
                     | Inr dataPackage \<Rightarrow>
                        (case call (\<lambda>r. ReadAuthenticatedDataPackageC
                                           (RemoteServerListSignaturePublicKey config))
                                succeeded
                                (ReadAuthenticatedDataPackage env dataPackage
                                   (RemoteServerListSignaturePublicKey config)) s4 of
                           (Inl err, s5) \<Rightarrow> (('''', Some (ContextError err)), s5)
                         | (Inr payload, s5) \<Rightarrow> ((payload, None), s5)))))
         of (res, s6) \<Rightarrow> (res, callV (CloseC filename) (Close env filename) s6)))"

subsection \<open>storeServerEntries\<close>

definition storeServerEntries ::
  "('w, 'c, 'd, 'e) env \<Rightarrow> string \<Rightarrow> 'w state \<Rightarrow> error option \<times> 'w state" where
  "storeServerEntries env serverList s =
    (let timestamp = GetCurrentTimestamp env (world s) in
     case call (\<lambda>r. DecodeAndValidateServerEntryListC serverList timestamp
                       (SERVER_ENTRY_SOURCE_REMOTE env))
            succeeded
            (DecodeAndValidateServerEntryList env serverList timestamp
               (SERVER_ENTRY_SOURCE_REMOTE env)) s of
       (Inl err, s1) \<Rightarrow> (Some (ContextError err), s1)
     | (Inr serverEntries, s1) \<Rightarrow>
        (case call (\<lambda>r. StoreServerEntriesC True) (\<lambda>r. r = None)
                (StoreServerEntries env serverEntries True) s1 of
           (Some err, s2) \<Rightarrow> (Some (ContextError err), s2)
         | (None, s2) \<Rightarrow> (None, s2)))"

subsection \<open>FetchCommonRemoteServerList\<close>

definition FetchCommonRemoteServerList ::
  "('w, 'c, 'd, 'e) env \<Rightarrow> Config \<Rightarrow> Tunnel option \<Rightarrow> DialConfig option \<Rightarrow> 'w state
    \<Rightarrow> error option \<times> 'w state" where
  "FetchCommonRemoteServerList env config tunnel untunneledDialConfig s =
    (let s0 = emit (NoticeInfo ''fetching common remote server list'') s in
     case downloadRemoteServerListFile env config tunnel untunneledDialConfig
            (RemoteServerListUrl config) (RemoteServerListDownloadFilename config) s0 of
       ((newETag, Some err), s1) \<Rightarrow>
         (Some (Errorf ''failed to download common remote server list'' (ContextError err)), s1)
     | ((newETag, None), s1) \<Rightarrow>
        if newETag = '''' then (None, s1)
        else
          (case unpackRemoteServerListFile env config (RemoteServerListDownloadFilename config) s1 of
             ((serverListPayload, Some err), s2) \<Rightarrow>
               (Some (Errorf ''failed to unpack common remote server list'' (ContextError err)), s2)
           | ((serverListPayload, None), s2) \<Rightarrow>
              (case storeServerEntries env serverListPayload s2 of
                 (Some err, s3) \<Rightarrow>
                   (Some (Errorf ''failed to store common remote server list'' (ContextError err)), s3)
               | (None, s3) \<Rightarrow>
                  (case call (\<lambda>r. SetUrlETagC (RemoteServerListUrl config) newETag) (\<lambda>r. r = None)
                          (SetUrlETag env (RemoteServerListUrl config) newETag) s3 of
                     (Some err, s4) \<Rightarrow>
                       (None, emit (NoticeAlert ''failed to set ETag for common remote server list: %s'' []
                                      (ContextError err)) s4)
                   | (None, s4) \<Rightarrow> (None, s4)))))"

subsection \<open>FetchObfuscatedServerLists\<close>

text \<open>
  The function is embedded block by block, in program order; the local variables
  \<^verbatim>\<open>failed\<close>, \<^verbatim>\<open>newETag\<close> and \<^verbatim>\<open>oslDirectory\<close> (a pointer, \<open>None\<close> for nil) are passed from
  one block to the next.

  Lines 119 to 153: the download of the directory, and when it brought a new ETag, the read
  of the file, \<^verbatim>\<open>osl.UnpackDirectory\<close> and the store of the directory in the cache. The
  result is \<open>(failed, newETag, oslDirectory)\<close>.
\<close>

definition fetchOSLDirectory ::
  "('w, 'c, 'd, 'e) env \<Rightarrow> Config \<Rightarrow> Tunnel option \<Rightarrow> DialConfig option \<Rightarrow> string \<Rightarrow> string
    \<Rightarrow> 'w state \<Rightarrow> (bool \<times> string \<times> 'd option) \<times> 'w state" where
  "fetchOSLDirectory env config tunnel untunneledDialConfig downloadURL downloadFilename s =
    (case downloadRemoteServerListFile env config tunnel untunneledDialConfig
            downloadURL downloadFilename s of
       ((newETag, Some err), s1) \<Rightarrow>
         ((True, newETag, None),
          emit (NoticeAlert ''failed to download obfuscated server list directory: %s'' []
                  (ContextError err)) s1)
     | ((newETag, None), s1) \<Rightarrow>
        if newETag \<noteq> '''' then
          (case call (\<lambda>r. ReadFileC downloadFilename) succeeded (ReadFile env downloadFilename) s1 of
             (Inl err, s2) \<Rightarrow>
               ((True, newETag, None),
                emit (NoticeAlert ''failed to read obfuscated server list directory: %s'' []
                        (ContextError err)) s2)
           | (Inr fileContent, s2) \<Rightarrow>
              (case call (\<lambda>r. UnpackDirectoryC (RemoteServerListSignaturePublicKey config)) succeeded
                      (UnpackDirectory env fileContent (RemoteServerListSignaturePublicKey config)) s2 of
                 (Inl err, s3) \<Rightarrow>
                   ((True, newETag, None),
                    emit (NoticeAlert ''failed to unpack obfuscated server list directory: %s'' []
                            (ContextError err)) s3)
               | (Inr (directory, oslDirectoryJSON), s3) \<Rightarrow>
                  (case call (\<lambda>r. SetKeyValueC (DATA_STORE_OSL_DIRECTORY_KEY env)
                                     (string_of_bytes oslDirectoryJSON))
                          (\<lambda>r. r = None)
                          (SetKeyValue env (DATA_STORE_OSL_DIRECTORY_KEY env)
                             (string_of_bytes oslDirectoryJSON)) s3 of
                     (Some err, s4) \<Rightarrow>
                       ((True, newETag, Some directory),
                        emit (NoticeAlert ''failed to set cached obfuscated server list directory: %s'' []
                                (ContextError err)) s4)
                   | (None, s4) \<Rightarrow> ((False, newETag, Some directory), s4))))
        else ((False, newETag, None), s1))"

text \<open>
  Lines 155 to 169: when \<^verbatim>\<open>failed || newETag == ""\<close>, the directory is taken from the cache;
  a lookup that returns the empty string gets the error \<^verbatim>\<open>errors.New("not found")\<close>. An
  error here is the result of the whole function (\<open>Inl\<close>).
\<close>

definition cachedOSLDirectory ::
  "('w, 'c, 'd, 'e) env \<Rightarrow> bool \<Rightarrow> string \<Rightarrow> 'd option \<Rightarrow> 'w state \<Rightarrow> (error + 'd option) \<times> 'w state" where
  "cachedOSLDirectory env failed newETag oslDirectory s =
    (if failed \<or> newETag = '''' then
       (case call (\<lambda>r. GetKeyValueC (DATA_STORE_OSL_DIRECTORY_KEY env) (valueOf r)) succeeded
               (GetKeyValue env (DATA_STORE_OSL_DIRECTORY_KEY env)) s of
          (got, s1) \<Rightarrow>
            (let oslDirectoryJSON = valueOf got;
                 err = (case got of
                          Inl e \<Rightarrow> Some e
                        | Inr v \<Rightarrow>
                            if oslDirectoryJSON = '''' then Some (New ''not found'') else None)
             in case err of
                  Some e \<Rightarrow>
                    (Inl (Errorf ''failed to get cached obfuscated server list directory''
                            (ContextError e)), s1)
                | None \<Rightarrow>
                   (case call (\<lambda>r. LoadDirectoryC oslDirectoryJSON) succeeded
                           (LoadDirectory env (bytes_of_string oslDirectoryJSON)) s1 of
                      (Inl e, s2) \<Rightarrow>
                        (Inl (Errorf ''failed to load obfuscated server list directory''
                                (ContextError e)), s2)
                    | (Inr directory, s2) \<Rightarrow> (Inr (Some directory), s2))))
     else (Inr oslDirectory, s))"

text \<open>Lines 173 to 179: the commit of the directory's ETag.\<close>

definition commitOSLDirectoryETag ::
  "('w, 'c, 'd, 'e) env \<Rightarrow> Config \<Rightarrow> bool \<Rightarrow> string \<Rightarrow> 'w state \<Rightarrow> 'w state" where
  "commitOSLDirectoryETag env config failed newETag s =
    (if \<not> failed \<and> newETag \<noteq> '''' then
       (case call (\<lambda>r. SetUrlETagC (RemoteServerListUrl config) newETag) (\<lambda>r. r = None)
               (SetUrlETag env (RemoteServerListUrl config) newETag) s of
          (Some err, s1) \<Rightarrow>
            emit (NoticeAlert ''failed to set ETag for obfuscated server list directory: %s'' []
                    (ContextError err)) s1
        | (None, s1) \<Rightarrow> s1)
     else s)"

text \<open>
  Lines 184 to 197: the closure \<^verbatim>\<open>lookupSLOKs\<close>, which returns the key whatever
  \<^verbatim>\<open>GetSLOK\<close>'s error and raises an alert on an error, and the call of
  \<^verbatim>\<open>GetSeededOSLIDs\<close> with it and with the sink that raises an alert for each error.
\<close>

definition lookupSLOKs :: "('w, 'c, 'd, 'e) env \<Rightarrow> bytes \<Rightarrow> 'w \<Rightarrow> (bytes \<times> alert list) \<times> 'w" where
  "lookupSLOKs env slokID w =
    (case GetSLOK env slokID w of
       ((key, err), w1) \<Rightarrow>
         ((key, case err of Some e \<Rightarrow> [(''GetSLOK failed: %s'', e)] | None \<Rightarrow> []), w1))"

definition seededOSLIDsErrorSink :: "error \<Rightarrow> alert list" where
  "seededOSLIDsErrorSink err = [(''GetSeededOSLIDs failed: %s'', err)]"

definition getSeededOSLIDs ::
  "('w, 'c, 'd, 'e) env \<Rightarrow> 'd \<Rightarrow> 'w state \<Rightarrow> bytes list \<times> 'w state" where
  "getSeededOSLIDs env oslDirectory s =
    (case GetSeededOSLIDs env oslDirectory (lookupSLOKs env) seededOSLIDsErrorSink (world s) of
       ((oslIDs, raised), w) \<Rightarrow>
         (oslIDs, \<lparr>world = w, trace = trace s @ map alertEvent raised @ [Called GetSeededOSLIDsC True]\<rparr>))"

text \<open>
  Lines 200 to 253: the body of the loop, for one identifier. It takes \<^verbatim>\<open>failed\<close> and
  returns it, set or as it was; each \<^verbatim>\<open>continue\<close> ends the body.
\<close>

definition fetchOSLFile ::
  "('w, 'c, 'd, 'e) env \<Rightarrow> Config \<Rightarrow> Tunnel option \<Rightarrow> DialConfig option \<Rightarrow> 'd \<Rightarrow> bool \<Rightarrow> bytes
    \<Rightarrow> 'w state \<Rightarrow> bool \<times> 'w state" where
  "fetchOSLFile env config tunnel untunneledDialConfig oslDirectory failed oslID s =
    (let downloadFilename = GetOSLFilename env (ObfuscatedServerListDownloadDirectory config) oslID;
         downloadURL = GetOSLFileURL env (ObfuscatedServerListRootURL config) oslID;
         hexID = EncodeToString oslID
     in
     case downloadRemoteServerListFile env config tunnel untunneledDialConfig
            downloadURL downloadFilename s of
       ((newETag, Some err), s1) \<Rightarrow>
         (True, emit (NoticeAlert ''failed to download obfuscated server list file (%s): %s'' [hexID]
                        (ContextError err)) s1)
     | ((newETag, None), s1) \<Rightarrow>
        if newETag = '''' then (failed, s1)
        else
          (case call (\<lambda>r. ReadFileC downloadFilename) succeeded (ReadFile env downloadFilename) s1 of
             (Inl err, s2) \<Rightarrow>
               (True, emit (NoticeAlert ''failed to read obfuscated server list file (%s): %s'' [hexID]
                              (ContextError err)) s2)
           | (Inr fileContent, s2) \<Rightarrow>
              (case UnpackOSL env oslDirectory (lookupSLOKs env) oslID fileContent
                      (RemoteServerListSignaturePublicKey config) (world s2) of
                 ((r, raised), w3) \<Rightarrow>
                   (let s3 = \<lparr>world = w3,
                              trace = trace s2 @ map alertEvent raised @
                                [Called (UnpackOSLC oslID (RemoteServerListSignaturePublicKey config))
                                   (succeeded r)]\<rparr>
                    in case r of
                         Inl err \<Rightarrow>
                           (True,
                            emit (NoticeAlert ''failed to unpack obfuscated server list file (%s): %s''
                                    [hexID] (ContextError err)) s3)
                       | Inr serverListPayload \<Rightarrow>
                          (case storeServerEntries env serverListPayload s3 of
                             (Some err, s4) \<Rightarrow>
                               (True,
                                emit (NoticeAlert ''failed to store obfuscated server list file (%s): %s''
                                        [hexID] (ContextError err)) s4)
                           | (None, s4) \<Rightarrow>
                              (case call (\<lambda>r. SetUrlETagC (RemoteServerListUrl config) newETag)
                                      (\<lambda>r. r = None)
                                      (SetUrlETag env (RemoteServerListUrl config) newETag) s4 of
                                 (Some err, s5) \<Rightarrow>
                                   (True,
                                    emit (NoticeAlert
                                            ''failed to set Etag for obfuscated server list file (%s): %s''
                                            [hexID] (ContextError err)) s5)
                               | (None, s5) \<Rightarrow> (failed, s5)))))))"

text \<open>Lines 199 to 254: the loop over the seeded identifiers, in their order.\<close>

fun fetchOSLFiles ::
  "('w, 'c, 'd, 'e) env \<Rightarrow> Config \<Rightarrow> Tunnel option \<Rightarrow> DialConfig option \<Rightarrow> 'd \<Rightarrow> bool \<Rightarrow> bytes list
    \<Rightarrow> 'w state \<Rightarrow> bool \<times> 'w state" where
  "fetchOSLFiles env config tunnel untunneledDialConfig oslDirectory failed [] s = (failed, s)"
| "fetchOSLFiles env config tunnel untunneledDialConfig oslDirectory failed (oslID # oslIDs) s =
    (case fetchOSLFile env config tunnel untunneledDialConfig oslDirectory failed oslID s of
       (failed1, s1) \<Rightarrow>
         fetchOSLFiles env config tunnel untunneledDialConfig oslDirectory failed1 oslIDs s1)"

text \<open>
  The whole function. A nil \<^verbatim>\<open>oslDirectory\<close> at line 193 would be dereferenced by
  \<^verbatim>\<open>GetSeededOSLIDs\<close>.
\<close>

definition FetchObfuscatedServerLists ::
  "('w, 'c, 'd, 'e) env \<Rightarrow> Config \<Rightarrow> Tunnel option \<Rightarrow> DialConfig option \<Rightarrow> 'w state
    \<Rightarrow> outcome \<times> 'w state" where
  "FetchObfuscatedServerLists env config tunnel untunneledDialConfig s =
    (let s0 = emit (NoticeInfo ''fetching obfuscated remote server lists'') s;
         downloadFilename = GetOSLDirectoryFilename env (ObfuscatedServerListDownloadDirectory config);
         downloadURL = GetOSLDirectoryURL env (ObfuscatedServerListRootURL config)
     in
     case fetchOSLDirectory env config tunnel untunneledDialConfig downloadURL downloadFilename s0 of
       ((failed, newETag, oslDirectory), s1) \<Rightarrow>
         (case cachedOSLDirectory env failed newETag oslDirectory s1 of
            (Inl err, s2) \<Rightarrow> (Return (Some err), s2)
          | (Inr oslDirectory, s2) \<Rightarrow>
             (let s3 = commitOSLDirectoryETag env config failed newETag s2 in
              case oslDirectory of
                None \<Rightarrow> (NilDereference, s3)
              | Some directory \<Rightarrow>
                 (case getSeededOSLIDs env directory s3 of
                    (oslIDs, s4) \<Rightarrow>
                      (case fetchOSLFiles env config tunnel untunneledDialConfig directory failed oslIDs s4 of
                         (failed, s5) \<Rightarrow>
                           (if failed
                            then Return (Some (New ''failed to fetch obfuscated remote server lists''))
                            else Return None, s5))))))"

subsection \<open>Reading a trace\<close>

text \<open>The ETag commits of a trace: the URL and the ETag of each call of \<^verbatim>\<open>SetUrlETag\<close>.\<close>

fun commitOf :: "event \<Rightarrow> (string \<times> string) list" where
  "commitOf (Called (SetUrlETagC url etag) ok) = [(url, etag)]"
| "commitOf e = []"

definition commits :: "event list \<Rightarrow> (string \<times> string) list" where
  "commits evs = concat (map commitOf evs)"

text \<open>
  The fetches of a trace: the source URL of each run of \<^verbatim>\<open>downloadRemoteServerListFile\<close>,
  which starts with \<^verbatim>\<open>MakeDownloadHttpClient\<close> for that URL.
\<close>

fun fetchOf :: "event \<Rightarrow> string list" where
  "fetchOf (Called (MakeDownloadHttpClientC url timeout) ok) = [url]"
| "fetchOf e = []"

definition fetches :: "event list \<Rightarrow> string list" where
  "fetches evs = concat (map fetchOf evs)"

text \<open>The failures of a trace: the calls that returned an error.\<close>

fun failureOf :: "event \<Rightarrow> call list" where
  "failureOf (Called c ok) = (if ok then [] else [c])"
| "failureOf e = []"

definition failures :: "event list \<Rightarrow> call list" where
  "failures evs = concat (map failureOf evs)"

fun isCommitCall :: "call \<Rightarrow> bool" where
  "isCommitCall (SetUrlETagC url etag) = True"
| "isCommitCall c = False"

text \<open>
  The completed downloads of a trace: the ETag sent and the ETag received by each
  \<^verbatim>\<open>ResumeDownload\<close> that returned no error; and the ETags read from the store.
\<close>

fun downloadOf :: "event \<Rightarrow> (string \<times> string) list" where
  "downloadOf (Called (ResumeDownloadC requestURL filename lastETag n responseETag) ok) =
     (if ok then [(lastETag, responseETag)] else [])"
| "downloadOf e = []"

definition downloads :: "event list \<Rightarrow> (string \<times> string) list" where
  "downloads evs = concat (map downloadOf evs)"

fun storedETagOf :: "event \<Rightarrow> (string \<times> string) list" where
  "storedETagOf (Called (GetUrlETagC url etag) ok) = (if ok then [(url, etag)] else [])"
| "storedETagOf e = []"

definition storedETags :: "event list \<Rightarrow> (string \<times> string) list" where
  "storedETags evs = concat (map storedETagOf evs)"

text \<open>
  The lookups of the cached directory: the value \<^verbatim>\<open>GetKeyValue\<close> returned and whether it
  returned no error.
\<close>

fun cacheLookupOf :: "event \<Rightarrow> (string \<times> bool) list" where
  "cacheLookupOf (Called (GetKeyValueC key v) ok) = [(v, ok)]"
| "cacheLookupOf e = []"

definition cacheLookups :: "event list \<Rightarrow> (string \<times> bool) list" where
  "cacheLookups evs = concat (map cacheLookupOf evs)"

text \<open>The steps that succeeded: unpacking with signature validation, decoding, merging.\<close>

fun isUnpacked :: "event \<Rightarrow> bool" where
  "isUnpacked (Called (ReadAuthenticatedDataPackageC key) ok) = ok"
| "isUnpacked (Called (UnpackOSLC oslID key) ok) = ok"
| "isUnpacked e = False"

fun isDecoded :: "event \<Rightarrow> bool" where
  "isDecoded (Called (DecodeAndValidateServerEntryListC serverList timestamp source) ok) = ok"
| "isDecoded e = False"

fun isMerged :: "event \<Rightarrow> bool" where
  "isMerged (Called (StoreServerEntriesC replaceIfExists) ok) = ok"
| "isMerged e = False"

fun isDirectoryUnpacked :: "event \<Rightarrow> bool" where
  "isDirectoryUnpacked (Called (UnpackDirectoryC key) ok) = ok"
| "isDirectoryUnpacked e = False"

fun isDirectoryCached :: "event \<Rightarrow> bool" where
  "isDirectoryCached (Called (SetKeyValueC key v) ok) = ok"
| "isDirectoryCached e = False"

fun isFileRead :: "event \<Rightarrow> bool" where
  "isFileRead (Called (ReadFileC filename) ok) = ok"
| "isFileRead e = False"

text \<open>The query of the seeded identifiers, and the trace before it and from it on.\<close>

definition isQuery :: "event \<Rightarrow> bool" where
  "isQuery e = (e = Called GetSeededOSLIDsC True)"

definition beforeQuery :: "event list \<Rightarrow> event list" where
  "beforeQuery evs = takeWhile (\<lambda>e. \<not> isQuery e) evs"

definition fromQuery :: "event list \<Rightarrow> event list" where
  "fromQuery evs = dropWhile (\<lambda>e. \<not> isQuery e) evs"

text \<open>
  The failures that set \<^verbatim>\<open>failed\<close> before the query (every failed call but an ETag commit)
  and the failures from the query on.
\<close>

definition directoryFailures :: "event list \<Rightarrow> call list" where
  "directoryFailures evs = filter (\<lambda>c. \<not> isCommitCall c) (failures (beforeQuery evs))"

definition fileFailures :: "event list \<Rightarrow> call list" where
  "fileFailures evs = failures (fromQuery evs)"

text \<open>
  The steps of one resource: the events since the last fetch began. \<open>sinceFetch seg evs\<close>
  is that segment after the events \<open>evs\<close>, when it was \<open>seg\<close> before them.
\<close>

fun isFetchStart :: "event \<Rightarrow> bool" where
  "isFetchStart (Called (MakeDownloadHttpClientC url timeout) ok) = True"
| "isFetchStart e = False"

fun isCommit :: "event \<Rightarrow> bool" where
  "isCommit (Called (SetUrlETagC url etag) ok) = True"
| "isCommit e = False"

fun sinceFetch :: "event list \<Rightarrow> event list \<Rightarrow> event list" where
  "sinceFetch seg [] = seg"
| "sinceFetch seg (e # es) = sinceFetch (if isFetchStart e then [e] else seg @ [e]) es"

text \<open>
  \<open>commitsFollow ready seg evs\<close>: each ETag commit among \<open>evs\<close> comes when the steps of
  its resource so far satisfy \<open>ready\<close>.
\<close>

fun commitsFollow :: "(event list \<Rightarrow> bool) \<Rightarrow> event list \<Rightarrow> event list \<Rightarrow> bool" where
  "commitsFollow ready seg [] = True"
| "commitsFollow ready seg (e # es) =
     ((isCommit e \<longrightarrow> ready seg) \<and> commitsFollow ready (sinceFetch seg [e]) es)"

text \<open>
  A list resource is ready when nothing failed since its fetch began and its payload was
  unpacked (with the signature validated), decoded and merged into the entry store. The
  directory is ready when nothing failed and its file was read, unpacked and stored in
  the cache.
\<close>

definition listMerged :: "event list \<Rightarrow> bool" where
  "listMerged seg =
     (failures seg = [] \<and> list_ex isUnpacked seg \<and> list_ex isDecoded seg \<and> list_ex isMerged seg)"

definition directoryStored :: "event list \<Rightarrow> bool" where
  "directoryStored seg =
     (failures seg = [] \<and> list_ex isFileRead seg \<and> list_ex isDirectoryUnpacked seg \<and>
      list_ex isDirectoryCached seg)"

subsection \<open>Replaying a trace\<close>

text \<open>
  A trace can be replayed on the collaborators: each call it records is made again, with
  the arguments recorded, on the world that the call before it left. What a call takes
  from the result of an earlier call, and the trace does not record, the replay keeps:

  \<^item> the HTTP client that \<^verbatim>\<open>MakeDownloadHttpClient\<close> returned, for \<^verbatim>\<open>ResumeDownload\<close>;
  \<^item> the content that \<^verbatim>\<open>ioutil.ReadFile\<close> returned, for \<^verbatim>\<open>UnpackDirectory\<close> and \<^verbatim>\<open>UnpackOSL\<close>;
  \<^item> the file reader, the zlib reader and the data package, for the calls of
    \<^verbatim>\<open>unpackRemoteServerListFile\<close>;
  \<^item> the entries that \<^verbatim>\<open>DecodeAndValidateServerEntryList\<close> returned, for
    \<^verbatim>\<open>StoreServerEntries\<close>;
  \<^item> the directory that \<^verbatim>\<open>UnpackDirectory\<close> or \<^verbatim>\<open>LoadDirectory\<close> returned last: the
    receiver of \<^verbatim>\<open>GetSeededOSLIDs\<close> and of \<^verbatim>\<open>UnpackOSL\<close>, which are replayed with the key
    lookup \<open>lookupSLOKs\<close> and, for the first, the error sink of the code;
  \<^item> the notices emitted since the last call: the alerts that the callbacks raise during a
    call of the directory come right before the record of that call.
\<close>

record ('w, 'c, 'd, 'e) machine =
  curWorld :: 'w
  curClient :: "'c option"
  curContent :: "bytes option"
  curReader :: "bytes option"
  curZlibReader :: "bytes option"
  curPackage :: "bytes option"
  curEntries :: "'e list option"
  curDirectory :: "'d option"
  curNotices :: "event list"

text \<open>The replay starts from a world and a directory (\<open>None\<close>: no directory yet).\<close>

definition machine :: "'w \<Rightarrow> 'd option \<Rightarrow> ('w, 'c, 'd, 'e) machine" where
  "machine w d =
    \<lparr> curWorld = w, curClient = None, curContent = None, curReader = None, curZlibReader = None,
      curPackage = None, curEntries = None, curDirectory = d, curNotices = [] \<rparr>"

definition endsWith :: "'a list \<Rightarrow> 'a list \<Rightarrow> bool" where
  "endsWith xs ys = (drop (length xs - length ys) xs = ys)"

fun resultOf :: "error + 'a \<Rightarrow> 'a option" where
  "resultOf (Inl err) = None"
| "resultOf (Inr v) = Some v"

text \<open>
  The replay of one call. It is \<open>None\<close> when the call does not return what the trace
  records of it (that it returned an error or none, the ETag read from the store, the size
  and the ETag of a download, the value read from the cache, the time stamp of the decoding,
  the alerts of the callbacks), or when the call needs a result that no earlier call left.
\<close>

fun replayCall ::
  "('w, 'c, 'd, 'e) env \<Rightarrow> Config \<Rightarrow> Tunnel option \<Rightarrow> DialConfig option \<Rightarrow> call \<Rightarrow> bool
    \<Rightarrow> ('w, 'c, 'd, 'e) machine \<Rightarrow> ('w, 'c, 'd, 'e) machine option" where
  "replayCall env config tunnel untunneledDialConfig (MakeDownloadHttpClientC url timeout) ok m =
    (case MakeDownloadHttpClient env config tunnel untunneledDialConfig url timeout (curWorld m) of
       (r, w) \<Rightarrow>
         if ok = succeeded r
         then Some (m\<lparr>curWorld := w, curClient := map_option fst (resultOf r)\<rparr>)
         else None)"
| "replayCall env config tunnel untunneledDialConfig (GetUrlETagC url etag) ok m =
    (case GetUrlETag env url (curWorld m) of
       (r, w) \<Rightarrow> if ok = succeeded r \<and> etag = valueOf r then Some (m\<lparr>curWorld := w\<rparr>) else None)"
| "replayCall env config tunnel untunneledDialConfig
     (ResumeDownloadC requestURL filename lastETag n responseETag) ok m =
    (case curClient m of
       None \<Rightarrow> None
     | Some httpClient \<Rightarrow>
        (case ResumeDownload env httpClient requestURL filename lastETag (curWorld m) of
           ((n', responseETag', err), w) \<Rightarrow>
             if ok = (err = None) \<and> n = n' \<and> responseETag = responseETag'
             then Some (m\<lparr>curWorld := w\<rparr>)
             else None))"
| "replayCall env config tunnel untunneledDialConfig (RecordRemoteServerListStatC url etag) ok m =
    (if ok then Some (m\<lparr>curWorld := RecordRemoteServerListStat env url etag (curWorld m)\<rparr>) else None)"
| "replayCall env config tunnel untunneledDialConfig (SetUrlETagC url etag) ok m =
    (case SetUrlETag env url etag (curWorld m) of
       (r, w) \<Rightarrow> if ok = (r = None) then Some (m\<lparr>curWorld := w\<rparr>) else None)"
| "replayCall env config tunnel untunneledDialConfig (ReadFileC filename) ok m =
    (case ReadFile env filename (curWorld m) of
       (r, w) \<Rightarrow>
         if ok = succeeded r then Some (m\<lparr>curWorld := w, curContent := resultOf r\<rparr>) else None)"
| "replayCall env config tunnel untunneledDialConfig (OpenC filename) ok m =
    (case Open env filename (curWorld m) of
       (r, w) \<Rightarrow>
         if ok = succeeded r then Some (m\<lparr>curWorld := w, curReader := resultOf r\<rparr>) else None)"
| "replayCall env config tunnel untunneledDialConfig (CloseC filename) ok m =
    (if ok then Some (m\<lparr>curWorld := Close env filename (curWorld m)\<rparr>) else None)"
| "replayCall env config tunnel untunneledDialConfig ZlibNewReaderC ok m =
    (case curReader m of
       None \<Rightarrow> None
     | Some fileReader \<Rightarrow>
        (case ZlibNewReader env fileReader (curWorld m) of
           (r, w) \<Rightarrow>
             if ok = succeeded r then Some (m\<lparr>curWorld := w, curZlibReader := resultOf r\<rparr>)
             else None))"
| "replayCall env config tunnel untunneledDialConfig ReadAllC ok m =
    (case curZlibReader m of
       None \<Rightarrow> None
     | Some zlibReader \<Rightarrow>
        (case ReadAll env zlibReader (curWorld m) of
           (r, w) \<Rightarrow>
             if ok = succeeded r then Some (m\<lparr>curWorld := w, curPackage := resultOf r\<rparr>)
             else None))"
| "replayCall env config tunnel untunneledDialConfig ZlibCloseC ok m =
    (if ok then Some m else None)"
| "replayCall env config tunnel untunneledDialConfig (ReadAuthenticatedDataPackageC key) ok m =
    (case curPackage m of
       None \<Rightarrow> None
     | Some dataPackage \<Rightarrow>
        (case ReadAuthenticatedDataPackage env dataPackage key (curWorld m) of
           (r, w) \<Rightarrow> if ok = succeeded r then Some (m\<lparr>curWorld := w\<rparr>) else None))"
| "replayCall env config tunnel untunneledDialConfig
     (DecodeAndValidateServerEntryListC serverList timestamp source) ok m =
    (case DecodeAndValidateServerEntryList env serverList timestamp source (curWorld m) of
       (r, w) \<Rightarrow>
         if ok = succeeded r \<and> timestamp = GetCurrentTimestamp env (curWorld m)
         then Some (m\<lparr>curWorld := w, curEntries := resultOf r\<rparr>)
         else None)"
| "replayCall env config tunnel untunneledDialConfig (StoreServerEntriesC replaceIfExists) ok m =
    (case curEntries m of
       None \<Rightarrow> None
     | Some entries \<Rightarrow>
        (case StoreServerEntries env entries replaceIfExists (curWorld m) of
           (r, w) \<Rightarrow> if ok = (r = None) then Some (m\<lparr>curWorld := w\<rparr>) else None))"
| "replayCall env config tunnel untunneledDialConfig (UnpackDirectoryC key) ok m =
    (case curContent m of
       None \<Rightarrow> None
     | Some fileContent \<Rightarrow>
        (case UnpackDirectory env fileContent key (curWorld m) of
           (r, w) \<Rightarrow>
             if ok = succeeded r
             then Some (m\<lparr>curWorld := w, curDirectory := map_option fst (resultOf r)\<rparr>)
             else None))"
| "replayCall env config tunnel untunneledDialConfig (SetKeyValueC key v) ok m =
    (case SetKeyValue env key v (curWorld m) of
       (r, w) \<Rightarrow> if ok = (r = None) then Some (m\<lparr>curWorld := w\<rparr>) else None)"
| "replayCall env config tunnel untunneledDialConfig (GetKeyValueC key v) ok m =
    (case GetKeyValue env key (curWorld m) of
       (r, w) \<Rightarrow> if ok = succeeded r \<and> v = valueOf r then Some (m\<lparr>curWorld := w\<rparr>) else None)"
| "replayCall env config tunnel untunneledDialConfig (LoadDirectoryC oslDirectoryJSON) ok m =
    (case LoadDirectory env (bytes_of_string oslDirectoryJSON) (curWorld m) of
       (r, w) \<Rightarrow>
         if ok = succeeded r then Some (m\<lparr>curWorld := w, curDirectory := resultOf r\<rparr>) else None)"
| "replayCall env config tunnel untunneledDialConfig GetSeededOSLIDsC ok m =
    (case curDirectory m of
       None \<Rightarrow> None
     | Some oslDirectory \<Rightarrow>
        (case GetSeededOSLIDs env oslDirectory (lookupSLOKs env) seededOSLIDsErrorSink (curWorld m) of
           ((oslIDs, raised), w) \<Rightarrow>
             if ok \<and> endsWith (curNotices m) (map alertEvent raised)
             then Some (m\<lparr>curWorld := w\<rparr>)
             else None))"
| "replayCall env config tunnel untunneledDialConfig (UnpackOSLC oslID key) ok m =
    (case curDirectory m of
       None \<Rightarrow> None
     | Some oslDirectory \<Rightarrow>
        (case curContent m of
           None \<Rightarrow> None
         | Some fileContent \<Rightarrow>
            (case UnpackOSL env oslDirectory (lookupSLOKs env) oslID fileContent key (curWorld m) of
               ((r, raised), w) \<Rightarrow>
                 if ok = succeeded r \<and> endsWith (curNotices m) (map alertEvent raised)
                 then Some (m\<lparr>curWorld := w\<rparr>)
                 else None)))"

text \<open>
  The replay of an event and of a trace. A notice leaves the world as it is. When
  \<open>replay env config tunnel untunneledDialConfig evs m = Some m'\<close>, the events \<open>evs\<close> are
  an account of what was done to the world between \<open>curWorld m\<close> and \<open>curWorld m'\<close>: these
  calls, in this order, each on the world the one before it left, and nothing else.
\<close>

fun replayEvent ::
  "('w, 'c, 'd, 'e) env \<Rightarrow> Config \<Rightarrow> Tunnel option \<Rightarrow> DialConfig option \<Rightarrow> event
    \<Rightarrow> ('w, 'c, 'd, 'e) machine \<Rightarrow> ('w, 'c, 'd, 'e) machine option" where
  "replayEvent env config tunnel untunneledDialConfig (Called c ok) m =
    map_option (\<lambda>m'. m'\<lparr>curNotices := []\<rparr>) (replayCall env config tunnel untunneledDialConfig c ok m)"
| "replayEvent env config tunnel untunneledDialConfig e m = Some (m\<lparr>curNotices := curNotices m @ [e]\<rparr>)"

fun replay ::
  "('w, 'c, 'd, 'e) env \<Rightarrow> Config \<Rightarrow> Tunnel option \<Rightarrow> DialConfig option \<Rightarrow> event list
    \<Rightarrow> ('w, 'c, 'd, 'e) machine \<Rightarrow> ('w, 'c, 'd, 'e) machine option" where
  "replay env config tunnel untunneledDialConfig [] m = Some m"
| "replay env config tunnel untunneledDialConfig (e # es) m =
    (case replayEvent env config tunnel untunneledDialConfig e m of
       None \<Rightarrow> None
     | Some m' \<Rightarrow> replay env config tunnel untunneledDialConfig es m')"

text \<open>
  For the lemmas on the blocks of the code: the events replay from the world \<open>w\<close> and the
  directory \<open>d\<close> to the world \<open>w'\<close> and the directory \<open>d'\<close>, whatever else the replay
  holds when it starts.
\<close>

definition replays ::
  "('w, 'c, 'd, 'e) env \<Rightarrow> Config \<Rightarrow> Tunnel option \<Rightarrow> DialConfig option \<Rightarrow> event list
    \<Rightarrow> 'w \<Rightarrow> 'd option \<Rightarrow> 'w \<Rightarrow> 'd option \<Rightarrow> bool" where
  "replays env config tunnel untunneledDialConfig evs w d w' d' =
    (\<forall>m. curWorld m = w \<and> curDirectory m = d \<longrightarrow>
       (\<exists>m'. replay env config tunnel untunneledDialConfig evs m = Some m' \<and> curWorld m' = w' \<and>
             curDirectory m' = d'))"

subsection \<open>The steps of one gated file\<close>

text \<open>
  A download that brought new content: it returned no error, and an ETag that is neither
  the one sent nor empty. The attempts to decode a payload.
\<close>

fun isNewContent :: "event \<Rightarrow> bool" where
  "isNewContent (Called (ResumeDownloadC requestURL filename lastETag n responseETag) ok) =
     (ok \<and> responseETag \<noteq> lastETag \<and> responseETag \<noteq> '''')"
| "isNewContent e = False"

fun isDecodeAttempt :: "event \<Rightarrow> bool" where
  "isDecodeAttempt (Called (DecodeAndValidateServerEntryListC serverList timestamp source) ok) = True"
| "isDecodeAttempt e = False"

text \<open>A call was attempted when the trace records it, and completed when it returned no error.\<close>

definition attempted :: "call \<Rightarrow> event list \<Rightarrow> bool" where
  "attempted c evs = (Called c True \<in> set evs \<or> Called c False \<in> set evs)"

definition completed :: "call \<Rightarrow> event list \<Rightarrow> bool" where
  "completed c evs = (Called c True \<in> set evs)"

text \<open>
  \<open>attemptOf env config oslID seg\<close>: the events \<open>seg\<close> are the whole attempt of the loop
  for the identifier \<open>oslID\<close>. They begin with the fetch of its file, the only fetch among
  them, and each later step is attempted exactly when the step before it succeeded: the
  file is read when the download brought new content, unpacked when it was read, the
  payload decoded when the file was unpacked, the entries merged when they were decoded,
  and the ETag committed when they were merged.
\<close>

definition attemptOf :: "('w, 'c, 'd, 'e) env \<Rightarrow> Config \<Rightarrow> bytes \<Rightarrow> event list \<Rightarrow> bool" where
  "attemptOf env config oslID seg =
    (let downloadFilename = GetOSLFilename env (ObfuscatedServerListDownloadDirectory config) oslID;
         downloadURL = GetOSLFileURL env (ObfuscatedServerListRootURL config) oslID;
         key = RemoteServerListSignaturePublicKey config
     in list_ex isFetchStart (take 1 seg) \<and> fetches seg = [downloadURL] \<and>
        attempted (ReadFileC downloadFilename) seg = list_ex isNewContent seg \<and>
        attempted (UnpackOSLC oslID key) seg = completed (ReadFileC downloadFilename) seg \<and>
        list_ex isDecodeAttempt seg = completed (UnpackOSLC oslID key) seg \<and>
        attempted (StoreServerEntriesC True) seg = list_ex isDecoded seg \<and>
        list_ex isCommit seg = completed (StoreServerEntriesC True) seg)"

subsection \<open>Summaries of the blocks\<close>

text \<open>
  What the events of one block of the code satisfy. The lemmas of the next section prove
  these summaries, block by block, and the theorems combine them.

  A step (a download, an unpack, a merge) makes no ETag commit, and returns no error exactly
  when none of its calls failed.
\<close>

definition stepFacts :: "error option \<Rightarrow> event list \<Rightarrow> bool" where
  "stepFacts err evs =
    (commits evs = [] \<and> \<not> list_ex isCommit evs \<and> (err = None) = (failures evs = []))"

text \<open>\<^verbatim>\<open>FetchCommonRemoteServerList\<close>, with its result \<open>r\<close>.\<close>

definition commonFacts :: "Config \<Rightarrow> error option \<Rightarrow> event list \<Rightarrow> bool" where
  "commonFacts config r evs =
    (fetches evs = [RemoteServerListUrl config] \<and>
     commitsFollow listMerged [] evs \<and>
     set (commits evs) \<subseteq> {RemoteServerListUrl config} \<times> UNIV \<and>
     (r \<noteq> None \<longrightarrow> commits evs = []) \<and>
     (r \<noteq> None) = (filter (\<lambda>c. \<not> isCommitCall c) (failures evs) \<noteq> []))"

text \<open>The download of the directory (lines 119 to 153), with the variables it leaves.\<close>

definition directoryFacts ::
  "string \<Rightarrow> bool \<Rightarrow> string \<Rightarrow> 'd option \<Rightarrow> event list \<Rightarrow> bool" where
  "directoryFacts url failed tag d evs =
    (fetches evs = [url] \<and> commits evs = [] \<and> cacheLookups evs = [] \<and> \<not> list_ex isQuery evs \<and>
     failed = (failures evs \<noteq> []) \<and> filter isCommitCall (failures evs) = [] \<and>
     (\<not> failed \<and> tag \<noteq> '''') = list_ex isDirectoryCached evs \<and>
     (\<not> failed \<and> tag \<noteq> '''' \<longrightarrow>
        d \<noteq> None \<and> directoryStored evs \<and>
        (\<exists>lastETag. downloads evs = [(lastETag, tag)] \<and> tag \<noteq> lastETag)) \<and>
     (\<forall>lastETag responseETag.
        downloads evs = [(lastETag, responseETag)] \<and> (responseETag = lastETag \<or> responseETag = '''')
        \<longrightarrow> tag = '''') \<and>
     (\<forall>seg. sinceFetch seg evs = evs) \<and> \<not> list_ex isCommit evs)"

text \<open>The fallback to the cached directory (lines 155 to 169), with its result \<open>r\<close>.\<close>

definition cacheFacts ::
  "bool \<Rightarrow> string \<Rightarrow> 'd option \<Rightarrow> error + 'd option \<Rightarrow> event list \<Rightarrow> bool" where
  "cacheFacts failed tag d r evs =
    (fetches evs = [] \<and> commits evs = [] \<and> downloads evs = [] \<and> \<not> list_ex isQuery evs \<and>
     \<not> list_ex isDirectoryCached evs \<and> \<not> list_ex isFetchStart evs \<and> \<not> list_ex isCommit evs \<and>
     (failed \<or> tag = '''') = (cacheLookups evs \<noteq> []) \<and>
     (\<not> (failed \<or> tag = '''') \<longrightarrow> evs = [] \<and> r = Inr d) \<and>
     (\<forall>v ok. cacheLookups evs = [(v, ok)] \<and> (\<not> ok \<or> v = '''') \<longrightarrow>
        (\<exists>e. r = Inl (Errorf ''failed to get cached obfuscated server list directory''
                        (ContextError e))) \<and>
        length evs = 1) \<and>
     (cacheLookups evs = [('''', True)] \<longrightarrow>
        r = Inl (Errorf ''failed to get cached obfuscated server list directory''
                   (ContextError (New ''not found'')))) \<and>
     (\<forall>x. r = Inr x \<longrightarrow> failures evs = [] \<and> (failed \<or> tag = '''' \<longrightarrow> x \<noteq> None)) \<and>
     (\<forall>e. r = Inl e \<longrightarrow>
        (\<exists>e'. e = Errorf ''failed to get cached obfuscated server list directory'' (ContextError e') \<or>
              e = Errorf ''failed to load obfuscated server list directory'' (ContextError e'))))"

text \<open>The commit of the directory's ETag (lines 173 to 179).\<close>

definition commitFacts :: "Config \<Rightarrow> bool \<Rightarrow> string \<Rightarrow> event list \<Rightarrow> bool" where
  "commitFacts config failed tag evs =
    (fetches evs = [] \<and> cacheLookups evs = [] \<and> downloads evs = [] \<and> \<not> list_ex isQuery evs \<and>
     \<not> list_ex isDirectoryCached evs \<and> \<not> list_ex isFetchStart evs \<and>
     commits evs = (if \<not> failed \<and> tag \<noteq> '''' then [(RemoteServerListUrl config, tag)] else []) \<and>
     (if \<not> failed \<and> tag \<noteq> ''''
      then \<exists>ok rest. evs = Called (SetUrlETagC (RemoteServerListUrl config) tag) ok # rest \<and> commits rest = []
      else evs = []) \<and>
     filter (\<lambda>c. \<not> isCommitCall c) (failures evs) = [] \<and>
     (\<forall>ready seg. (\<not> failed \<and> tag \<noteq> '''' \<longrightarrow> ready seg) \<longrightarrow> commitsFollow ready seg evs))"

text \<open>The body of the loop and the loop (lines 199 to 254), with \<^verbatim>\<open>failed\<close> before and after.\<close>

definition fileFacts :: "Config \<Rightarrow> bool \<Rightarrow> bool \<Rightarrow> event list \<Rightarrow> bool" where
  "fileFacts config failed failed' evs =
    (failed' = (failed \<or> failures evs \<noteq> []) \<and> cacheLookups evs = [] \<and> \<not> list_ex isQuery evs \<and>
     \<not> list_ex isDirectoryCached evs \<and>
     set (commits evs) \<subseteq> {RemoteServerListUrl config} \<times> UNIV \<and>
     (\<forall>seg. commitsFollow listMerged seg evs))"

subsection \<open>A small world to run the code in\<close>

text \<open>
  For the examples: a data store with its ETags, its key/value pairs and its server
  entries, and collaborators that act on it. \<open>served\<close> gives the ETag the server answers
  with for a URL (\<open>None\<close>: the transfer fails), \<open>seededIDs\<close> the identifiers the directory
  unlocks, and \<open>commitOK\<close> whether \<^verbatim>\<open>SetUrlETag\<close> can write.
\<close>

record store =
  etags :: "(string \<times> string) list"
  keyValues :: "(string \<times> string) list"
  serverEntries :: "string list"

definition lookupOr :: "(string \<times> string) list \<Rightarrow> string \<Rightarrow> string" where
  "lookupOr kvs k = (case map_of kvs k of None \<Rightarrow> '''' | Some v \<Rightarrow> v)"

definition exampleEnv ::
  "(string \<Rightarrow> string option) \<Rightarrow> bytes list \<Rightarrow> bool \<Rightarrow> (store, unit, bytes list, string) env" where
  "exampleEnv served seededIDs commitOK =
    \<lparr> MakeDownloadHttpClient = (\<lambda>config tunnel untunneledDialConfig url timeout w. (Inr ((), url), w)),
      GetUrlETag = (\<lambda>url w. (Inr (lookupOr (etags w) url), w)),
      ResumeDownload = (\<lambda>httpClient requestURL filename lastETag w.
        case served requestURL of
          None \<Rightarrow> ((0, '''', Some (New ''connection reset'')), w)
        | Some etag \<Rightarrow> ((if etag = lastETag then 0 else 100, etag, None), w)),
      RecordRemoteServerListStat = (\<lambda>url etag w. w),
      SetUrlETag = (\<lambda>url etag w.
        if commitOK then (None, w\<lparr>etags := (url, etag) # etags w\<rparr>)
        else (Some (New ''read-only data store''), w)),
      ReadFile = (\<lambda>filename w. (Inr [], w)),
      Open = (\<lambda>filename w. (Inr [], w)),
      Close = (\<lambda>filename w. w),
      ZlibNewReader = (\<lambda>fileReader w. (Inr fileReader, w)),
      ReadAll = (\<lambda>zlibReader w. (Inr zlibReader, w)),
      ReadAuthenticatedDataPackage = (\<lambda>dataPackage key w. (Inr ''common entries'', w)),
      GetCurrentTimestamp = (\<lambda>w. ''2017-01-01T00:00:00Z''),
      SERVER_ENTRY_SOURCE_REMOTE = ''REMOTE'',
      DecodeAndValidateServerEntryList = (\<lambda>serverList timestamp source w. (Inr [serverList], w)),
      StoreServerEntries = (\<lambda>entries replaceIfExists w.
        (None, w\<lparr>serverEntries := serverEntries w @ entries\<rparr>)),
      GetOSLDirectoryFilename = (\<lambda>directory. directory @ ''/osl-directory''),
      GetOSLDirectoryURL = (\<lambda>rootURL. rootURL @ ''/osl-directory''),
      GetOSLFilename = (\<lambda>directory oslID. directory @ ''/osl-'' @ EncodeToString oslID),
      GetOSLFileURL = (\<lambda>rootURL oslID. rootURL @ ''/osl-'' @ EncodeToString oslID),
      UnpackDirectory = (\<lambda>fileContent key w. (Inr (seededIDs, [123, 125]), w)),
      DATA_STORE_OSL_DIRECTORY_KEY = ''OSLDirectory'',
      SetKeyValue = (\<lambda>key v w. (None, w\<lparr>keyValues := (key, v) # keyValues w\<rparr>)),
      GetKeyValue = (\<lambda>key w. (Inr (lookupOr (keyValues w) key), w)),
      LoadDirectory = (\<lambda>oslDirectoryJSON w. (Inr seededIDs, w)),
      GetSLOK = (\<lambda>slokID w. (([], None), w)),
      GetSeededOSLIDs = (\<lambda>directory lookup sink w. ((directory, []), w)),
      UnpackOSL = (\<lambda>directory lookup oslID fileContent key w. ((Inr ''gated entries'', []), w)) \<rparr>"

definition exampleConfig :: Config where
  "exampleConfig =
    \<lparr> RemoteServerListUrl = ''https://example.org/server_list'',
      RemoteServerListDownloadFilename = ''/data/server_list'',
      RemoteServerListSignaturePublicKey = ''key'',
      ObfuscatedServerListRootURL = ''https://example.org/osl'',
      ObfuscatedServerListDownloadDirectory = ''/data/osl'',
      FetchRemoteServerListTimeoutSeconds = 30 \<rparr>"

definition emptyStore :: "store state" where
  "emptyStore = \<lparr>world = \<lparr>etags = [], keyValues = [], serverEntries = []\<rparr>, trace = []\<rparr>"

text \<open>A server that answers every URL with the same ETag, and one that answers none.\<close>

definition serveAll :: "string \<Rightarrow> string \<Rightarrow> string option" where
  "serveAll etag url = Some etag"

definition serveNone :: "string \<Rightarrow> string option" where
  "serveNone url = None"

text \<open>A store that already holds ETags, and a server that answers per URL.\<close>

definition storeWith :: "(string \<times> string) list \<Rightarrow> store state" where
  "storeWith tags = \<lparr>world = \<lparr>etags = tags, keyValues = [], serverEntries = []\<rparr>, trace = []\<rparr>"

definition serveGated :: "string \<Rightarrow> string option" where
  "serveGated url = (if url = ''https://example.org/osl/osl-directory'' then Some ''d1'' else Some ''f1'')"

text \<open>A server on which the transfer of the first gated file fails.\<close>

definition serveButFirst :: "string \<Rightarrow> string option" where
  "serveButFirst url = (if url = ''https://example.org/osl/osl-01'' then None else Some ''f1'')"

text \<open>
  A store after an earlier cycle: it holds the directory's ETag under the directory's URL,
  and the directory in the cache.
\<close>

definition cachedStore :: "store state" where
  "cachedStore =
    \<lparr>world = \<lparr>etags = [(''https://example.org/osl/osl-directory'', ''d1'')],
               keyValues = [(''OSLDirectory'', ''{}'')], serverEntries = []\<rparr>,
     trace = []\<rparr>"

text \<open>Collaborators whose key/value store cannot be read.\<close>

definition unreadableEnv :: "(store, unit, bytes list, string) env" where
  "unreadableEnv =
    (exampleEnv serveNone [] True)\<lparr>GetKeyValue := (\<lambda>key w. (Inl (New ''no such bucket''), w))\<rparr>"

text \<open>
  Collaborators whose directory uses the two callbacks. The directory lists identifiers;
  \<^verbatim>\<open>GetSeededOSLIDs\<close> looks the key of each identifier up, returns the identifiers whose
  key is not empty and hands an error to the sink for each of the others. The data store
  holds one key, for the identifier \<open>[1]\<close>.
\<close>

fun seededWith ::
  "(bytes \<Rightarrow> 'w \<Rightarrow> (bytes \<times> alert list) \<times> 'w) \<Rightarrow> (error \<Rightarrow> alert list) \<Rightarrow> bytes list \<Rightarrow> 'w
    \<Rightarrow> (bytes list \<times> alert list) \<times> 'w" where
  "seededWith lookup sink [] w = (([], []), w)"
| "seededWith lookup sink (oslID # rest) w =
    (case lookup oslID w of
       ((key, raised), w1) \<Rightarrow>
         (case seededWith lookup sink rest w1 of
            ((oslIDs, raised'), w2) \<Rightarrow>
              if key = [] then ((oslIDs, raised @ sink (New ''no key'') @ raised'), w2)
              else ((oslID # oslIDs, raised @ raised'), w2)))"

definition keyedEnv ::
  "(string \<Rightarrow> string option) \<Rightarrow> bytes list \<Rightarrow> (store, unit, bytes list, string) env" where
  "keyedEnv served directory =
    (exampleEnv served directory True)
      \<lparr> GetSLOK := (\<lambda>slokID w. if slokID = [1] then (([7], None), w)
                               else (([], Some (New ''no such key'')), w)),
        GetSeededOSLIDs := (\<lambda>directory lookup sink w. seededWith lookup sink directory w) \<rparr>"

text \<open>A server on which the transfer of the directory fails.\<close>

definition serveButDirectory :: "string \<Rightarrow> string option" where
  "serveButDirectory url =
    (if url = ''https://example.org/osl/osl-directory'' then None else Some ''f1'')"

section \<open>The events of each block\<close>

text \<open>
  First the readers of a trace on an empty trace, on an event, on two traces joined and on
  the alerts of a callback; then, for each function and block of the code, the events it
  adds to the trace and what they satisfy.
\<close>

lemma commits_simps [simp]:
  "commits [] = []" "commits (e # es) = commitOf e @ commits es"
  "commits (xs @ ys) = commits xs @ commits ys" "commits (map alertEvent raised) = []"
  by (induction raised) (simp_all add: commits_def alertEvent_def)

lemma fetches_simps [simp]:
  "fetches [] = []" "fetches (e # es) = fetchOf e @ fetches es"
  "fetches (xs @ ys) = fetches xs @ fetches ys" "fetches (map alertEvent raised) = []"
  by (induction raised) (simp_all add: fetches_def alertEvent_def)

lemma failures_simps [simp]:
  "failures [] = []" "failures (e # es) = failureOf e @ failures es"
  "failures (xs @ ys) = failures xs @ failures ys" "failures (map alertEvent raised) = []"
  by (induction raised) (simp_all add: failures_def alertEvent_def)

lemma downloads_simps [simp]:
  "downloads [] = []" "downloads (e # es) = downloadOf e @ downloads es"
  "downloads (xs @ ys) = downloads xs @ downloads ys" "downloads (map alertEvent raised) = []"
  by (induction raised) (simp_all add: downloads_def alertEvent_def)

lemma storedETags_simps [simp]:
  "storedETags [] = []" "storedETags (e # es) = storedETagOf e @ storedETags es"
  "storedETags (xs @ ys) = storedETags xs @ storedETags ys" "storedETags (map alertEvent raised) = []"
  by (induction raised) (simp_all add: storedETags_def alertEvent_def)

lemma cacheLookups_simps [simp]:
  "cacheLookups [] = []" "cacheLookups (e # es) = cacheLookupOf e @ cacheLookups es"
  "cacheLookups (xs @ ys) = cacheLookups xs @ cacheLookups ys" "cacheLookups (map alertEvent raised) = []"
  by (induction raised) (simp_all add: cacheLookups_def alertEvent_def)

lemma list_ex_append_simp [simp]: "list_ex P (xs @ ys) = (list_ex P xs \<or> list_ex P ys)"
  by (induction xs) simp_all

lemma alerts_are_no_steps [simp]:
  "\<not> list_ex isQuery (map alertEvent raised)"
  "\<not> list_ex isDirectoryCached (map alertEvent raised)"
  "\<not> list_ex isDirectoryUnpacked (map alertEvent raised)"
  "\<not> list_ex isFileRead (map alertEvent raised)"
  "\<not> list_ex isUnpacked (map alertEvent raised)"
  "\<not> list_ex isDecoded (map alertEvent raised)"
  "\<not> list_ex isMerged (map alertEvent raised)"
  "\<not> list_ex isFetchStart (map alertEvent raised)"
  "\<not> list_ex isCommit (map alertEvent raised)"
  by (induction raised) (simp_all add: alertEvent_def isQuery_def)

lemma isQuery_simps [simp]:
  "isQuery (Called c ok) = (c = GetSeededOSLIDsC \<and> ok)"
  "\<not> isQuery (NoticeInfo m)" "\<not> isQuery (NoticeAlert m args e)"
  "\<not> isQuery (NoticeRemoteServerListResourceDownloadedBytes u n)"
  "\<not> isQuery (NoticeRemoteServerListResourceDownloaded u)"
  by (auto simp: isQuery_def)

lemma sinceFetch_append [simp]: "sinceFetch seg (xs @ ys) = sinceFetch (sinceFetch seg xs) ys"
  by (induction xs arbitrary: seg) simp_all

lemma sinceFetch_no_start: "\<not> list_ex isFetchStart xs \<Longrightarrow> sinceFetch seg xs = seg @ xs"
  by (induction xs arbitrary: seg) simp_all

lemma sinceFetch_alerts [simp]: "sinceFetch seg (map alertEvent raised) = seg @ map alertEvent raised"
  by (simp add: sinceFetch_no_start)

lemma commitsFollow_append [simp]:
  "commitsFollow ready seg (xs @ ys) =
     (commitsFollow ready seg xs \<and> commitsFollow ready (sinceFetch seg xs) ys)"
  by (induction xs arbitrary: seg) auto

lemma commitsFollow_no_commit: "\<not> list_ex isCommit xs \<Longrightarrow> commitsFollow ready seg xs"
  by (induction xs arbitrary: seg) simp_all

lemma commitsFollow_alerts [simp]: "commitsFollow ready seg (map alertEvent raised)"
  by (simp add: commitsFollow_no_commit)

lemma commitsFollow_mono:
  "commitsFollow ready seg xs \<Longrightarrow> (\<And>seg. ready seg \<Longrightarrow> ready' seg) \<Longrightarrow> commitsFollow ready' seg xs"
  by (induction xs arbitrary: seg) auto

lemma beforeQuery_simps [simp]:
  "beforeQuery [] = []"
  "beforeQuery (e # es) = (if isQuery e then [] else e # beforeQuery es)"
  by (simp_all add: beforeQuery_def)

lemma fromQuery_simps [simp]:
  "fromQuery [] = []"
  "fromQuery (e # es) = (if isQuery e then e # es else fromQuery es)"
  by (simp_all add: fromQuery_def)

lemma beforeQuery_append:
  "\<not> list_ex isQuery xs \<Longrightarrow> beforeQuery (xs @ ys) = xs @ beforeQuery ys"
  by (induction xs) simp_all

lemma fromQuery_append:
  "\<not> list_ex isQuery xs \<Longrightarrow> fromQuery (xs @ ys) = fromQuery ys"
  by (induction xs) simp_all

lemma beforeQuery_none: "\<not> list_ex isQuery xs \<Longrightarrow> beforeQuery xs = xs"
  by (induction xs) simp_all

lemma fromQuery_none: "\<not> list_ex isQuery xs \<Longrightarrow> fromQuery xs = []"
  by (induction xs) simp_all

text \<open>The steps of the code: a download, an unpack, a merge.\<close>

lemmas step_defs = call_def callV_def emit_def

lemma download_effect:
  assumes "downloadRemoteServerListFile env config tunnel dial url file s = ((tag, err), s')"
  shows "\<exists>evs. trace s' = trace s @ evs \<and> fetches evs = [url] \<and> stepFacts err evs \<and>
           (\<forall>seg. sinceFetch seg evs = evs)"
  using assms
  by (auto simp: downloadRemoteServerListFile_def step_defs Let_def stepFacts_def
           split: prod.splits sum.splits option.splits if_splits)

lemma unpack_effect:
  assumes "unpackRemoteServerListFile env config file s = ((payload, err), s')"
  shows "\<exists>evs. trace s' = trace s @ evs \<and> fetches evs = [] \<and> stepFacts err evs \<and>
           \<not> list_ex isFetchStart evs \<and> (err = None \<longrightarrow> list_ex isUnpacked evs)"
  using assms
  by (auto simp: unpackRemoteServerListFile_def step_defs Let_def stepFacts_def
           split: prod.splits sum.splits option.splits if_splits)

lemma store_effect:
  assumes "storeServerEntries env serverList s = (err, s')"
  shows "\<exists>evs. trace s' = trace s @ evs \<and> fetches evs = [] \<and> stepFacts err evs \<and>
           \<not> list_ex isFetchStart evs \<and> (err = None \<longrightarrow> list_ex isDecoded evs \<and> list_ex isMerged evs)"
  using assms
  by (auto simp: storeServerEntries_def step_defs Let_def stepFacts_def
           split: prod.splits sum.splits option.splits if_splits)

lemma stepFacts_no_commit:
  "stepFacts err evs \<Longrightarrow> \<not> list_ex isCommit evs"
  by (simp add: stepFacts_def)

lemma no_commit_failures:
  "\<not> list_ex isCommit evs \<Longrightarrow> filter (\<lambda>c. \<not> isCommitCall c) (failures evs) = failures evs"
proof (induction evs)
  case Nil
  then show ?case by simp
next
  case (Cons e evs)
  then show ?case
    by (cases e) (auto split: if_splits elim: isCommit.elims isCommitCall.elims)
qed

text \<open>The common list synchroniser, from its three steps and its commit.\<close>

lemma FetchCommonRemoteServerList_effect:
  assumes run: "FetchCommonRemoteServerList env config tunnel dial s = (r, s')"
  shows "\<exists>evs. trace s' = trace s @ evs \<and> commonFacts config r evs"
proof -
  let ?s0 = "emit (NoticeInfo ''fetching common remote server list'') s"
  obtain tag err s1 where dl:
    "downloadRemoteServerListFile env config tunnel dial (RemoteServerListUrl config)
       (RemoteServerListDownloadFilename config) ?s0 = ((tag, err), s1)"
    by (metis surj_pair)
  from download_effect[OF dl] obtain evs1 where e1:
    "trace s1 = trace ?s0 @ evs1" "fetches evs1 = [RemoteServerListUrl config]" "stepFacts err evs1"
    "\<And>seg. sinceFetch seg evs1 = evs1" by blast
  have t0: "trace ?s0 = trace s @ [NoticeInfo ''fetching common remote server list'']"
    by (simp add: emit_def)
  note nc1 = no_commit_failures[OF stepFacts_no_commit[OF e1(3)]]
  show ?thesis
  proof (cases "err = None \<and> tag \<noteq> ''''")
    case False
    then have "s' = s1" "(r \<noteq> None) = (err \<noteq> None)"
      using run dl by (auto simp: FetchCommonRemoteServerList_def split: option.splits)
    then show ?thesis
      using e1 t0 nc1
      by (intro exI[of _ "NoticeInfo ''fetching common remote server list'' # evs1"])
         (auto simp: commonFacts_def stepFacts_def commitsFollow_no_commit)
  next
    case True
    obtain payload uerr s2 where up:
      "unpackRemoteServerListFile env config (RemoteServerListDownloadFilename config) s1 = ((payload, uerr), s2)"
      by (metis surj_pair)
    from unpack_effect[OF up] obtain evs2 where e2:
      "trace s2 = trace s1 @ evs2" "fetches evs2 = []" "stepFacts uerr evs2"
      "\<not> list_ex isFetchStart evs2" "uerr = None \<longrightarrow> list_ex isUnpacked evs2" by blast
    note nc2 = no_commit_failures[OF stepFacts_no_commit[OF e2(3)]]
    show ?thesis
    proof (cases uerr)
      case (Some e)
      then have "s' = s2" "r \<noteq> None"
        using run dl up True by (auto simp: FetchCommonRemoteServerList_def)
      then show ?thesis
        using e1 e2 t0 nc1 nc2 Some
        by (intro exI[of _ "NoticeInfo ''fetching common remote server list'' # evs1 @ evs2"])
           (auto simp: commonFacts_def stepFacts_def commitsFollow_no_commit)
    next
      case None
      obtain serr s3 where st: "storeServerEntries env payload s2 = (serr, s3)"
        by (metis surj_pair)
      from store_effect[OF st] obtain evs3 where e3:
        "trace s3 = trace s2 @ evs3" "fetches evs3 = []" "stepFacts serr evs3"
        "\<not> list_ex isFetchStart evs3" "serr = None \<longrightarrow> list_ex isDecoded evs3 \<and> list_ex isMerged evs3"
        by blast
      note nc3 = no_commit_failures[OF stepFacts_no_commit[OF e3(3)]]
      show ?thesis
      proof (cases serr)
        case (Some e)
        then have "s' = s3" "r \<noteq> None"
          using run dl up st True None by (auto simp: FetchCommonRemoteServerList_def)
        then show ?thesis
          using e1 e2 e3 t0 nc1 nc2 nc3 Some
          by (intro exI[of _ "NoticeInfo ''fetching common remote server list'' # evs1 @ evs2 @ evs3"])
             (auto simp: commonFacts_def stepFacts_def commitsFollow_no_commit)
      next
        case sNone: None
        have ready: "listMerged (evs1 @ evs2 @ evs3)"
          using e1(3) e2(3,5) e3(3,5) True None sNone by (auto simp: listMerged_def stepFacts_def)
        have seg: "sinceFetch [NoticeInfo ''fetching common remote server list''] (evs1 @ evs2 @ evs3)
                     = evs1 @ evs2 @ evs3"
          using e1(4) e2(4) e3(4) by (simp add: sinceFetch_no_start)
        have pre: "commitsFollow listMerged [NoticeInfo ''fetching common remote server list''] (evs1 @ evs2 @ evs3)"
          using e1(3) e2(3) e3(3) by (intro commitsFollow_no_commit) (simp add: stepFacts_def)
        obtain cerr w4 where cm: "SetUrlETag env (RemoteServerListUrl config) tag (world s3) = (cerr, w4)"
          by (metis surj_pair)
        let ?c = "Called (SetUrlETagC (RemoteServerListUrl config) tag) (cerr = None)"
        have "r = None \<and> (\<exists>tl. trace s' = trace s3 @ ?c # tl \<and> \<not> list_ex isCommit tl \<and> fetches tl = []
                  \<and> failures tl = [])"
          using run dl up st True None sNone cm
          by (auto simp: FetchCommonRemoteServerList_def step_defs split: option.splits)
        then obtain tl where fin: "r = None" "trace s' = trace s3 @ ?c # tl" "\<not> list_ex isCommit tl"
          "fetches tl = []" "failures tl = []" by blast
        have c0: "commits tl = []" using fin(3) by (induction tl) (auto elim: isCommit.elims)
        show ?thesis
          using e1 e2 e3 t0 nc1 nc2 nc3 fin ready seg pre c0 True None sNone
          by (intro exI[of _ "NoticeInfo ''fetching common remote server list'' # (evs1 @ evs2 @ evs3) @ ?c # tl"])
             (auto simp: commonFacts_def stepFacts_def commitsFollow_no_commit)
      qed
    qed
  qed
qed

text \<open>The blocks of the gated synchroniser, each by running through its branches.\<close>

lemma fetchOSLDirectory_effect:
  assumes "fetchOSLDirectory env config tunnel dial url file s = ((failed, tag, d), s1)"
  shows "\<exists>evs. trace s1 = trace s @ evs \<and> directoryFacts url failed tag d evs"
  using assms
  by (auto simp: fetchOSLDirectory_def downloadRemoteServerListFile_def step_defs Let_def
                 directoryFacts_def directoryStored_def
           split: prod.splits sum.splits option.splits if_splits)

lemma cachedOSLDirectory_effect:
  assumes "cachedOSLDirectory env failed tag d s1 = (r, s2)"
  shows "\<exists>evs. trace s2 = trace s1 @ evs \<and> cacheFacts failed tag d r evs"
  using assms
  by (auto simp: cachedOSLDirectory_def step_defs Let_def cacheFacts_def
           split: prod.splits sum.splits option.splits if_splits)

lemma commitOSLDirectoryETag_effect:
  "\<exists>evs. trace (commitOSLDirectoryETag env config failed tag s) = trace s @ evs \<and>
         commitFacts config failed tag evs"
  by (auto simp: commitOSLDirectoryETag_def step_defs Let_def commitFacts_def
           split: prod.splits sum.splits option.splits if_splits)

lemma getSeededOSLIDs_effect:
  assumes "getSeededOSLIDs env directory s = (oslIDs, s1)"
  shows "\<exists>raised. trace s1 = trace s @ map alertEvent raised @ [Called GetSeededOSLIDsC True] \<and>
           oslIDs = fst (fst (GetSeededOSLIDs env directory (lookupSLOKs env) seededOSLIDsErrorSink (world s)))"
  using assms
  by (auto simp: getSeededOSLIDs_def split: prod.splits)

lemma fetchOSLFile_effect:
  assumes "fetchOSLFile env config tunnel dial directory failed oslID s = (failed', s')"
  shows "\<exists>evs. trace s' = trace s @ evs \<and>
           fetches evs = [GetOSLFileURL env (ObfuscatedServerListRootURL config) oslID] \<and>
           fileFacts config failed failed' evs"
  using assms
  by (auto simp: fetchOSLFile_def downloadRemoteServerListFile_def storeServerEntries_def
                 step_defs Let_def fileFacts_def listMerged_def
           split: prod.splits sum.splits option.splits if_splits)

lemma fetchOSLFiles_effect:
  "\<exists>evs. trace (snd (fetchOSLFiles env config tunnel dial directory failed oslIDs s)) = trace s @ evs \<and>
         fetches evs = map (GetOSLFileURL env (ObfuscatedServerListRootURL config)) oslIDs \<and>
         fileFacts config failed (fst (fetchOSLFiles env config tunnel dial directory failed oslIDs s)) evs"
proof (induction oslIDs arbitrary: failed s)
  case Nil
  show ?case by (simp add: fileFacts_def)
next
  case (Cons oslID oslIDs)
  obtain failed1 s1 where step: "fetchOSLFile env config tunnel dial directory failed oslID s = (failed1, s1)"
    by (metis surj_pair)
  from fetchOSLFile_effect[OF step] obtain evs1 where e1:
    "trace s1 = trace s @ evs1" "fetches evs1 = [GetOSLFileURL env (ObfuscatedServerListRootURL config) oslID]"
    "fileFacts config failed failed1 evs1" by blast
  from Cons.IH[of failed1 s1] obtain evs2 where e2:
    "trace (snd (fetchOSLFiles env config tunnel dial directory failed1 oslIDs s1)) = trace s1 @ evs2"
    "fetches evs2 = map (GetOSLFileURL env (ObfuscatedServerListRootURL config)) oslIDs"
    "fileFacts config failed1 (fst (fetchOSLFiles env config tunnel dial directory failed1 oslIDs s1)) evs2"
    by blast
  have "fileFacts config failed (fst (fetchOSLFiles env config tunnel dial directory failed1 oslIDs s1)) (evs1 @ evs2)"
    using e1(3) e2(3) by (auto simp: fileFacts_def)
  then show ?case
    using step e1 e2 by (intro exI[of _ "evs1 @ evs2"]) simp
qed

text \<open>
  A cycle of the gated synchroniser: either it ends in the fallback, after the events of
  the directory's download and of the cache lookup, or it goes on with the commit, the
  query and the loop.
\<close>

lemma main_structure:
  assumes run: "FetchObfuscatedServerLists env config tunnel dial s = (out, s')"
  shows "\<exists>failed tag d dirEvs r cacheEvs.
      directoryFacts (GetOSLDirectoryURL env (ObfuscatedServerListRootURL config)) failed tag d dirEvs \<and>
      cacheFacts failed tag d r cacheEvs \<and>
      (case r of
         Inl e \<Rightarrow> out = Return (Some e) \<and>
           trace s' = trace s @ NoticeInfo ''fetching obfuscated remote server lists'' # dirEvs @ cacheEvs
       | Inr x \<Rightarrow> (\<exists>directory commitEvs raised loopEvs w failed'.
           x = Some directory \<and> commitFacts config failed tag commitEvs \<and>
           trace s' = trace s @ NoticeInfo ''fetching obfuscated remote server lists'' # dirEvs @ cacheEvs @
                        commitEvs @ map alertEvent raised @ [Called GetSeededOSLIDsC True] @ loopEvs \<and>
           fetches loopEvs = map (GetOSLFileURL env (ObfuscatedServerListRootURL config))
              (fst (fst (GetSeededOSLIDs env directory (lookupSLOKs env) seededOSLIDsErrorSink w))) \<and>
           fileFacts config failed failed' loopEvs \<and>
           (\<exists>oslIDs s4. fetchOSLFiles env config tunnel dial directory failed oslIDs s4 = (failed', s')) \<and>
           out = Return (if failed' then Some (New ''failed to fetch obfuscated remote server lists'')
                         else None)))"
proof -
  let ?s0 = "emit (NoticeInfo ''fetching obfuscated remote server lists'') s"
  let ?url = "GetOSLDirectoryURL env (ObfuscatedServerListRootURL config)"
  let ?file = "GetOSLDirectoryFilename env (ObfuscatedServerListDownloadDirectory config)"
  have t0: "trace ?s0 = trace s @ [NoticeInfo ''fetching obfuscated remote server lists'']"
    by (simp add: emit_def)
  obtain failed tag d s1 where dir:
    "fetchOSLDirectory env config tunnel dial ?url ?file ?s0 = ((failed, tag, d), s1)"
    by (metis surj_pair)
  from fetchOSLDirectory_effect[OF dir] obtain dirEvs where e1:
    "trace s1 = trace ?s0 @ dirEvs" "directoryFacts ?url failed tag d dirEvs" by blast
  obtain r s2 where cache: "cachedOSLDirectory env failed tag d s1 = (r, s2)"
    by (metis surj_pair)
  from cachedOSLDirectory_effect[OF cache] obtain cacheEvs where e2:
    "trace s2 = trace s1 @ cacheEvs" "cacheFacts failed tag d r cacheEvs" by blast
  show ?thesis
  proof (cases r)
    case (Inl e)
    then have "out = Return (Some e)" "s' = s2"
      using run dir cache by (auto simp: FetchObfuscatedServerLists_def Let_def)
    then show ?thesis
      using e1 e2 t0 Inl by (intro exI[of _ failed] exI[of _ tag] exI[of _ d] exI[of _ dirEvs]
            exI[of _ r] exI[of _ cacheEvs]) simp
  next
    case (Inr x)
    have "x \<noteq> None"
    proof (cases "failed \<or> tag = ''''")
      case True
      with e2(2) Inr show ?thesis by (simp add: cacheFacts_def)
    next
      case False
      with e2(2) Inr have "x = d" by (simp add: cacheFacts_def)
      moreover from False e1(2) have "d \<noteq> None" by (simp add: directoryFacts_def)
      ultimately show ?thesis by simp
    qed
    then obtain directory where x: "x = Some directory" by auto
    let ?s3 = "commitOSLDirectoryETag env config failed tag s2"
    from commitOSLDirectoryETag_effect[of env config failed tag s2] obtain commitEvs where e3:
      "trace ?s3 = trace s2 @ commitEvs" "commitFacts config failed tag commitEvs" by blast
    obtain oslIDs s4 where query: "getSeededOSLIDs env directory ?s3 = (oslIDs, s4)"
      by (metis surj_pair)
    from getSeededOSLIDs_effect[OF query] obtain raised where e4:
      "trace s4 = trace ?s3 @ map alertEvent raised @ [Called GetSeededOSLIDsC True]"
      "oslIDs = fst (fst (GetSeededOSLIDs env directory (lookupSLOKs env) seededOSLIDsErrorSink (world ?s3)))"
      by blast
    let ?loop = "fetchOSLFiles env config tunnel dial directory failed oslIDs s4"
    from fetchOSLFiles_effect[of env config tunnel dial directory failed oslIDs s4] obtain loopEvs where e5:
      "trace (snd ?loop) = trace s4 @ loopEvs"
      "fetches loopEvs = map (GetOSLFileURL env (ObfuscatedServerListRootURL config)) oslIDs"
      "fileFacts config failed (fst ?loop) loopEvs" by blast
    have res: "out = Return (if fst ?loop then Some (New ''failed to fetch obfuscated remote server lists'')
                         else None)" "s' = snd ?loop"
      using run dir cache Inr x query
      by (auto simp: FetchObfuscatedServerLists_def Let_def split: prod.splits)
    have tr: "trace s' = trace s @ NoticeInfo ''fetching obfuscated remote server lists'' # dirEvs @ cacheEvs @
                        commitEvs @ map alertEvent raised @ [Called GetSeededOSLIDsC True] @ loopEvs"
      using e1 e2 e3 e4 e5 t0 res by simp
    have fs: "fetches loopEvs = map (GetOSLFileURL env (ObfuscatedServerListRootURL config))
              (fst (fst (GetSeededOSLIDs env directory (lookupSLOKs env) seededOSLIDsErrorSink (world ?s3))))"
      using e5(2) e4(2) by simp
    have lp: "\<exists>oslIDs s4. fetchOSLFiles env config tunnel dial directory failed oslIDs s4 = (fst ?loop, s')"
      by (rule exI[of _ oslIDs], rule exI[of _ s4]) (simp add: res(2))
    have inner: "\<exists>directory commitEvs raised loopEvs w failed'.
           x = Some directory \<and> commitFacts config failed tag commitEvs \<and>
           trace s' = trace s @ NoticeInfo ''fetching obfuscated remote server lists'' # dirEvs @ cacheEvs @
                        commitEvs @ map alertEvent raised @ [Called GetSeededOSLIDsC True] @ loopEvs \<and>
           fetches loopEvs = map (GetOSLFileURL env (ObfuscatedServerListRootURL config))
              (fst (fst (GetSeededOSLIDs env directory (lookupSLOKs env) seededOSLIDsErrorSink w))) \<and>
           fileFacts config failed failed' loopEvs \<and>
           (\<exists>oslIDs s4. fetchOSLFiles env config tunnel dial directory failed oslIDs s4 = (failed', s')) \<and>
           out = Return (if failed' then Some (New ''failed to fetch obfuscated remote server lists'')
                         else None)"
      apply (rule exI[of _ directory], rule exI[of _ commitEvs], rule exI[of _ raised],
             rule exI[of _ loopEvs], rule exI[of _ "world ?s3"], rule exI[of _ "fst ?loop"])
      apply (intro conjI)
      apply (rule x, rule e3(2), rule tr, rule fs, rule e5(3), rule lp, rule res(1))
      done
    show ?thesis
      using e1(2) e2(2) inner Inr
      by (intro exI[of _ failed] exI[of _ tag] exI[of _ d] exI[of _ dirEvs]
            exI[of _ r] exI[of _ cacheEvs]) simp
  qed
qed

lemma filter_isQuery_none: "\<not> list_ex isQuery xs \<Longrightarrow> filter isQuery xs = []"
  by (induction xs) (simp_all split: if_splits)

text \<open>The loop leaves the same state whatever the flag it started with.\<close>

lemma fetchOSLFile_state_flag:
  "snd (fetchOSLFile env config tunnel dial directory failed oslID s)
     = snd (fetchOSLFile env config tunnel dial directory failed' oslID s)"
  by (simp add: fetchOSLFile_def Let_def split: prod.splits sum.splits option.splits)

lemma fetchOSLFiles_state_flag:
  "snd (fetchOSLFiles env config tunnel dial directory failed oslIDs s)
     = snd (fetchOSLFiles env config tunnel dial directory failed' oslIDs s)"
proof (induction oslIDs arbitrary: failed failed' s)
  case Nil
  show ?case by simp
next
  case (Cons oslID oslIDs)
  have "snd (fetchOSLFile env config tunnel dial directory failed oslID s)
          = snd (fetchOSLFile env config tunnel dial directory failed' oslID s)"
    by (rule fetchOSLFile_state_flag)
  then show ?case
    using Cons.IH by (auto split: prod.splits)
qed

text \<open>What the events of a whole cycle amount to, when it ends in the fallback and when it reaches the query.\<close>

lemma filter_not_commit_failures:
  "filter isCommitCall cs = [] \<Longrightarrow> filter (\<lambda>c. \<not> isCommitCall c) cs = cs"
  by (induction cs) (simp_all split: if_splits)

lemma fatal_events:
  assumes dirF: "directoryFacts url failed tag d dirEvs"
    and cacheF: "cacheFacts failed tag d (Inl e) cacheEvs"
  shows "fetches (NoticeInfo m # dirEvs @ cacheEvs) = [url]"
    and "commits (NoticeInfo m # dirEvs @ cacheEvs) = []"
    and "\<not> list_ex isQuery (NoticeInfo m # dirEvs @ cacheEvs)"
    and "cacheLookups (NoticeInfo m # dirEvs @ cacheEvs) = cacheLookups cacheEvs"
    and "cacheLookups cacheEvs \<noteq> []"
    and "\<not> list_ex isDirectoryCached (NoticeInfo m # dirEvs @ cacheEvs)"
    and "\<exists>e'. e = Errorf ''failed to get cached obfuscated server list directory'' (ContextError e') \<or>
              e = Errorf ''failed to load obfuscated server list directory'' (ContextError e')"
proof -
  have fb: "failed \<or> tag = ''''"
    using cacheF by (auto simp: cacheFacts_def)
  show "fetches (NoticeInfo m # dirEvs @ cacheEvs) = [url]"
    using dirF cacheF by (simp add: directoryFacts_def cacheFacts_def)
  show "commits (NoticeInfo m # dirEvs @ cacheEvs) = []"
    using dirF cacheF by (simp add: directoryFacts_def cacheFacts_def)
  show "\<not> list_ex isQuery (NoticeInfo m # dirEvs @ cacheEvs)"
    using dirF cacheF by (simp add: directoryFacts_def cacheFacts_def)
  show "cacheLookups (NoticeInfo m # dirEvs @ cacheEvs) = cacheLookups cacheEvs"
    using dirF by (simp add: directoryFacts_def)
  show "cacheLookups cacheEvs \<noteq> []"
    using cacheF fb by (simp add: cacheFacts_def)
  have "\<not> list_ex isDirectoryCached dirEvs"
    using dirF fb by (auto simp: directoryFacts_def)
  then show "\<not> list_ex isDirectoryCached (NoticeInfo m # dirEvs @ cacheEvs)"
    using cacheF by (simp add: cacheFacts_def)
  show "\<exists>e'. e = Errorf ''failed to get cached obfuscated server list directory'' (ContextError e') \<or>
              e = Errorf ''failed to load obfuscated server list directory'' (ContextError e')"
    using cacheF by (simp add: cacheFacts_def)
qed

lemma queried_events:
  assumes dirF: "directoryFacts url failed tag d dirEvs"
    and cacheF: "cacheFacts failed tag d (Inr x) cacheEvs"
    and commitF: "commitFacts config failed tag commitEvs"
    and fileF: "fileFacts config failed failed' loopEvs"
  shows "beforeQuery (NoticeInfo m # dirEvs @ cacheEvs @ commitEvs @ map alertEvent raised @
                        [Called GetSeededOSLIDsC True] @ loopEvs)
           = NoticeInfo m # dirEvs @ cacheEvs @ commitEvs @ map alertEvent raised"
    and "fromQuery (NoticeInfo m # dirEvs @ cacheEvs @ commitEvs @ map alertEvent raised @
                        [Called GetSeededOSLIDsC True] @ loopEvs)
           = Called GetSeededOSLIDsC True # loopEvs"
    and "filter isQuery (NoticeInfo m # dirEvs @ cacheEvs @ commitEvs @ map alertEvent raised @
                        [Called GetSeededOSLIDsC True] @ loopEvs) = [Called GetSeededOSLIDsC True]"
    and "cacheLookups (NoticeInfo m # dirEvs @ cacheEvs @ commitEvs @ map alertEvent raised @
                        [Called GetSeededOSLIDsC True] @ loopEvs) = cacheLookups cacheEvs"
    and "list_ex isDirectoryCached (NoticeInfo m # dirEvs @ cacheEvs @ commitEvs @ map alertEvent raised @
                        [Called GetSeededOSLIDsC True] @ loopEvs) = (\<not> failed \<and> tag \<noteq> '''')"
    and "filter (\<lambda>c. \<not> isCommitCall c)
           (failures (NoticeInfo m # dirEvs @ cacheEvs @ commitEvs @ map alertEvent raised)) = failures dirEvs"
    and "downloads (NoticeInfo m # dirEvs @ cacheEvs @ commitEvs @ map alertEvent raised) = downloads dirEvs"
    and "commits (NoticeInfo m # dirEvs @ cacheEvs @ commitEvs @ map alertEvent raised) = commits commitEvs"
    and "failed' = (failures dirEvs \<noteq> [] \<or> failures loopEvs \<noteq> [])"
    and "(failed \<or> tag = '''') = (cacheLookups cacheEvs \<noteq> [])"
proof -
  let ?pre = "NoticeInfo m # dirEvs @ cacheEvs @ commitEvs @ map alertEvent raised"
  let ?post = "[Called GetSeededOSLIDsC True] @ loopEvs"
  have nq: "\<not> list_ex isQuery dirEvs" "\<not> list_ex isQuery cacheEvs" "\<not> list_ex isQuery commitEvs"
    "\<not> list_ex isQuery loopEvs"
    using dirF cacheF commitF fileF
    unfolding directoryFacts_def cacheFacts_def commitFacts_def fileFacts_def by blast+
  have npre: "\<not> list_ex isQuery ?pre" using nq by simp
  show bq: "beforeQuery (NoticeInfo m # dirEvs @ cacheEvs @ commitEvs @ map alertEvent raised @ ?post) = ?pre"
    using beforeQuery_append[OF npre, of ?post] by simp
  show "fromQuery (NoticeInfo m # dirEvs @ cacheEvs @ commitEvs @ map alertEvent raised @ ?post)
           = Called GetSeededOSLIDsC True # loopEvs"
    using fromQuery_append[OF npre, of ?post] by simp
  show "filter isQuery (NoticeInfo m # dirEvs @ cacheEvs @ commitEvs @ map alertEvent raised @ ?post)
          = [Called GetSeededOSLIDsC True]"
    using nq by (simp add: filter_isQuery_none)
  have lk: "cacheLookups dirEvs = []" "cacheLookups commitEvs = []" "cacheLookups loopEvs = []"
    using dirF commitF fileF
    unfolding directoryFacts_def commitFacts_def fileFacts_def by blast+
  show "cacheLookups (NoticeInfo m # dirEvs @ cacheEvs @ commitEvs @ map alertEvent raised @ ?post)
          = cacheLookups cacheEvs"
    using lk by simp
  have dc: "list_ex isDirectoryCached dirEvs = (\<not> failed \<and> tag \<noteq> '''')"
    using dirF unfolding directoryFacts_def by blast
  have ndc: "\<not> list_ex isDirectoryCached cacheEvs" "\<not> list_ex isDirectoryCached commitEvs"
    "\<not> list_ex isDirectoryCached loopEvs"
    using cacheF commitF fileF unfolding cacheFacts_def commitFacts_def fileFacts_def by blast+
  show "list_ex isDirectoryCached (NoticeInfo m # dirEvs @ cacheEvs @ commitEvs @ map alertEvent raised @ ?post)
          = (\<not> failed \<and> tag \<noteq> '''')"
    using dc ndc by simp
  have "filter isCommitCall (failures dirEvs) = []"
    using dirF unfolding directoryFacts_def by blast
  then have fd: "filter (\<lambda>c. \<not> isCommitCall c) (failures dirEvs) = failures dirEvs"
    by (rule filter_not_commit_failures)
  have fc: "failures cacheEvs = []" using cacheF unfolding cacheFacts_def by blast
  have fm: "filter (\<lambda>c. \<not> isCommitCall c) (failures commitEvs) = []"
    using commitF unfolding commitFacts_def by blast
  show "filter (\<lambda>c. \<not> isCommitCall c) (failures ?pre) = failures dirEvs"
    using fd fc fm by simp
  have dl: "downloads cacheEvs = []" "downloads commitEvs = []"
    using cacheF commitF unfolding cacheFacts_def commitFacts_def by blast+
  show "downloads ?pre = downloads dirEvs"
    using dl by simp
  have cm: "commits dirEvs = []" "commits cacheEvs = []"
    using dirF cacheF unfolding directoryFacts_def cacheFacts_def by blast+
  show "commits ?pre = commits commitEvs"
    using cm by simp
  have "failed = (failures dirEvs \<noteq> [])" using dirF unfolding directoryFacts_def by blast
  moreover have "failed' = (failed \<or> failures loopEvs \<noteq> [])"
    using fileF unfolding fileFacts_def by blast
  ultimately show "failed' = (failures dirEvs \<noteq> [] \<or> failures loopEvs \<noteq> [])" by simp
  show "(failed \<or> tag = '''') = (cacheLookups cacheEvs \<noteq> [])"
    using cacheF unfolding cacheFacts_def by blast
qed

section \<open>The replay of each block\<close>

text \<open>
  The events that a function or a block of the code adds to the trace replay from the
  world it started with to the world it returns.
\<close>

lemma endsWith_append [simp]: "endsWith (xs @ ys) ys"
  by (simp add: endsWith_def)

lemma endsWith_Nil [simp]: "endsWith xs []"
  by (simp add: endsWith_def)

lemma endsWith_same [simp]: "endsWith xs xs"
  by (simp add: endsWith_def)

lemma replay_append:
  "replay env config tunnel dial (xs @ ys) m =
     (case replay env config tunnel dial xs m of
        None \<Rightarrow> None
      | Some m' \<Rightarrow> replay env config tunnel dial ys m')"
  by (induction xs arbitrary: m) (simp_all split: option.splits)

lemma replay_alerts [simp]:
  "replay env config tunnel dial (map alertEvent raised) m
     = Some (m\<lparr>curNotices := curNotices m @ map alertEvent raised\<rparr>)"
  by (induction raised arbitrary: m) (simp_all add: alertEvent_def)

lemma replays_Nil [simp]: "replays env config tunnel dial [] w d w d"
  by (simp add: replays_def)

lemma replays_append:
  "replays env config tunnel dial xs w d w1 d1 \<Longrightarrow> replays env config tunnel dial ys w1 d1 w2 d2
    \<Longrightarrow> replays env config tunnel dial (xs @ ys) w d w2 d2"
  unfolding replays_def replay_append by (auto split: option.splits)

lemma download_replay:
  assumes "downloadRemoteServerListFile env config tunnel dial url file s = ((tag, err), s')"
  shows "\<exists>evs. trace s' = trace s @ evs \<and> replays env config tunnel dial evs (world s) d (world s') d"
  using assms
  by (auto simp: downloadRemoteServerListFile_def step_defs Let_def replays_def
           split: prod.splits sum.splits option.splits if_splits)


lemma unpack_replay:
  assumes "unpackRemoteServerListFile env config file s = ((payload, err), s')"
  shows "\<exists>evs. trace s' = trace s @ evs \<and> replays env config tunnel dial evs (world s) d (world s') d"
  using assms
  by (auto simp: unpackRemoteServerListFile_def step_defs Let_def replays_def
           split: prod.splits sum.splits option.splits if_splits)

lemma store_replay:
  assumes "storeServerEntries env serverList s = (err, s')"
  shows "\<exists>evs. trace s' = trace s @ evs \<and> replays env config tunnel dial evs (world s) d (world s') d"
  using assms
  by (auto simp: storeServerEntries_def step_defs Let_def replays_def
           split: prod.splits sum.splits option.splits if_splits)

lemma fetchOSLDirectory_replay:
  assumes "fetchOSLDirectory env config tunnel dial url file s = ((failed, tag, d), s1)"
  shows "\<exists>evs. trace s1 = trace s @ evs \<and> replays env config tunnel dial evs (world s) None (world s1) d"
  using assms
  by (auto simp: fetchOSLDirectory_def downloadRemoteServerListFile_def step_defs Let_def replays_def
           split: prod.splits sum.splits option.splits if_splits)

lemma cachedOSLDirectory_replay:
  assumes "cachedOSLDirectory env failed tag d s1 = (Inr x, s2)"
  shows "\<exists>evs. trace s2 = trace s1 @ evs \<and> replays env config tunnel dial evs (world s1) d (world s2) x"
  using assms
  by (auto simp: cachedOSLDirectory_def step_defs Let_def replays_def
           split: prod.splits sum.splits option.splits if_splits)

lemma cachedOSLDirectory_replay_fatal:
  assumes "cachedOSLDirectory env failed tag d s1 = (Inl e, s2)"
  shows "\<exists>evs d'. trace s2 = trace s1 @ evs \<and> replays env config tunnel dial evs (world s1) d (world s2) d'"
  using assms
  by (auto simp: cachedOSLDirectory_def step_defs Let_def replays_def
           split: prod.splits sum.splits option.splits if_splits)

lemma commitOSLDirectoryETag_replay:
  "\<exists>evs. trace (commitOSLDirectoryETag env config failed tag s) = trace s @ evs \<and>
         replays env config tunnel dial evs (world s) d (world (commitOSLDirectoryETag env config failed tag s)) d"
  by (auto simp: commitOSLDirectoryETag_def step_defs Let_def replays_def
           split: prod.splits sum.splits option.splits if_splits)

lemma getSeededOSLIDs_replay:
  assumes "getSeededOSLIDs env directory s = (oslIDs, s1)"
  shows "\<exists>raised. trace s1 = trace s @ map alertEvent raised @ [Called GetSeededOSLIDsC True] \<and>
           GetSeededOSLIDs env directory (lookupSLOKs env) seededOSLIDsErrorSink (world s)
             = ((oslIDs, raised), world s1) \<and>
           replays env config tunnel dial (map alertEvent raised @ [Called GetSeededOSLIDsC True])
             (world s) (Some directory) (world s1) (Some directory)"
  using assms
  by (auto simp: getSeededOSLIDs_def replays_def replay_append split: prod.splits)

lemma fetchOSLFile_replay:
  assumes "fetchOSLFile env config tunnel dial directory failed oslID s = (failed', s')"
  shows "\<exists>evs. trace s' = trace s @ evs \<and>
           replays env config tunnel dial evs (world s) (Some directory) (world s') (Some directory)"
  using assms
  by (auto simp: fetchOSLFile_def downloadRemoteServerListFile_def storeServerEntries_def
                 step_defs Let_def replays_def replay_append
           split: prod.splits sum.splits option.splits if_splits)

lemma machine_simps [simp]:
  "curWorld (machine w d) = w" "curDirectory (machine w d) = d"
  by (simp_all add: machine_def)

lemma replays_notice [simp]: "replays env config tunnel dial [NoticeInfo m] w d w d"
  by (simp add: replays_def)

lemma replays_alerts [simp]: "replays env config tunnel dial (map alertEvent raised) w d w d"
  by (simp add: replays_def)

lemma replays_machine:
  "replays env config tunnel dial evs w d w' d' \<Longrightarrow>
     \<exists>m. replay env config tunnel dial evs (machine w d) = Some m \<and> curWorld m = w' \<and> curDirectory m = d'"
  by (simp add: replays_def)

text \<open>The loop: one attempt for each identifier, and the same state whatever failed before.\<close>

lemma called_not_alert [simp]: "Called c ok \<notin> alertEvent ` set raised"
  by (auto simp: alertEvent_def)

lemma alerts_are_no_attempts [simp]:
  "\<not> list_ex isNewContent (map alertEvent raised)"
  "\<not> list_ex isDecodeAttempt (map alertEvent raised)"
  by (induction raised) (simp_all add: alertEvent_def)

lemma fetchOSLFile_attempt:
  assumes "fetchOSLFile env config tunnel dial directory failed oslID s = (failed', s')"
  shows "\<exists>seg. trace s' = trace s @ seg \<and> attemptOf env config oslID seg"
  using assms
  by (auto simp: fetchOSLFile_def downloadRemoteServerListFile_def storeServerEntries_def
                 step_defs Let_def attemptOf_def attempted_def completed_def
           split: prod.splits sum.splits option.splits if_splits)

lemma fetchOSLFiles_attempts:
  "\<exists>segs. trace (snd (fetchOSLFiles env config tunnel dial directory failed oslIDs s))
            = trace s @ concat segs \<and>
          list_all2 (attemptOf env config) oslIDs segs \<and>
          replays env config tunnel dial (concat segs) (world s) (Some directory)
            (world (snd (fetchOSLFiles env config tunnel dial directory failed oslIDs s))) (Some directory)"
proof (induction oslIDs arbitrary: failed s)
  case Nil
  show ?case by (intro exI[of _ "[]"]) simp
next
  case (Cons oslID oslIDs)
  obtain failed1 s1 where step: "fetchOSLFile env config tunnel dial directory failed oslID s = (failed1, s1)"
    by (metis surj_pair)
  from fetchOSLFile_attempt[OF step] obtain seg where a:
    "trace s1 = trace s @ seg" "attemptOf env config oslID seg" by blast
  from fetchOSLFile_replay[OF step] obtain seg' where r:
    "trace s1 = trace s @ seg'"
    "replays env config tunnel dial seg' (world s) (Some directory) (world s1) (Some directory)" by blast
  have same: "seg' = seg" using a(1) r(1) by simp
  from Cons.IH[of failed1 s1] obtain segs where ih:
    "trace (snd (fetchOSLFiles env config tunnel dial directory failed1 oslIDs s1)) = trace s1 @ concat segs"
    "list_all2 (attemptOf env config) oslIDs segs"
    "replays env config tunnel dial (concat segs) (world s1) (Some directory)
       (world (snd (fetchOSLFiles env config tunnel dial directory failed1 oslIDs s1))) (Some directory)"
    by blast
  have rp: "replays env config tunnel dial (seg @ concat segs) (world s) (Some directory)
       (world (snd (fetchOSLFiles env config tunnel dial directory failed1 oslIDs s1))) (Some directory)"
    using replays_append[OF r(2)[unfolded same] ih(3)] .
  show ?case
    using step a ih(1,2) rp by (intro exI[of _ "seg # segs"]) simp
qed

lemma fetchOSLFiles_append:
  "fetchOSLFiles env config tunnel dial directory failed (xs @ ys) s
     = fetchOSLFiles env config tunnel dial directory
         (fst (fetchOSLFiles env config tunnel dial directory failed xs s)) ys
         (snd (fetchOSLFiles env config tunnel dial directory failed xs s))"
  by (induction xs arbitrary: failed s) (simp_all split: prod.splits)

lemma fetchOSLFiles_isolated:
  "snd (fetchOSLFiles env config tunnel dial directory failed oslIDs s)
     = snd (fetchOSLFiles env config tunnel dial directory False (drop k oslIDs)
              (snd (fetchOSLFiles env config tunnel dial directory failed (take k oslIDs) s)))"
proof -
  have "snd (fetchOSLFiles env config tunnel dial directory failed (take k oslIDs @ drop k oslIDs) s)
     = snd (fetchOSLFiles env config tunnel dial directory False (drop k oslIDs)
              (snd (fetchOSLFiles env config tunnel dial directory failed (take k oslIDs) s)))"
    unfolding fetchOSLFiles_append by (rule fetchOSLFiles_state_flag)
  then show ?thesis by simp
qed

text \<open>
  A whole cycle of the gated synchroniser: its events replay to the world it returns, and
  when it reaches the query, the events before the query replay to the directory and the
  world of the query.
\<close>

lemma cachedOSLDirectory_source:
  assumes "cachedOSLDirectory env failed tag d s1 = (Inr x, s2)"
  shows "\<exists>evs. trace s2 = trace s1 @ evs \<and>
           (if failed \<or> tag = '''' then \<exists>json. cacheLookups evs = [(json, True)] \<and>
                                              completed (LoadDirectoryC json) evs
            else evs = [])"
  using assms
  by (auto simp: cachedOSLDirectory_def step_defs Let_def completed_def
           split: prod.splits sum.splits option.splits if_splits)

lemma completed_append [simp]: "completed c (xs @ ys) = (completed c xs \<or> completed c ys)"
  by (auto simp: completed_def)

lemma completed_Cons [simp]: "completed c (e # es) = (e = Called c True \<or> completed c es)"
  by (auto simp: completed_def)

lemma cycle_replay:
  assumes run: "FetchObfuscatedServerLists env config tunnel dial s = (out, s')"
  shows "\<exists>evs m. trace s' = trace s @ evs \<and>
           replay env config tunnel dial evs (machine (world s) None) = Some m \<and> curWorld m = world s' \<and>
           (list_ex isQuery evs \<longrightarrow>
              (\<exists>m1 directory oslIDs raised w m2 segs.
                 replay env config tunnel dial (beforeQuery evs) (machine (world s) None) = Some m1 \<and>
                 curDirectory m1 = Some directory \<and>
                 GetSeededOSLIDs env directory (lookupSLOKs env) seededOSLIDsErrorSink (curWorld m1)
                   = ((oslIDs, raised), w) \<and>
                 endsWith (beforeQuery evs) (map alertEvent raised) \<and>
                 fetches (fromQuery evs)
                   = map (GetOSLFileURL env (ObfuscatedServerListRootURL config)) oslIDs \<and>
                 replay env config tunnel dial (tl (fromQuery evs)) (machine w (Some directory)) = Some m2 \<and>
                 curWorld m2 = world s' \<and>
                 tl (fromQuery evs) = concat segs \<and> list_all2 (attemptOf env config) oslIDs segs) \<and>
              (if cacheLookups evs = [] then list_ex isDirectoryUnpacked (beforeQuery evs)
               else \<exists>json. cacheLookups evs = [(json, True)] \<and>
                           completed (LoadDirectoryC json) (beforeQuery evs)))"
proof -
  let ?info = "NoticeInfo ''fetching obfuscated remote server lists''"
  let ?s0 = "emit ?info s"
  let ?url = "GetOSLDirectoryURL env (ObfuscatedServerListRootURL config)"
  let ?file = "GetOSLDirectoryFilename env (ObfuscatedServerListDownloadDirectory config)"
  let ?Q = "Called GetSeededOSLIDsC True"
  have t0: "trace ?s0 = trace s @ [?info]" and w0: "world ?s0 = world s"
    by (simp_all add: emit_def)
  obtain failed tag d s1 where dir:
    "fetchOSLDirectory env config tunnel dial ?url ?file ?s0 = ((failed, tag, d), s1)"
    by (metis surj_pair)
  from fetchOSLDirectory_effect[OF dir] obtain dirEvs where e1:
    "trace s1 = trace ?s0 @ dirEvs" "directoryFacts ?url failed tag d dirEvs" by blast
  from fetchOSLDirectory_replay[OF dir] obtain dirEvs' where r1':
    "trace s1 = trace ?s0 @ dirEvs'"
    "replays env config tunnel dial dirEvs' (world ?s0) None (world s1) d" by blast
  have "dirEvs' = dirEvs" using e1(1) r1'(1) by simp
  with r1'(2) w0 have r1: "replays env config tunnel dial dirEvs (world s) None (world s1) d" by simp
  have rpre1: "replays env config tunnel dial (?info # dirEvs) (world s) None (world s1) d"
    using replays_append[OF replays_notice r1] by simp
  obtain r s2 where cache: "cachedOSLDirectory env failed tag d s1 = (r, s2)"
    by (metis surj_pair)
  from cachedOSLDirectory_effect[OF cache] obtain cacheEvs where e2:
    "trace s2 = trace s1 @ cacheEvs" "cacheFacts failed tag d r cacheEvs" by blast
  show ?thesis
  proof (cases r)
    case (Inl e)
    then have res: "out = Return (Some e)" "s' = s2"
      using run dir cache by (auto simp: FetchObfuscatedServerLists_def Let_def)
    from cachedOSLDirectory_replay_fatal[OF cache[unfolded Inl]] obtain cacheEvs' d' where r2':
      "trace s2 = trace s1 @ cacheEvs'"
      "replays env config tunnel dial cacheEvs' (world s1) d (world s2) d'" by blast
    have "cacheEvs' = cacheEvs" using e2(1) r2'(1) by simp
    with r2'(2) have r2: "replays env config tunnel dial cacheEvs (world s1) d (world s2) d'" by simp
    have rall: "replays env config tunnel dial ((?info # dirEvs) @ cacheEvs) (world s) None (world s2) d'"
      by (rule replays_append[OF rpre1 r2])
    from replays_machine[OF rall] obtain m where m:
      "replay env config tunnel dial ((?info # dirEvs) @ cacheEvs) (machine (world s) None) = Some m"
      "curWorld m = world s2" by blast
    note ev = fatal_events[OF e1(2) e2(2)[unfolded Inl]]
    have nq: "\<not> list_ex isQuery (?info # dirEvs @ cacheEvs)" by (rule ev(3))
    have tr: "trace s' = trace s @ ?info # dirEvs @ cacheEvs"
      using e1(1) e2(1) t0 res by simp
    show ?thesis
      apply (rule exI[of _ "?info # dirEvs @ cacheEvs"], rule exI[of _ m])
      using tr m nq res by simp
  next
    case (Inr x)
    have "x \<noteq> None"
    proof (cases "failed \<or> tag = ''''")
      case True
      with e2(2) Inr show ?thesis by (simp add: cacheFacts_def)
    next
      case False
      with e2(2) Inr have "x = d" by (simp add: cacheFacts_def)
      moreover from False e1(2) have "d \<noteq> None" by (simp add: directoryFacts_def)
      ultimately show ?thesis by simp
    qed
    then obtain directory where x: "x = Some directory" by auto
    from cachedOSLDirectory_replay[OF cache[unfolded Inr]] obtain cacheEvs' where r2':
      "trace s2 = trace s1 @ cacheEvs'"
      "replays env config tunnel dial cacheEvs' (world s1) d (world s2) x" by blast
    have "cacheEvs' = cacheEvs" using e2(1) r2'(1) by simp
    with r2'(2) x have r2: "replays env config tunnel dial cacheEvs (world s1) d (world s2) (Some directory)"
      by simp
    from cachedOSLDirectory_source[OF cache[unfolded Inr]] obtain cacheEvs'' where src':
      "trace s2 = trace s1 @ cacheEvs''"
      "if failed \<or> tag = '''' then \<exists>json. cacheLookups cacheEvs'' = [(json, True)] \<and>
                                          completed (LoadDirectoryC json) cacheEvs''
       else cacheEvs'' = []" by blast
    have same3: "cacheEvs'' = cacheEvs" using e2(1) src'(1) by simp
    note src = src'(2)[unfolded same3]
    let ?s3 = "commitOSLDirectoryETag env config failed tag s2"
    from commitOSLDirectoryETag_effect[of env config failed tag s2] obtain commitEvs where e3:
      "trace ?s3 = trace s2 @ commitEvs" "commitFacts config failed tag commitEvs" by blast
    from commitOSLDirectoryETag_replay[of env config failed tag s2 tunnel dial "Some directory"]
    obtain commitEvs' where r3':
      "trace ?s3 = trace s2 @ commitEvs'"
      "replays env config tunnel dial commitEvs' (world s2) (Some directory) (world ?s3) (Some directory)"
      by blast
    have "commitEvs' = commitEvs" using e3(1) r3'(1) by simp
    with r3'(2) have r3:
      "replays env config tunnel dial commitEvs (world s2) (Some directory) (world ?s3) (Some directory)"
      by simp
    obtain oslIDs s4 where query: "getSeededOSLIDs env directory ?s3 = (oslIDs, s4)"
      by (metis surj_pair)
    from getSeededOSLIDs_replay[OF query] obtain raised where e4:
      "trace s4 = trace ?s3 @ map alertEvent raised @ [?Q]"
      "GetSeededOSLIDs env directory (lookupSLOKs env) seededOSLIDsErrorSink (world ?s3)
         = ((oslIDs, raised), world s4)"
      "replays env config tunnel dial (map alertEvent raised @ [?Q])
         (world ?s3) (Some directory) (world s4) (Some directory)"
      by blast
    let ?loop = "fetchOSLFiles env config tunnel dial directory failed oslIDs s4"
    from fetchOSLFiles_effect[of env config tunnel dial directory failed oslIDs s4] obtain loopEvs where e5:
      "trace (snd ?loop) = trace s4 @ loopEvs"
      "fetches loopEvs = map (GetOSLFileURL env (ObfuscatedServerListRootURL config)) oslIDs"
      "fileFacts config failed (fst ?loop) loopEvs" by blast
    from fetchOSLFiles_attempts[of env config tunnel dial directory failed oslIDs s4] obtain segs where r5':
      "trace (snd ?loop) = trace s4 @ concat segs"
      "replays env config tunnel dial (concat segs) (world s4) (Some directory)
         (world (snd ?loop)) (Some directory)"
      "list_all2 (attemptOf env config) oslIDs segs" by blast
    have segs: "concat segs = loopEvs" using e5(1) r5'(1) by simp
    with r5'(2) have r5:
      "replays env config tunnel dial loopEvs (world s4) (Some directory) (world (snd ?loop)) (Some directory)"
      by simp
    have res: "s' = snd ?loop"
      using run dir cache Inr x query
      by (auto simp: FetchObfuscatedServerLists_def Let_def split: prod.splits)
    let ?pre = "?info # dirEvs @ cacheEvs @ commitEvs"
    let ?evs = "?info # dirEvs @ cacheEvs @ commitEvs @ map alertEvent raised @ [?Q] @ loopEvs"
    have tr: "trace s' = trace s @ ?evs"
      using e1 e2 e3 e4 e5 t0 res by simp
    note ev = queried_events[OF e1(2) e2(2)[unfolded Inr] e3(2) e5(3)]
    have bq: "beforeQuery ?evs = ?pre @ map alertEvent raised"
      using ev(1)[of _ raised] by simp
    have fq: "fromQuery ?evs = ?Q # loopEvs"
      using ev(2)[of _ raised] by simp
    have rpre: "replays env config tunnel dial ?pre (world s) None (world ?s3) (Some directory)"
      using replays_append[OF replays_append[OF rpre1 r2] r3] by simp
    have rbq: "replays env config tunnel dial (?pre @ map alertEvent raised) (world s) None
                 (world ?s3) (Some directory)"
      by (rule replays_append[OF rpre replays_alerts])
    from replays_machine[OF rbq] obtain m1 where m1:
      "replay env config tunnel dial (?pre @ map alertEvent raised) (machine (world s) None) = Some m1"
      "curWorld m1 = world ?s3" "curDirectory m1 = Some directory" by blast
    from replays_machine[OF r5] obtain m2 where m2:
      "replay env config tunnel dial loopEvs (machine (world s4) (Some directory)) = Some m2"
      "curWorld m2 = world (snd ?loop)" by blast
    have rall: "replays env config tunnel dial (?pre @ (map alertEvent raised @ [?Q]) @ loopEvs)
                  (world s) None (world (snd ?loop)) (Some directory)"
      by (rule replays_append[OF rpre replays_append[OF e4(3) r5]])
    from replays_machine[OF rall] obtain m where m:
      "replay env config tunnel dial (?pre @ (map alertEvent raised @ [?Q]) @ loopEvs)
         (machine (world s) None) = Some m"
      "curWorld m = world (snd ?loop)" by blast
    have m': "replay env config tunnel dial ?evs (machine (world s) None) = Some m"
      using m(1) by simp
    have ew: "endsWith (?pre @ map alertEvent raised) (map alertEvent raised)"
      by (rule endsWith_append)
    have lk: "cacheLookups ?evs = cacheLookups cacheEvs"
      using ev(4)[of _ raised] .
    have source: "if cacheLookups ?evs = [] then list_ex isDirectoryUnpacked (beforeQuery ?evs)
               else \<exists>json. cacheLookups ?evs = [(json, True)] \<and>
                           completed (LoadDirectoryC json) (beforeQuery ?evs)"
    proof (cases "failed \<or> tag = ''''")
      case True
      with src obtain json where "cacheLookups cacheEvs = [(json, True)]"
        "completed (LoadDirectoryC json) cacheEvs" by auto
      then show ?thesis unfolding lk bq by simp
    next
      case False
      with src have "cacheEvs = []" by simp
      moreover have "list_ex isDirectoryUnpacked dirEvs"
        using e1(2) False unfolding directoryFacts_def directoryStored_def by blast
      ultimately show ?thesis unfolding lk bq by simp
    qed
    have inner: "\<exists>m1 directory oslIDs raised w m2 segs.
                 replay env config tunnel dial (beforeQuery ?evs) (machine (world s) None) = Some m1 \<and>
                 curDirectory m1 = Some directory \<and>
                 GetSeededOSLIDs env directory (lookupSLOKs env) seededOSLIDsErrorSink (curWorld m1)
                   = ((oslIDs, raised), w) \<and>
                 endsWith (beforeQuery ?evs) (map alertEvent raised) \<and>
                 fetches (fromQuery ?evs)
                   = map (GetOSLFileURL env (ObfuscatedServerListRootURL config)) oslIDs \<and>
                 replay env config tunnel dial (tl (fromQuery ?evs)) (machine w (Some directory)) = Some m2 \<and>
                 curWorld m2 = world s' \<and>
                 tl (fromQuery ?evs) = concat segs \<and> list_all2 (attemptOf env config) oslIDs segs"
      apply (rule exI[of _ m1], rule exI[of _ directory], rule exI[of _ oslIDs], rule exI[of _ raised],
             rule exI[of _ "world s4"], rule exI[of _ m2], rule exI[of _ segs])
      unfolding bq fq
      using m1 m2 e4(2) ew e5(2) res segs r5'(3) by simp
    show ?thesis
      apply (rule exI[of _ ?evs], rule exI[of _ m])
      using tr m' m(2) res inner source by blast
  qed
qed

text \<open>The events of a whole cycle and its result.\<close>

lemma cycle_query_events:
  assumes run: "FetchObfuscatedServerLists env config tunnel untunneledDialConfig s = (out, s')"
  shows "\<exists>evs. trace s' = trace s @ evs \<and> out \<noteq> NilDereference \<and>
     (if list_ex isQuery evs
      then filter isQuery evs = [Called GetSeededOSLIDsC True] \<and>
           (out = Return None \<or>
            out = Return (Some (New ''failed to fetch obfuscated remote server lists'')))
      else cacheLookups evs \<noteq> [] \<and>
           (\<exists>e. out = Return (Some (Errorf ''failed to get cached obfuscated server list directory''
                                      (ContextError e))) \<or>
                out = Return (Some (Errorf ''failed to load obfuscated server list directory''
                                      (ContextError e)))))"
proof -
  let ?url = "GetOSLDirectoryURL env (ObfuscatedServerListRootURL config)"
  let ?info = "NoticeInfo ''fetching obfuscated remote server lists''"
  from main_structure[OF run] obtain failed tag d dirEvs r cacheEvs where
    dirF: "directoryFacts ?url failed tag d dirEvs" and
    cacheF: "cacheFacts failed tag d r cacheEvs" and
    rest: "case r of
         Inl e \<Rightarrow> out = Return (Some e) \<and> trace s' = trace s @ ?info # dirEvs @ cacheEvs
       | Inr x \<Rightarrow> (\<exists>directory commitEvs raised loopEvs w failed'.
           x = Some directory \<and> commitFacts config failed tag commitEvs \<and>
           trace s' = trace s @ ?info # dirEvs @ cacheEvs @
                        commitEvs @ map alertEvent raised @ [Called GetSeededOSLIDsC True] @ loopEvs \<and>
           fetches loopEvs = map (GetOSLFileURL env (ObfuscatedServerListRootURL config))
              (fst (fst (GetSeededOSLIDs env directory (lookupSLOKs env) seededOSLIDsErrorSink w))) \<and>
           fileFacts config failed failed' loopEvs \<and>
           (\<exists>oslIDs s4. fetchOSLFiles env config tunnel untunneledDialConfig directory failed oslIDs s4
                          = (failed', s')) \<and>
           out = Return (if failed' then Some (New ''failed to fetch obfuscated remote server lists'')
                         else None))"
    by blast
  show ?thesis
  proof (cases r)
    case (Inl e)
    with rest have out: "out = Return (Some e)" and tr: "trace s' = trace s @ ?info # dirEvs @ cacheEvs"
      by simp_all
    note ev = fatal_events[OF dirF cacheF[unfolded Inl]]
    have nq: "\<not> list_ex isQuery (?info # dirEvs @ cacheEvs)" by (rule ev(3))
    have lk: "cacheLookups (?info # dirEvs @ cacheEvs) \<noteq> []" using ev(4) ev(5) by simp
    have err: "\<exists>e'. out = Return (Some (Errorf ''failed to get cached obfuscated server list directory''
                                      (ContextError e'))) \<or>
                out = Return (Some (Errorf ''failed to load obfuscated server list directory''
                                      (ContextError e')))"
      using ev(7) out by auto
    have nd: "out \<noteq> NilDereference" using out by simp
    show ?thesis
      apply (rule exI[of _ "?info # dirEvs @ cacheEvs"])
      apply (simp only: nq if_False)
      using tr nd lk err apply blast
      done
  next
    case (Inr x)
    with rest obtain directory commitEvs raised loopEvs w failed' where
      commitF: "commitFacts config failed tag commitEvs" and
      tr: "trace s' = trace s @ ?info # dirEvs @ cacheEvs @
                        commitEvs @ map alertEvent raised @ [Called GetSeededOSLIDsC True] @ loopEvs" and
      fileF: "fileFacts config failed failed' loopEvs" and
      out: "out = Return (if failed' then Some (New ''failed to fetch obfuscated remote server lists'')
                         else None)"
      by auto
    let ?evs = "?info # dirEvs @ cacheEvs @ commitEvs @ map alertEvent raised @
                  [Called GetSeededOSLIDsC True] @ loopEvs"
    note ev = queried_events[OF dirF cacheF[unfolded Inr] commitF fileF]
    have isq: "list_ex isQuery ?evs" by simp
    have one: "filter isQuery ?evs = [Called GetSeededOSLIDsC True]" by (rule ev(3))
    have res: "out = Return None \<or>
            out = Return (Some (New ''failed to fetch obfuscated remote server lists''))"
      using out by simp
    have nd: "out \<noteq> NilDereference" using out by simp
    have tr': "trace s' = trace s @ ?evs" using tr by simp
    show ?thesis
      apply (rule exI[of _ ?evs])
      apply (simp only: isq if_True)
      using tr' nd one res apply blast
      done
  qed
qed

lemma cycle_result_events:
  assumes run: "FetchObfuscatedServerLists env config tunnel untunneledDialConfig s = (out, s')"
  shows "\<exists>evs. trace s' = trace s @ evs \<and>
     (list_ex isQuery evs \<longrightarrow>
        out = Return (if directoryFailures evs \<noteq> [] \<or> fileFailures evs \<noteq> []
                      then Some (New ''failed to fetch obfuscated remote server lists'')
                      else None))"
proof -
  let ?url = "GetOSLDirectoryURL env (ObfuscatedServerListRootURL config)"
  let ?info = "NoticeInfo ''fetching obfuscated remote server lists''"
  from main_structure[OF run] obtain failed tag d dirEvs r cacheEvs where
    dirF: "directoryFacts ?url failed tag d dirEvs" and
    cacheF: "cacheFacts failed tag d r cacheEvs" and
    rest: "case r of
         Inl e \<Rightarrow> out = Return (Some e) \<and> trace s' = trace s @ ?info # dirEvs @ cacheEvs
       | Inr x \<Rightarrow> (\<exists>directory commitEvs raised loopEvs w failed'.
           x = Some directory \<and> commitFacts config failed tag commitEvs \<and>
           trace s' = trace s @ ?info # dirEvs @ cacheEvs @
                        commitEvs @ map alertEvent raised @ [Called GetSeededOSLIDsC True] @ loopEvs \<and>
           fetches loopEvs = map (GetOSLFileURL env (ObfuscatedServerListRootURL config))
              (fst (fst (GetSeededOSLIDs env directory (lookupSLOKs env) seededOSLIDsErrorSink w))) \<and>
           fileFacts config failed failed' loopEvs \<and>
           (\<exists>oslIDs s4. fetchOSLFiles env config tunnel untunneledDialConfig directory failed oslIDs s4
                          = (failed', s')) \<and>
           out = Return (if failed' then Some (New ''failed to fetch obfuscated remote server lists'')
                         else None))"
    by blast
  show ?thesis
  proof (cases r)
    case (Inl e)
    with rest have tr: "trace s' = trace s @ ?info # dirEvs @ cacheEvs"
      by simp
    note ev = fatal_events[OF dirF cacheF[unfolded Inl]]
    have nq: "\<not> list_ex isQuery (?info # dirEvs @ cacheEvs)" by (rule ev(3))
    show ?thesis
      apply (rule exI[of _ "?info # dirEvs @ cacheEvs"])
      using tr nq apply blast
      done
  next
    case (Inr x)
    with rest obtain directory commitEvs raised loopEvs failed' where
      commitF: "commitFacts config failed tag commitEvs" and
      tr: "trace s' = trace s @ ?info # dirEvs @ cacheEvs @
                        commitEvs @ map alertEvent raised @ [Called GetSeededOSLIDsC True] @ loopEvs" and
      fileF: "fileFacts config failed failed' loopEvs" and
      out: "out = Return (if failed' then Some (New ''failed to fetch obfuscated remote server lists'')
                         else None)"
      by auto
    let ?evs = "?info # dirEvs @ cacheEvs @ commitEvs @ map alertEvent raised @
                  [Called GetSeededOSLIDsC True] @ loopEvs"
    note ev = queried_events[OF dirF cacheF[unfolded Inr] commitF fileF]
    have df: "directoryFailures ?evs = failures dirEvs"
      unfolding directoryFailures_def ev(1) by (rule ev(6))
    have ff: "fileFailures ?evs = failures loopEvs"
      unfolding fileFailures_def ev(2) by simp
    have res: "out = Return (if directoryFailures ?evs \<noteq> [] \<or> fileFailures ?evs \<noteq> []
                      then Some (New ''failed to fetch obfuscated remote server lists'')
                      else None)"
      unfolding df ff using out ev(9) by simp
    have tr': "trace s' = trace s @ ?evs" using tr by simp
    show ?thesis
      apply (rule exI[of _ ?evs])
      using tr' res apply blast
      done
  qed
qed

section \<open>Running the code on an example\<close>

text \<open>Unfolding the code and the example world, to run the code on an example.\<close>

lemmas example_defs =
  exampleEnv_def exampleConfig_def emptyStore_def storeWith_def cachedStore_def unreadableEnv_def
  serveAll_def serveNone_def serveGated_def serveButFirst_def lookupOr_def EncodeToString_def
  hexDigit_def

lemmas code_defs =
  FetchCommonRemoteServerList_def FetchObfuscatedServerLists_def fetchOSLDirectory_def
  cachedOSLDirectory_def commitOSLDirectoryETag_def getSeededOSLIDs_def lookupSLOKs_def
  seededOSLIDsErrorSink_def fetchOSLFile_def downloadRemoteServerListFile_def
  unpackRemoteServerListFile_def storeServerEntries_def call_def callV_def emit_def
  alertEvent_def Let_def

section \<open>The claims\<close>

subsection \<open>The key of the ETag commits\<close>

text \<open>
  What the code does, whatever the collaborators: every ETag commit of a cycle of the gated
  synchroniser, the directory's and each gated file's, is made under
  \<^verbatim>\<open>config.RemoteServerListUrl\<close>, the URL of the common list.
\<close>

lemma gated_commits_key:
  assumes run: "FetchObfuscatedServerLists env config tunnel untunneledDialConfig s = (out, s')"
  shows "\<exists>evs. trace s' = trace s @ evs \<and> set (commits evs) \<subseteq> {RemoteServerListUrl config} \<times> UNIV"
proof -
  let ?url = "GetOSLDirectoryURL env (ObfuscatedServerListRootURL config)"
  let ?info = "NoticeInfo ''fetching obfuscated remote server lists''"
  from main_structure[OF run] obtain failed tag d dirEvs r cacheEvs where
    dirF: "directoryFacts ?url failed tag d dirEvs" and
    cacheF: "cacheFacts failed tag d r cacheEvs" and
    rest: "case r of
         Inl e \<Rightarrow> out = Return (Some e) \<and> trace s' = trace s @ ?info # dirEvs @ cacheEvs
       | Inr x \<Rightarrow> (\<exists>directory commitEvs raised loopEvs w failed'.
           x = Some directory \<and> commitFacts config failed tag commitEvs \<and>
           trace s' = trace s @ ?info # dirEvs @ cacheEvs @
                        commitEvs @ map alertEvent raised @ [Called GetSeededOSLIDsC True] @ loopEvs \<and>
           fetches loopEvs = map (GetOSLFileURL env (ObfuscatedServerListRootURL config))
              (fst (fst (GetSeededOSLIDs env directory (lookupSLOKs env) seededOSLIDsErrorSink w))) \<and>
           fileFacts config failed failed' loopEvs \<and>
           (\<exists>oslIDs s4. fetchOSLFiles env config tunnel untunneledDialConfig directory failed oslIDs s4
                          = (failed', s')) \<and>
           out = Return (if failed' then Some (New ''failed to fetch obfuscated remote server lists'')
                         else None))"
    by blast
  show ?thesis
  proof (cases r)
    case (Inl e)
    with rest have tr: "trace s' = trace s @ ?info # dirEvs @ cacheEvs"
      by simp
    note ev = fatal_events[OF dirF cacheF[unfolded Inl]]
    show ?thesis
      apply (rule exI[of _ "?info # dirEvs @ cacheEvs"])
      using tr ev(2) by simp
  next
    case (Inr x)
    with rest obtain directory commitEvs raised loopEvs failed' where
      commitF: "commitFacts config failed tag commitEvs" and
      tr: "trace s' = trace s @ ?info # dirEvs @ cacheEvs @
                        commitEvs @ map alertEvent raised @ [Called GetSeededOSLIDsC True] @ loopEvs" and
      fileF: "fileFacts config failed failed' loopEvs"
      by auto
    let ?evs = "?info # dirEvs @ cacheEvs @ commitEvs @ map alertEvent raised @
                  [Called GetSeededOSLIDsC True] @ loopEvs"
    have c1: "commits dirEvs = []" "commits cacheEvs = []"
      using dirF cacheF unfolding directoryFacts_def cacheFacts_def by blast+
    have c2: "commits commitEvs =
                (if \<not> failed \<and> tag \<noteq> '''' then [(RemoteServerListUrl config, tag)] else [])"
      using commitF unfolding commitFacts_def by blast
    have c3: "set (commits loopEvs) \<subseteq> {RemoteServerListUrl config} \<times> UNIV"
      using fileF unfolding fileFacts_def by blast
    have "set (commits ?evs) \<subseteq> {RemoteServerListUrl config} \<times> UNIV"
      using c1 c2 c3 by auto
    then show ?thesis
      apply (intro exI[of _ ?evs])
      using tr by simp
  qed
qed

text \<open>
  C1 (the code breaks the claim). One cycle of the gated synchroniser on an empty store: the
  directory (ETag \<open>''d1''\<close>) and one gated file (ETag \<open>''f1''\<close>) are fetched from their own
  URLs, and both ETags are committed under the URL of the common list, so the store ends
  with no ETag under either URL. The next cycle on that store reads an empty ETag for both
  URLs (\<^verbatim>\<open>GetUrlETag\<close> is called with the resource's own URL) and downloads and merges both
  again.
\<close>

theorem gated_commits_under_common_list_URL:
  "fetches (trace (snd (FetchObfuscatedServerLists (exampleEnv serveGated [[1]] True) exampleConfig
                          None None emptyStore)))
     = [''https://example.org/osl/osl-directory'', ''https://example.org/osl/osl-01''] \<and>
   commits (trace (snd (FetchObfuscatedServerLists (exampleEnv serveGated [[1]] True) exampleConfig
                          None None emptyStore)))
     = [(''https://example.org/server_list'', ''d1''), (''https://example.org/server_list'', ''f1'')] \<and>
   etags (world (snd (FetchObfuscatedServerLists (exampleEnv serveGated [[1]] True) exampleConfig
                          None None emptyStore)))
     = [(''https://example.org/server_list'', ''f1''), (''https://example.org/server_list'', ''d1'')] \<and>
   storedETags (trace (snd (FetchObfuscatedServerLists (exampleEnv serveGated [[1]] True) exampleConfig
        None None
        ((snd (FetchObfuscatedServerLists (exampleEnv serveGated [[1]] True) exampleConfig
                 None None emptyStore)) \<lparr>trace := []\<rparr>))))
     = [(''https://example.org/osl/osl-directory'', ''''), (''https://example.org/osl/osl-01'', '''')] \<and>
   serverEntries (world (snd (FetchObfuscatedServerLists (exampleEnv serveGated [[1]] True) exampleConfig
        None None
        ((snd (FetchObfuscatedServerLists (exampleEnv serveGated [[1]] True) exampleConfig
                 None None emptyStore)) \<lparr>trace := []\<rparr>))))
     = [''gated entries'', ''gated entries'']"
  by (simp add: example_defs code_defs)

subsection \<open>A failed ETag commit\<close>

text \<open>
  C2 (the code breaks the claim for the gated files). The data store refuses every ETag
  commit and everything else succeeds. With one gated file, the file is unpacked and merged,
  the only calls that fail are the two ETag commits, and the cycle returns the error; with
  no gated file the cycle returns nil, the directory's failed commit notwithstanding; and
  the common list synchroniser returns nil.
\<close>

theorem gated_file_commit_failure_fails_cycle:
  "fst (FetchObfuscatedServerLists (exampleEnv serveGated [[1]] False) exampleConfig None None emptyStore)
     = Return (Some (New ''failed to fetch obfuscated remote server lists'')) \<and>
   failures (trace (snd (FetchObfuscatedServerLists (exampleEnv serveGated [[1]] False) exampleConfig
                           None None emptyStore)))
     = [SetUrlETagC ''https://example.org/server_list'' ''d1'',
        SetUrlETagC ''https://example.org/server_list'' ''f1''] \<and>
   serverEntries (world (snd (FetchObfuscatedServerLists (exampleEnv serveGated [[1]] False) exampleConfig
                           None None emptyStore))) = [''gated entries''] \<and>
   fst (FetchObfuscatedServerLists (exampleEnv serveGated [] False) exampleConfig None None emptyStore)
     = Return None \<and>
   fst (FetchCommonRemoteServerList (exampleEnv serveGated [] False) exampleConfig None None emptyStore)
     = None \<and>
   failures (trace (snd (FetchCommonRemoteServerList (exampleEnv serveGated [] False) exampleConfig
                           None None emptyStore)))
     = [SetUrlETagC ''https://example.org/server_list'' ''f1'']"
  by (simp add: example_defs code_defs)

subsection \<open>The order of merge and commit\<close>




subsection \<open>The loop over the gated files\<close>

text \<open>
  C4. In the loop over the seeded identifiers, the fetch of every identifier of the list is
  begun, once and in the order of the list, and \<^verbatim>\<open>failed\<close> is set after the loop exactly
  when it was set before or some call of the loop (of a download, the file read, the
  unpack, the decode and merge, or the ETag commit) returned an error.

  The events of the loop are one segment for each identifier, in the order of the list, and
  each segment is the whole attempt for its identifier, whatever happened in the segments
  before it: the file is read exactly when its download brought new content, it is unpacked
  exactly when the read succeeded, the payload is decoded exactly when the unpack
  succeeded, the entries are merged exactly when the decoding succeeded, and the ETag is
  committed exactly when the merge succeeded. The world that the loop returns is the world
  that these calls left, replayed in order on the directory of the loop.

  And for every position \<open>k\<close> of the list: the state that the loop returns is the state that
  a new loop, started with \<^verbatim>\<open>failed\<close> unset, returns for the identifiers after the first
  \<open>k\<close> from the state in which the first \<open>k\<close> left the loop. A failure among the first \<open>k\<close>
  identifiers changes nothing of what is done for those after them.
\<close>

theorem loop_attempts_every_identifier:
  "\<exists>evs segs m.
     trace (snd (fetchOSLFiles env config tunnel untunneledDialConfig oslDirectory failed oslIDs s))
       = trace s @ evs \<and>
     fetches evs = map (GetOSLFileURL env (ObfuscatedServerListRootURL config)) oslIDs \<and>
     fst (fetchOSLFiles env config tunnel untunneledDialConfig oslDirectory failed oslIDs s)
       = (failed \<or> failures evs \<noteq> []) \<and>
     evs = concat segs \<and> list_all2 (attemptOf env config) oslIDs segs \<and>
     replay env config tunnel untunneledDialConfig evs (machine (world s) (Some oslDirectory)) = Some m \<and>
     curWorld m = world (snd (fetchOSLFiles env config tunnel untunneledDialConfig oslDirectory failed oslIDs s)) \<and>
     snd (fetchOSLFiles env config tunnel untunneledDialConfig oslDirectory failed oslIDs s)
       = snd (fetchOSLFiles env config tunnel untunneledDialConfig oslDirectory False (drop k oslIDs)
                (snd (fetchOSLFiles env config tunnel untunneledDialConfig oslDirectory failed
                        (take k oslIDs) s)))"
proof -
  let ?loop = "fetchOSLFiles env config tunnel untunneledDialConfig oslDirectory failed oslIDs s"
  from fetchOSLFiles_effect[of env config tunnel untunneledDialConfig oslDirectory failed oslIDs s]
  obtain evs where e:
    "trace (snd ?loop) = trace s @ evs"
    "fetches evs = map (GetOSLFileURL env (ObfuscatedServerListRootURL config)) oslIDs"
    "fileFacts config failed (fst ?loop) evs"
    by blast
  from fetchOSLFiles_attempts[of env config tunnel untunneledDialConfig oslDirectory failed oslIDs s]
  obtain segs where a:
    "trace (snd ?loop) = trace s @ concat segs"
    "list_all2 (attemptOf env config) oslIDs segs"
    "replays env config tunnel untunneledDialConfig (concat segs) (world s) (Some oslDirectory)
       (world (snd ?loop)) (Some oslDirectory)"
    by blast
  have same: "evs = concat segs" using e(1) a(1) by simp
  from replays_machine[OF a(3)] obtain m where m:
    "replay env config tunnel untunneledDialConfig (concat segs) (machine (world s) (Some oslDirectory)) = Some m"
    "curWorld m = world (snd ?loop)" by blast
  have flag: "fst ?loop = (failed \<or> failures evs \<noteq> [])"
    using e(3) unfolding fileFacts_def by blast
  note iso = fetchOSLFiles_isolated[of env config tunnel untunneledDialConfig oslDirectory failed oslIDs s k]
  show ?thesis
    apply (rule exI[of _ evs], rule exI[of _ segs], rule exI[of _ m])
    using e(1,2) flag same a(2) m iso by simp
qed

text \<open>
  Two examples, each with two gated files. The transfer of the first file fails: the second
  is read, unpacked, decoded, merged and committed all the same, the loop ends with
  \<^verbatim>\<open>failed\<close> set, and its state is the state that a new loop for the second file returns
  from the state the first one left. The data store refuses every ETag commit: both files
  are merged, each commit is attempted, and the loop ends with \<^verbatim>\<open>failed\<close> set.
\<close>

theorem loop_attempts_every_identifier_witness:
  "fetches (trace (snd (fetchOSLFiles (exampleEnv serveButFirst [] True) exampleConfig None None []
              False [[1], [2]] emptyStore)))
     = [''https://example.org/osl/osl-01'', ''https://example.org/osl/osl-02''] \<and>
   failures (trace (snd (fetchOSLFiles (exampleEnv serveButFirst [] True) exampleConfig None None []
              False [[1], [2]] emptyStore)))
     = [ResumeDownloadC ''https://example.org/osl/osl-01'' ''/data/osl/osl-01'' '''' 0 ''''] \<and>
   fst (fetchOSLFiles (exampleEnv serveButFirst [] True) exampleConfig None None []
              False [[1], [2]] emptyStore) = True \<and>
   filter (\<lambda>e. isFileRead e \<or> isUnpacked e \<or> isDecoded e \<or> isMerged e \<or> isCommit e)
     (trace (snd (fetchOSLFiles (exampleEnv serveButFirst [] True) exampleConfig None None []
              False [[1], [2]] emptyStore)))
     = [Called (ReadFileC ''/data/osl/osl-02'') True, Called (UnpackOSLC [2] ''key'') True,
        Called (DecodeAndValidateServerEntryListC ''gated entries'' ''2017-01-01T00:00:00Z'' ''REMOTE'') True,
        Called (StoreServerEntriesC True) True,
        Called (SetUrlETagC ''https://example.org/server_list'' ''f1'') True] \<and>
   world (snd (fetchOSLFiles (exampleEnv serveButFirst [] True) exampleConfig None None []
              False [[1], [2]] emptyStore))
     = \<lparr>etags = [(''https://example.org/server_list'', ''f1'')], keyValues = [],
        serverEntries = [''gated entries'']\<rparr> \<and>
   snd (fetchOSLFiles (exampleEnv serveButFirst [] True) exampleConfig None None []
              False [[1], [2]] emptyStore)
     = snd (fetchOSLFiles (exampleEnv serveButFirst [] True) exampleConfig None None [] False [[2]]
              (snd (fetchOSLFiles (exampleEnv serveButFirst [] True) exampleConfig None None []
                      False [[1]] emptyStore))) \<and>
   failures (trace (snd (fetchOSLFiles (exampleEnv (serveAll ''f1'') [] False) exampleConfig None None []
              False [[1], [2]] emptyStore)))
     = [SetUrlETagC ''https://example.org/server_list'' ''f1'',
        SetUrlETagC ''https://example.org/server_list'' ''f1''] \<and>
   fst (fetchOSLFiles (exampleEnv (serveAll ''f1'') [] False) exampleConfig None None []
              False [[1], [2]] emptyStore) = True \<and>
   serverEntries (world (snd (fetchOSLFiles (exampleEnv (serveAll ''f1'') [] False) exampleConfig None None []
              False [[1], [2]] emptyStore))) = [''gated entries'', ''gated entries'']"
  using loop_attempts_every_identifier[of "exampleEnv serveButFirst [] True" exampleConfig None None "[]"
          False "[[1], [2]]" emptyStore 1]
  by (simp add: example_defs code_defs)

subsection \<open>The fallback to the cached directory\<close>

text \<open>
  C5. On every cycle of the gated synchroniser: when a call of the directory's download,
  file read, unpack or cache store failed, or the directory's download reported the
  resource as unchanged, the cached directory is looked up; and when that lookup returns an
  error or an empty value, the cycle returns the error "failed to get cached obfuscated
  server list directory", the only fetch of the cycle is the directory's, the seeded
  identifiers are not queried and no ETag is committed.
\<close>

theorem missing_cache_is_fatal:
  assumes run: "FetchObfuscatedServerLists env config tunnel untunneledDialConfig s = (out, s')"
  shows "\<exists>evs. trace s' = trace s @ evs \<and>
     (directoryFailures evs \<noteq> [] \<longrightarrow> cacheLookups evs \<noteq> []) \<and>
     (\<forall>lastETag responseETag.
         downloads (beforeQuery evs) = [(lastETag, responseETag)] \<and>
         (responseETag = lastETag \<or> responseETag = '''') \<longrightarrow> cacheLookups evs \<noteq> []) \<and>
     (\<forall>v ok. cacheLookups evs = [(v, ok)] \<and> (\<not> ok \<or> v = '''') \<longrightarrow>
        (\<exists>e. out = Return (Some (Errorf ''failed to get cached obfuscated server list directory''
                                   (ContextError e)))) \<and>
        fetches evs = [GetOSLDirectoryURL env (ObfuscatedServerListRootURL config)] \<and>
        \<not> list_ex isQuery evs \<and> commits evs = [])"
proof -
  let ?url = "GetOSLDirectoryURL env (ObfuscatedServerListRootURL config)"
  let ?info = "NoticeInfo ''fetching obfuscated remote server lists''"
  from main_structure[OF run] obtain failed tag d dirEvs r cacheEvs where
    dirF: "directoryFacts ?url failed tag d dirEvs" and
    cacheF: "cacheFacts failed tag d r cacheEvs" and
    rest: "case r of
         Inl e \<Rightarrow> out = Return (Some e) \<and> trace s' = trace s @ ?info # dirEvs @ cacheEvs
       | Inr x \<Rightarrow> (\<exists>directory commitEvs raised loopEvs w failed'.
           x = Some directory \<and> commitFacts config failed tag commitEvs \<and>
           trace s' = trace s @ ?info # dirEvs @ cacheEvs @
                        commitEvs @ map alertEvent raised @ [Called GetSeededOSLIDsC True] @ loopEvs \<and>
           fetches loopEvs = map (GetOSLFileURL env (ObfuscatedServerListRootURL config))
              (fst (fst (GetSeededOSLIDs env directory (lookupSLOKs env) seededOSLIDsErrorSink w))) \<and>
           fileFacts config failed failed' loopEvs \<and>
           (\<exists>oslIDs s4. fetchOSLFiles env config tunnel untunneledDialConfig directory failed oslIDs s4 = (failed', s')) \<and>
           out = Return (if failed' then Some (New ''failed to fetch obfuscated remote server lists'')
                         else None))"
    by blast
  have d1: "fetches dirEvs = [?url]" "commits dirEvs = []" "cacheLookups dirEvs = []"
    "\<not> list_ex isQuery dirEvs" "failed = (failures dirEvs \<noteq> [])"
    using dirF by (simp_all add: directoryFacts_def)
  have d2: "\<And>lastETag responseETag. downloads dirEvs = [(lastETag, responseETag)] \<Longrightarrow>
              responseETag = lastETag \<or> responseETag = '''' \<Longrightarrow> tag = ''''"
    using dirF unfolding directoryFacts_def by blast
  have c1: "fetches cacheEvs = []" "commits cacheEvs = []" "downloads cacheEvs = []"
    "\<not> list_ex isQuery cacheEvs" "(failed \<or> tag = '''') = (cacheLookups cacheEvs \<noteq> [])"
    using cacheF by (simp_all add: cacheFacts_def)
  have c2: "\<And>v ok. cacheLookups cacheEvs = [(v, ok)] \<Longrightarrow> \<not> ok \<or> v = '''' \<Longrightarrow>
             \<exists>e. r = Inl (Errorf ''failed to get cached obfuscated server list directory'' (ContextError e))"
    using cacheF unfolding cacheFacts_def by blast
  have c3: "\<not> (failed \<or> tag = '''') \<Longrightarrow> r = Inr d"
    using cacheF by (simp add: cacheFacts_def)
  show ?thesis
  proof (cases r)
    case (Inl e)
    with rest have out: "out = Return (Some e)" and tr: "trace s' = trace s @ ?info # dirEvs @ cacheEvs"
      by simp_all
    have fb: "cacheLookups cacheEvs \<noteq> []" using c3 c1(5) Inl by auto
    have nq: "\<not> list_ex isQuery (?info # dirEvs @ cacheEvs)" using d1(4) c1(4) by simp
    show ?thesis
    proof (intro exI[of _ "?info # dirEvs @ cacheEvs"] conjI allI impI)
      show "trace s' = trace s @ ?info # dirEvs @ cacheEvs" by (rule tr)
    next
      show "cacheLookups (?info # dirEvs @ cacheEvs) \<noteq> []" using fb d1 by simp
    next
      show "cacheLookups (?info # dirEvs @ cacheEvs) \<noteq> []" using fb d1 by simp
    next
      fix v ok assume a: "cacheLookups (?info # dirEvs @ cacheEvs) = [(v, ok)] \<and> (\<not> ok \<or> v = '''')"
      then have "cacheLookups cacheEvs = [(v, ok)]" "\<not> ok \<or> v = ''''" using d1 by simp_all
      from c2[OF this] Inl out
      show "\<exists>e. out = Return (Some (Errorf ''failed to get cached obfuscated server list directory''
                                   (ContextError e)))" by auto
    next
      show "fetches (?info # dirEvs @ cacheEvs) = [?url]" using d1 c1 by simp
    next
      show "\<not> list_ex isQuery (?info # dirEvs @ cacheEvs)" by (rule nq)
    next
      show "commits (?info # dirEvs @ cacheEvs) = []" using d1 c1 by simp
    qed
  next
    case (Inr x)
    with rest obtain directory commitEvs raised loopEvs failed' where
      commitF: "commitFacts config failed tag commitEvs" and
      tr: "trace s' = trace s @ ?info # dirEvs @ cacheEvs @
                        commitEvs @ map alertEvent raised @ [Called GetSeededOSLIDsC True] @ loopEvs" and
      fileF: "fileFacts config failed failed' loopEvs"
      by auto
    let ?pre = "?info # dirEvs @ cacheEvs @ commitEvs @ map alertEvent raised"
    let ?evs = "?pre @ [Called GetSeededOSLIDsC True] @ loopEvs"
    have m1: "cacheLookups commitEvs = []" "downloads commitEvs = []" "\<not> list_ex isQuery commitEvs"
      "filter (\<lambda>c. \<not> isCommitCall c) (failures commitEvs) = []"
      using commitF by (simp_all add: commitFacts_def)
    have f1: "cacheLookups loopEvs = []" using fileF by (simp add: fileFacts_def)
    have c4: "failures cacheEvs = []" using cacheF Inr by (simp add: cacheFacts_def)
    have npre: "\<not> list_ex isQuery ?pre" using d1(4) c1(4) m1(3) by simp
    have bq: "beforeQuery ?evs = ?pre"
      using beforeQuery_append[OF npre, of "[Called GetSeededOSLIDsC True] @ loopEvs"] by simp
    have lk: "cacheLookups ?evs = cacheLookups cacheEvs" using d1 m1 f1 by simp
    have df: "directoryFailures ?evs = filter (\<lambda>c. \<not> isCommitCall c) (failures dirEvs)"
      unfolding directoryFailures_def bq using c4 m1 by simp
    have isq: "list_ex isQuery ?evs" by simp
    show ?thesis
    proof (intro exI[of _ ?evs] conjI allI impI)
      show "trace s' = trace s @ ?evs" using tr by simp
    next
      assume "directoryFailures ?evs \<noteq> []"
      then have "failures dirEvs \<noteq> []" unfolding df by auto
      then show "cacheLookups ?evs \<noteq> []" unfolding lk using d1(5) c1(5) by simp
    next
      fix lastETag responseETag
      assume a: "downloads (beforeQuery ?evs) = [(lastETag, responseETag)] \<and>
                 (responseETag = lastETag \<or> responseETag = '''')"
      then have "downloads dirEvs = [(lastETag, responseETag)]" unfolding bq using c1 m1 by simp
      from d2[OF this] a have "tag = ''''" by blast
      then show "cacheLookups ?evs \<noteq> []" unfolding lk using c1(5) by simp
    next
      fix v ok assume a: "cacheLookups ?evs = [(v, ok)] \<and> (\<not> ok \<or> v = '''')"
      then have "cacheLookups cacheEvs = [(v, ok)]" "\<not> ok \<or> v = ''''" unfolding lk by simp_all
      from c2[OF this] Inr have False by simp
      then show "\<exists>e. out = Return (Some (Errorf ''failed to get cached obfuscated server list directory''
                                   (ContextError e)))"
         "fetches ?evs = [?url]" "\<not> list_ex isQuery ?evs" "commits ?evs = []" by simp_all
    qed
  qed
qed

text \<open>
  Two examples, on a store with no cached directory: the transfer of the directory fails;
  the directory is unchanged. In both the cache is looked up, holds nothing, and the cycle
  ends there with the error.
\<close>

theorem missing_cache_is_fatal_witness:
  "fst (FetchObfuscatedServerLists (exampleEnv serveNone [[1]] True) exampleConfig None None emptyStore)
     = Return (Some (Errorf ''failed to get cached obfuscated server list directory''
                       (ContextError (New ''not found'')))) \<and>
   directoryFailures (trace (snd (FetchObfuscatedServerLists (exampleEnv serveNone [[1]] True)
                                    exampleConfig None None emptyStore)))
     = [ResumeDownloadC ''https://example.org/osl/osl-directory'' ''/data/osl/osl-directory''
          '''' 0 ''''] \<and>
   cacheLookups (trace (snd (FetchObfuscatedServerLists (exampleEnv serveNone [[1]] True)
                               exampleConfig None None emptyStore))) = [('''', True)] \<and>
   fetches (trace (snd (FetchObfuscatedServerLists (exampleEnv serveNone [[1]] True)
                          exampleConfig None None emptyStore)))
     = [''https://example.org/osl/osl-directory''] \<and>
   fst (FetchObfuscatedServerLists (exampleEnv serveGated [[1]] True) exampleConfig None None
          (storeWith [(''https://example.org/osl/osl-directory'', ''d1'')]))
     = Return (Some (Errorf ''failed to get cached obfuscated server list directory''
                       (ContextError (New ''not found'')))) \<and>
   downloads (beforeQuery (trace (snd (FetchObfuscatedServerLists (exampleEnv serveGated [[1]] True)
          exampleConfig None None (storeWith [(''https://example.org/osl/osl-directory'', ''d1'')])))))
     = [(''d1'', ''d1'')] \<and>
   fetches (trace (snd (FetchObfuscatedServerLists (exampleEnv serveGated [[1]] True)
          exampleConfig None None (storeWith [(''https://example.org/osl/osl-directory'', ''d1'')]))))
     = [''https://example.org/osl/osl-directory'']"
  using missing_cache_is_fatal[of "exampleEnv serveNone [[1]] True" exampleConfig None None emptyStore
          "fst (FetchObfuscatedServerLists (exampleEnv serveNone [[1]] True) exampleConfig None None
                  emptyStore)"
          "snd (FetchObfuscatedServerLists (exampleEnv serveNone [[1]] True) exampleConfig None None
                  emptyStore)"]
  by (simp add: example_defs code_defs directoryFailures_def)

subsection \<open>The fetch step\<close>

text \<open>
  C6 (as stated it fails, see the counterexample that follows; this is the amended claim).
  A fetch returns an empty new ETag and no error exactly when the download returned no
  error and the response ETag equals the ETag stored for the source URL or is itself
  empty. In that case the common list synchroniser returns nil at once, in the state the
  fetch left (no unpack, no merge, no ETag commit); the body of the loop over the gated
  files ends for that identifier in the state the fetch left, with \<^verbatim>\<open>failed\<close> as it was;
  and the download of the directory reads, unpacks and stores nothing and leaves
  \<^verbatim>\<open>failed\<close> unset.
\<close>

theorem unchanged_when_same_or_empty_ETag:
  assumes run: "downloadRemoteServerListFile env config tunnel untunneledDialConfig sourceURL
                  destinationFilename s = ((newETag, err), s')"
  shows "(\<exists>evs. trace s' = trace s @ evs \<and>
            ((newETag = '''' \<and> err = None) \<longleftrightarrow>
             (\<exists>lastETag responseETag.
                 storedETags evs = [(sourceURL, lastETag)] \<and>
                 downloads evs = [(lastETag, responseETag)] \<and>
                 (responseETag = lastETag \<or> responseETag = '''')))) \<and>
         (newETag = '''' \<and> err = None \<longrightarrow>
            (sourceURL = RemoteServerListUrl config \<and>
             destinationFilename = RemoteServerListDownloadFilename config \<and>
             s = emit (NoticeInfo ''fetching common remote server list'') s0 \<longrightarrow>
               FetchCommonRemoteServerList env config tunnel untunneledDialConfig s0 = (None, s')) \<and>
            (sourceURL = GetOSLFileURL env (ObfuscatedServerListRootURL config) oslID \<and>
             destinationFilename = GetOSLFilename env (ObfuscatedServerListDownloadDirectory config) oslID \<longrightarrow>
               fetchOSLFile env config tunnel untunneledDialConfig oslDirectory failed oslID s = (failed, s')) \<and>
            fetchOSLDirectory env config tunnel untunneledDialConfig sourceURL destinationFilename s
              = ((False, '''', None), s'))"
proof -
  have fetch: "\<exists>evs. trace s' = trace s @ evs \<and>
            ((newETag = '''' \<and> err = None) \<longleftrightarrow>
             (\<exists>lastETag responseETag.
                 storedETags evs = [(sourceURL, lastETag)] \<and>
                 downloads evs = [(lastETag, responseETag)] \<and>
                 (responseETag = lastETag \<or> responseETag = '''')))"
    using run
    by (auto simp: downloadRemoteServerListFile_def step_defs Let_def
             split: prod.splits sum.splits option.splits if_splits)
  have common: "FetchCommonRemoteServerList env config tunnel untunneledDialConfig s0 = (None, s')"
    if "newETag = ''''" "err = None" "sourceURL = RemoteServerListUrl config"
       "destinationFilename = RemoteServerListDownloadFilename config"
       "s = emit (NoticeInfo ''fetching common remote server list'') s0"
    using run that by (simp add: FetchCommonRemoteServerList_def)
  have gated: "fetchOSLFile env config tunnel untunneledDialConfig oslDirectory failed oslID s = (failed, s')"
    if "newETag = ''''" "err = None"
       "sourceURL = GetOSLFileURL env (ObfuscatedServerListRootURL config) oslID"
       "destinationFilename = GetOSLFilename env (ObfuscatedServerListDownloadDirectory config) oslID"
    using run that by (simp add: fetchOSLFile_def)
  have directory: "fetchOSLDirectory env config tunnel untunneledDialConfig sourceURL destinationFilename s
              = ((False, '''', None), s')"
    if "newETag = ''''" "err = None"
    using run that by (simp add: fetchOSLDirectory_def)
  from fetch common gated directory show ?thesis by blast
qed


text \<open>
  Two examples: the store holds the ETag the server answers with, for the common list and
  for a gated file. The common list synchroniser returns nil after the download, and the
  body of the loop ends after the download with \<^verbatim>\<open>failed\<close> unset; both traces end there.
\<close>

theorem unchanged_when_same_or_empty_ETag_witness:
  "FetchCommonRemoteServerList (exampleEnv (serveAll ''a1'') [] True) exampleConfig None None
     (storeWith [(''https://example.org/server_list'', ''a1'')])
   = (None,
      \<lparr>world = \<lparr>etags = [(''https://example.org/server_list'', ''a1'')], keyValues = [],
                 serverEntries = []\<rparr>,
       trace = [NoticeInfo ''fetching common remote server list'',
                Called (MakeDownloadHttpClientC ''https://example.org/server_list'' 30000000000) True,
                Called (GetUrlETagC ''https://example.org/server_list'' ''a1'') True,
                Called (ResumeDownloadC ''https://example.org/server_list'' ''/data/server_list''
                          ''a1'' 0 ''a1'') True,
                NoticeRemoteServerListResourceDownloadedBytes ''https://example.org/server_list'' 0]\<rparr>) \<and>
   fetchOSLFile (exampleEnv (serveAll ''a1'') [] True) exampleConfig None None [] False [1]
     (storeWith [(''https://example.org/osl/osl-01'', ''a1'')])
   = (False,
      \<lparr>world = \<lparr>etags = [(''https://example.org/osl/osl-01'', ''a1'')], keyValues = [],
                 serverEntries = []\<rparr>,
       trace = [Called (MakeDownloadHttpClientC ''https://example.org/osl/osl-01'' 30000000000) True,
                Called (GetUrlETagC ''https://example.org/osl/osl-01'' ''a1'') True,
                Called (ResumeDownloadC ''https://example.org/osl/osl-01'' ''/data/osl/osl-01''
                          ''a1'' 0 ''a1'') True,
                NoticeRemoteServerListResourceDownloadedBytes ''https://example.org/osl/osl-01'' 0]\<rparr>)"
proof
  let ?env = "exampleEnv (serveAll ''a1'') [] True"
  let ?s0 = "storeWith [(''https://example.org/server_list'', ''a1'')]"
  let ?s' = "\<lparr>world = \<lparr>etags = [(''https://example.org/server_list'', ''a1'')], keyValues = [],
                 serverEntries = []\<rparr>,
       trace = [NoticeInfo ''fetching common remote server list'',
                Called (MakeDownloadHttpClientC ''https://example.org/server_list'' 30000000000) True,
                Called (GetUrlETagC ''https://example.org/server_list'' ''a1'') True,
                Called (ResumeDownloadC ''https://example.org/server_list'' ''/data/server_list''
                          ''a1'' 0 ''a1'') True,
                NoticeRemoteServerListResourceDownloadedBytes ''https://example.org/server_list'' 0]\<rparr>"
  have run: "downloadRemoteServerListFile ?env exampleConfig None None
               (RemoteServerListUrl exampleConfig) (RemoteServerListDownloadFilename exampleConfig)
               (emit (NoticeInfo ''fetching common remote server list'') ?s0) = (('''', None), ?s')"
    by (simp add: example_defs code_defs Duration_def Second_def)
  from unchanged_when_same_or_empty_ETag[OF run, of ?s0]
  show "FetchCommonRemoteServerList ?env exampleConfig None None ?s0 = (None, ?s')" by simp
next
  let ?env = "exampleEnv (serveAll ''a1'') [] True"
  let ?s0 = "storeWith [(''https://example.org/osl/osl-01'', ''a1'')]"
  let ?s' = "\<lparr>world = \<lparr>etags = [(''https://example.org/osl/osl-01'', ''a1'')], keyValues = [],
                 serverEntries = []\<rparr>,
       trace = [Called (MakeDownloadHttpClientC ''https://example.org/osl/osl-01'' 30000000000) True,
                Called (GetUrlETagC ''https://example.org/osl/osl-01'' ''a1'') True,
                Called (ResumeDownloadC ''https://example.org/osl/osl-01'' ''/data/osl/osl-01''
                          ''a1'' 0 ''a1'') True,
                NoticeRemoteServerListResourceDownloadedBytes ''https://example.org/osl/osl-01'' 0]\<rparr>"
  have run: "downloadRemoteServerListFile ?env exampleConfig None None
               (GetOSLFileURL ?env (ObfuscatedServerListRootURL exampleConfig) [1])
               (GetOSLFilename ?env (ObfuscatedServerListDownloadDirectory exampleConfig) [1])
               ?s0 = (('''', None), ?s')"
    by (simp add: example_defs code_defs Duration_def Second_def)
  from unchanged_when_same_or_empty_ETag[OF run, of _ "[1]" "[]" False]
  show "fetchOSLFile ?env exampleConfig None None [] False [1] ?s0 = (False, ?s')" by simp
qed

text \<open>
  C6 as stated: "unchanged if and only if the response ETag equals the stored ETag". The
  store holds the ETag \<open>''a1''\<close> for the URL and the server answers with an empty ETag:
  the two differ, and the fetch reports the resource as unchanged.
\<close>

theorem unchanged_iff_same_ETag_counterexample:
  "fst (downloadRemoteServerListFile (exampleEnv (serveAll '''') [] True) exampleConfig None None
          ''https://example.org/server_list'' ''/data/server_list''
          (storeWith [(''https://example.org/server_list'', ''a1'')])) = ('''', None) \<and>
   storedETags (trace (snd (downloadRemoteServerListFile (exampleEnv (serveAll '''') [] True)
          exampleConfig None None ''https://example.org/server_list'' ''/data/server_list''
          (storeWith [(''https://example.org/server_list'', ''a1'')]))))
     = [(''https://example.org/server_list'', ''a1'')] \<and>
   downloads (trace (snd (downloadRemoteServerListFile (exampleEnv (serveAll '''') [] True)
          exampleConfig None None ''https://example.org/server_list'' ''/data/server_list''
          (storeWith [(''https://example.org/server_list'', ''a1'')])))) = [(''a1'', '''')]"
  by (simp add: example_defs code_defs)

subsection \<open>The query of the seeded identifiers\<close>

text \<open>
  C7. Every cycle of the gated synchroniser either returns one of the two errors of the
  fallback (the cached directory could not be got, or could not be loaded), after looking
  the cache up and without a query, or calls \<^verbatim>\<open>GetSeededOSLIDs\<close> exactly once. No cycle
  dereferences a nil directory.

  The query is made on the directory of this cycle, in the world that the events before the
  query left, with the key lookup \<^verbatim>\<open>lookupSLOKs\<close> and the error sink: the directory is the
  one that the replay of the events before the query holds, which is the result of
  \<^verbatim>\<open>UnpackDirectory\<close> when the cache was not looked up (the directory was downloaded and
  unpacked in this cycle), and the result of \<^verbatim>\<open>LoadDirectory\<close> on the value found in the
  cache otherwise (the directory was unchanged, or a step of its download failed). The
  alerts that the two callbacks raised during the query are the last events before its
  record; the gated files fetched after it are exactly the files of the identifiers that it
  returned, in their order; and the events of the loop replay from the world that the query
  left to the world that the cycle returns.

  The key lookup returns the key and the world that \<^verbatim>\<open>GetSLOK\<close> returns, whatever its
  error, and raises the alert "GetSLOK failed" exactly when \<^verbatim>\<open>GetSLOK\<close> returns an error;
  the sink raises the alert "GetSeededOSLIDs failed" for the error it is handed.
\<close>

theorem unlock_query_on_every_cycle:
  assumes run: "FetchObfuscatedServerLists env config tunnel untunneledDialConfig s = (out, s')"
  shows "(\<exists>evs. trace s' = trace s @ evs \<and> out \<noteq> NilDereference \<and>
     (if list_ex isQuery evs
      then filter isQuery evs = [Called GetSeededOSLIDsC True] \<and>
           (\<exists>m oslDirectory oslIDs raised w m'.
               replay env config tunnel untunneledDialConfig (beforeQuery evs) (machine (world s) None)
                 = Some m \<and>
               curDirectory m = Some oslDirectory \<and>
               GetSeededOSLIDs env oslDirectory (lookupSLOKs env) seededOSLIDsErrorSink (curWorld m)
                 = ((oslIDs, raised), w) \<and>
               endsWith (beforeQuery evs) (map alertEvent raised) \<and>
               fetches (fromQuery evs)
                 = map (GetOSLFileURL env (ObfuscatedServerListRootURL config)) oslIDs \<and>
               replay env config tunnel untunneledDialConfig (tl (fromQuery evs))
                 (machine w (Some oslDirectory)) = Some m' \<and>
               curWorld m' = world s') \<and>
           (if cacheLookups evs = [] then list_ex isDirectoryUnpacked (beforeQuery evs)
            else \<exists>oslDirectoryJSON. cacheLookups evs = [(oslDirectoryJSON, True)] \<and>
                   completed (LoadDirectoryC oslDirectoryJSON) (beforeQuery evs)) \<and>
           (out = Return None \<or>
            out = Return (Some (New ''failed to fetch obfuscated remote server lists'')))
      else cacheLookups evs \<noteq> [] \<and>
           (\<exists>e. out = Return (Some (Errorf ''failed to get cached obfuscated server list directory''
                                      (ContextError e))) \<or>
                out = Return (Some (Errorf ''failed to load obfuscated server list directory''
                                      (ContextError e)))))) \<and>
     fst (fst (lookupSLOKs env slokID w0)) = fst (fst (GetSLOK env slokID w0)) \<and>
     snd (lookupSLOKs env slokID w0) = snd (GetSLOK env slokID w0) \<and>
     map alertEvent (snd (fst (lookupSLOKs env slokID w0)))
       = (case snd (fst (GetSLOK env slokID w0)) of
            None \<Rightarrow> []
          | Some err \<Rightarrow> [NoticeAlert ''GetSLOK failed: %s'' [] err]) \<and>
     map alertEvent (seededOSLIDsErrorSink err0) = [NoticeAlert ''GetSeededOSLIDs failed: %s'' [] err0]"
proof -
  from cycle_query_events[OF run] obtain evs where a:
    "trace s' = trace s @ evs" "out \<noteq> NilDereference"
    "if list_ex isQuery evs
      then filter isQuery evs = [Called GetSeededOSLIDsC True] \<and>
           (out = Return None \<or>
            out = Return (Some (New ''failed to fetch obfuscated remote server lists'')))
      else cacheLookups evs \<noteq> [] \<and>
           (\<exists>e. out = Return (Some (Errorf ''failed to get cached obfuscated server list directory''
                                      (ContextError e))) \<or>
                out = Return (Some (Errorf ''failed to load obfuscated server list directory''
                                      (ContextError e))))"
    by blast
  from cycle_replay[OF run] obtain evs' where b:
    "trace s' = trace s @ evs'"
    "list_ex isQuery evs' \<longrightarrow>
       (\<exists>m1 directory oslIDs raised w m2 segs.
          replay env config tunnel untunneledDialConfig (beforeQuery evs') (machine (world s) None) = Some m1 \<and>
          curDirectory m1 = Some directory \<and>
          GetSeededOSLIDs env directory (lookupSLOKs env) seededOSLIDsErrorSink (curWorld m1)
            = ((oslIDs, raised), w) \<and>
          endsWith (beforeQuery evs') (map alertEvent raised) \<and>
          fetches (fromQuery evs')
            = map (GetOSLFileURL env (ObfuscatedServerListRootURL config)) oslIDs \<and>
          replay env config tunnel untunneledDialConfig (tl (fromQuery evs')) (machine w (Some directory))
            = Some m2 \<and>
          curWorld m2 = world s' \<and>
          tl (fromQuery evs') = concat segs \<and> list_all2 (attemptOf env config) oslIDs segs) \<and>
       (if cacheLookups evs' = [] then list_ex isDirectoryUnpacked (beforeQuery evs')
        else \<exists>json. cacheLookups evs' = [(json, True)] \<and>
                    completed (LoadDirectoryC json) (beforeQuery evs'))"
    by blast
  have same: "evs' = evs" using a(1) b(1) by simp
  note c = b(2)[unfolded same]
  have events: "\<exists>evs. trace s' = trace s @ evs \<and> out \<noteq> NilDereference \<and>
     (if list_ex isQuery evs
      then filter isQuery evs = [Called GetSeededOSLIDsC True] \<and>
           (\<exists>m oslDirectory oslIDs raised w m'.
               replay env config tunnel untunneledDialConfig (beforeQuery evs) (machine (world s) None)
                 = Some m \<and>
               curDirectory m = Some oslDirectory \<and>
               GetSeededOSLIDs env oslDirectory (lookupSLOKs env) seededOSLIDsErrorSink (curWorld m)
                 = ((oslIDs, raised), w) \<and>
               endsWith (beforeQuery evs) (map alertEvent raised) \<and>
               fetches (fromQuery evs)
                 = map (GetOSLFileURL env (ObfuscatedServerListRootURL config)) oslIDs \<and>
               replay env config tunnel untunneledDialConfig (tl (fromQuery evs))
                 (machine w (Some oslDirectory)) = Some m' \<and>
               curWorld m' = world s') \<and>
           (if cacheLookups evs = [] then list_ex isDirectoryUnpacked (beforeQuery evs)
            else \<exists>oslDirectoryJSON. cacheLookups evs = [(oslDirectoryJSON, True)] \<and>
                   completed (LoadDirectoryC oslDirectoryJSON) (beforeQuery evs)) \<and>
           (out = Return None \<or>
            out = Return (Some (New ''failed to fetch obfuscated remote server lists'')))
      else cacheLookups evs \<noteq> [] \<and>
           (\<exists>e. out = Return (Some (Errorf ''failed to get cached obfuscated server list directory''
                                      (ContextError e))) \<or>
                out = Return (Some (Errorf ''failed to load obfuscated server list directory''
                                      (ContextError e)))))"
  proof (cases "list_ex isQuery evs")
    case True
    have q: "filter isQuery evs = [Called GetSeededOSLIDsC True] \<and>
           (out = Return None \<or>
            out = Return (Some (New ''failed to fetch obfuscated remote server lists'')))"
      using a(3) True by simp
    note c' = c[rule_format, OF True]
    show ?thesis
      apply (rule exI[of _ evs])
      apply (simp only: True if_True)
      using a(1,2) q c' apply blast
      done
  next
    case False
    show ?thesis
      apply (rule exI[of _ evs])
      apply (simp only: False if_False)
      using a(1,2) a(3) False apply simp
      done
  qed
  have lookup: "fst (fst (lookupSLOKs env slokID w0)) = fst (fst (GetSLOK env slokID w0))"
    "snd (lookupSLOKs env slokID w0) = snd (GetSLOK env slokID w0)"
    "map alertEvent (snd (fst (lookupSLOKs env slokID w0)))
       = (case snd (fst (GetSLOK env slokID w0)) of
            None \<Rightarrow> []
          | Some err \<Rightarrow> [NoticeAlert ''GetSLOK failed: %s'' [] err])"
    by (simp_all add: lookupSLOKs_def alertEvent_def split: prod.splits option.splits)
  have sink: "map alertEvent (seededOSLIDsErrorSink err0) = [NoticeAlert ''GetSeededOSLIDs failed: %s'' [] err0]"
    by (simp add: seededOSLIDsErrorSink_def alertEvent_def)
  show ?thesis
    using events lookup sink by (intro conjI)
qed

text \<open>
  Three examples, with a directory of two identifiers of which the data store holds the key
  of the first: the directory is new; the directory is unchanged and comes from the cache;
  the transfer of the directory fails and the directory comes from the cache. Each cycle
  queries the seeded identifiers, the lookup of the second key and the sink raise their
  alerts right before the record of the query, and the file of the first identifier is
  fetched.
\<close>

theorem unlock_query_on_every_cycle_witness:
  "filter isQuery (trace (snd (FetchObfuscatedServerLists (keyedEnv serveGated [[1], [2]]) exampleConfig
                                 None None emptyStore))) = [Called GetSeededOSLIDsC True] \<and>
   cacheLookups (trace (snd (FetchObfuscatedServerLists (keyedEnv serveGated [[1], [2]]) exampleConfig
                                 None None emptyStore))) = [] \<and>
   endsWith (beforeQuery (trace (snd (FetchObfuscatedServerLists (keyedEnv serveGated [[1], [2]])
                                        exampleConfig None None emptyStore))))
     [NoticeAlert ''GetSLOK failed: %s'' [] (New ''no such key''),
      NoticeAlert ''GetSeededOSLIDs failed: %s'' [] (New ''no key'')] \<and>
   fetches (fromQuery (trace (snd (FetchObfuscatedServerLists (keyedEnv serveGated [[1], [2]])
                                     exampleConfig None None emptyStore))))
     = [''https://example.org/osl/osl-01''] \<and>
   filter isQuery (trace (snd (FetchObfuscatedServerLists (keyedEnv serveGated [[1], [2]]) exampleConfig
                                 None None cachedStore))) = [Called GetSeededOSLIDsC True] \<and>
   cacheLookups (trace (snd (FetchObfuscatedServerLists (keyedEnv serveGated [[1], [2]]) exampleConfig
                                 None None cachedStore))) = [(''{}'', True)] \<and>
   fetches (fromQuery (trace (snd (FetchObfuscatedServerLists (keyedEnv serveGated [[1], [2]])
                                     exampleConfig None None cachedStore))))
     = [''https://example.org/osl/osl-01''] \<and>
   fst (FetchObfuscatedServerLists (keyedEnv serveButDirectory [[1], [2]]) exampleConfig None None
          cachedStore)
     = Return (Some (New ''failed to fetch obfuscated remote server lists'')) \<and>
   cacheLookups (trace (snd (FetchObfuscatedServerLists (keyedEnv serveButDirectory [[1], [2]])
                               exampleConfig None None cachedStore))) = [(''{}'', True)] \<and>
   endsWith (beforeQuery (trace (snd (FetchObfuscatedServerLists (keyedEnv serveButDirectory [[1], [2]])
                                        exampleConfig None None cachedStore))))
     [NoticeAlert ''GetSLOK failed: %s'' [] (New ''no such key''),
      NoticeAlert ''GetSeededOSLIDs failed: %s'' [] (New ''no key'')] \<and>
   fetches (fromQuery (trace (snd (FetchObfuscatedServerLists (keyedEnv serveButDirectory [[1], [2]])
                                     exampleConfig None None cachedStore))))
     = [''https://example.org/osl/osl-01'']"
  using unlock_query_on_every_cycle[of "keyedEnv serveGated [[1], [2]]" exampleConfig None None
          cachedStore
          "fst (FetchObfuscatedServerLists (keyedEnv serveGated [[1], [2]]) exampleConfig None None
                  cachedStore)"
          "snd (FetchObfuscatedServerLists (keyedEnv serveGated [[1], [2]]) exampleConfig None None
                  cachedStore)"]
  by (simp add: example_defs code_defs keyedEnv_def serveButDirectory_def endsWith_def)

subsection \<open>The result of the gated synchroniser\<close>

text \<open>
  C8. A cycle of the gated synchroniser that reaches the query of the seeded identifiers
  returns the error "failed to fetch obfuscated remote server lists" exactly when a call
  failed before the query, other than the directory's ETag commit (the directory's download,
  file read, unpack or cache store), or a call failed from the query on (any step of a gated
  file); otherwise it returns nil. It returns after every identifier was processed: the
  events after the query are one whole attempt for each identifier that the query returned
  for the directory of the cycle, in their order.

  Whatever the result, the world that the cycle returns is the world that its calls left:
  the calls of its trace, replayed in order from the world the cycle started in, each on
  the world that the one before it left, end in the world returned. So the merge of every
  batch and the commit of every ETag that the trace records are in the world returned, with
  the error as with nil: the result only reads the flag, and nothing is taken back.
\<close>

theorem failure_iff_failed_was_set:
  assumes run: "FetchObfuscatedServerLists env config tunnel untunneledDialConfig s = (out, s')"
  shows "\<exists>evs m. trace s' = trace s @ evs \<and>
     (list_ex isQuery evs \<longrightarrow>
        out = Return (if directoryFailures evs \<noteq> [] \<or> fileFailures evs \<noteq> []
                      then Some (New ''failed to fetch obfuscated remote server lists'')
                      else None) \<and>
        (\<exists>m1 oslDirectory oslIDs raised w segs.
            replay env config tunnel untunneledDialConfig (beforeQuery evs) (machine (world s) None)
              = Some m1 \<and>
            curDirectory m1 = Some oslDirectory \<and>
            GetSeededOSLIDs env oslDirectory (lookupSLOKs env) seededOSLIDsErrorSink (curWorld m1)
              = ((oslIDs, raised), w) \<and>
            tl (fromQuery evs) = concat segs \<and> list_all2 (attemptOf env config) oslIDs segs)) \<and>
     replay env config tunnel untunneledDialConfig evs (machine (world s) None) = Some m \<and>
     curWorld m = world s'"
proof -
  from cycle_result_events[OF run] obtain evs where a:
    "trace s' = trace s @ evs"
    "list_ex isQuery evs \<longrightarrow>
        out = Return (if directoryFailures evs \<noteq> [] \<or> fileFailures evs \<noteq> []
                      then Some (New ''failed to fetch obfuscated remote server lists'')
                      else None)"
    by blast
  from cycle_replay[OF run] obtain evs' m where b:
    "trace s' = trace s @ evs'"
    "replay env config tunnel untunneledDialConfig evs' (machine (world s) None) = Some m"
    "curWorld m = world s'"
    "list_ex isQuery evs' \<longrightarrow>
       (\<exists>m1 directory oslIDs raised w m2 segs.
          replay env config tunnel untunneledDialConfig (beforeQuery evs') (machine (world s) None) = Some m1 \<and>
          curDirectory m1 = Some directory \<and>
          GetSeededOSLIDs env directory (lookupSLOKs env) seededOSLIDsErrorSink (curWorld m1)
            = ((oslIDs, raised), w) \<and>
          endsWith (beforeQuery evs') (map alertEvent raised) \<and>
          fetches (fromQuery evs')
            = map (GetOSLFileURL env (ObfuscatedServerListRootURL config)) oslIDs \<and>
          replay env config tunnel untunneledDialConfig (tl (fromQuery evs')) (machine w (Some directory))
            = Some m2 \<and>
          curWorld m2 = world s' \<and>
          tl (fromQuery evs') = concat segs \<and> list_all2 (attemptOf env config) oslIDs segs) \<and>
       (if cacheLookups evs' = [] then list_ex isDirectoryUnpacked (beforeQuery evs')
        else \<exists>json. cacheLookups evs' = [(json, True)] \<and>
                    completed (LoadDirectoryC json) (beforeQuery evs'))"
    by blast
  have same: "evs' = evs" using a(1) b(1) by simp
  have loop: "list_ex isQuery evs \<longrightarrow>
        (\<exists>m1 oslDirectory oslIDs raised w segs.
            replay env config tunnel untunneledDialConfig (beforeQuery evs) (machine (world s) None)
              = Some m1 \<and>
            curDirectory m1 = Some oslDirectory \<and>
            GetSeededOSLIDs env oslDirectory (lookupSLOKs env) seededOSLIDsErrorSink (curWorld m1)
              = ((oslIDs, raised), w) \<and>
            tl (fromQuery evs) = concat segs \<and> list_all2 (attemptOf env config) oslIDs segs)"
    using b(4)[unfolded same] by blast
  show ?thesis
    apply (rule exI[of _ evs], rule exI[of _ m])
    using a b(2,3) same loop by simp
qed

text \<open>
  Two examples. The transfer of the first of two gated files fails: the cycle returns the
  error, and the store holds the entries merged from the second file and the ETags
  committed. No call fails: the cycle returns nil, and the store holds the entries of both
  files.
\<close>

theorem failure_iff_failed_was_set_witness:
  "fst (FetchObfuscatedServerLists (exampleEnv serveButFirst [[1], [2]] True) exampleConfig None None
          emptyStore)
     = Return (Some (New ''failed to fetch obfuscated remote server lists'')) \<and>
   list_ex isQuery (trace (snd (FetchObfuscatedServerLists (exampleEnv serveButFirst [[1], [2]] True)
                                  exampleConfig None None emptyStore))) \<and>
   directoryFailures (trace (snd (FetchObfuscatedServerLists (exampleEnv serveButFirst [[1], [2]] True)
                                    exampleConfig None None emptyStore))) = [] \<and>
   fileFailures (trace (snd (FetchObfuscatedServerLists (exampleEnv serveButFirst [[1], [2]] True)
                               exampleConfig None None emptyStore)))
     = [ResumeDownloadC ''https://example.org/osl/osl-01'' ''/data/osl/osl-01'' '''' 0 ''''] \<and>
   serverEntries (world (snd (FetchObfuscatedServerLists (exampleEnv serveButFirst [[1], [2]] True)
                                exampleConfig None None emptyStore))) = [''gated entries''] \<and>
   etags (world (snd (FetchObfuscatedServerLists (exampleEnv serveButFirst [[1], [2]] True)
                        exampleConfig None None emptyStore)))
     = [(''https://example.org/server_list'', ''f1''), (''https://example.org/server_list'', ''f1'')] \<and>
   fst (FetchObfuscatedServerLists (exampleEnv serveGated [[1], [2]] True) exampleConfig None None
          emptyStore) = Return None \<and>
   serverEntries (world (snd (FetchObfuscatedServerLists (exampleEnv serveGated [[1], [2]] True)
                                exampleConfig None None emptyStore)))
     = [''gated entries'', ''gated entries'']"
  using failure_iff_failed_was_set[of "exampleEnv serveButFirst [[1], [2]] True" exampleConfig None None
          emptyStore
          "fst (FetchObfuscatedServerLists (exampleEnv serveButFirst [[1], [2]] True) exampleConfig
                  None None emptyStore)"
          "snd (FetchObfuscatedServerLists (exampleEnv serveButFirst [[1], [2]] True) exampleConfig
                  None None emptyStore)"]
  by (simp add: example_defs code_defs directoryFailures_def fileFailures_def)

subsection \<open>The commit of the directory's ETag\<close>

text \<open>
  C9. In every cycle of the gated synchroniser, the part of the trace before the query of
  the seeded identifiers holds an ETag commit only when the directory was stored in the
  cache in that cycle; then it holds exactly one, the cache was not looked up, and before
  that commit no call failed, the download brought a new, non-empty ETag (the one
  committed), and the file was read, unpacked and stored in the cache. In every other
  cycle (the download failed or reported the directory unchanged, or the read, the unpack
  or the cache store failed) that part of the trace holds no ETag commit.
\<close>

theorem directory_commit_only_after_fresh_branch:
  assumes run: "FetchObfuscatedServerLists env config tunnel untunneledDialConfig s = (out, s')"
  shows "\<exists>evs. trace s' = trace s @ evs \<and>
     (if list_ex isDirectoryCached evs
      then cacheLookups evs = [] \<and>
           (\<exists>steps newETag ok rest.
               beforeQuery evs = steps @ Called (SetUrlETagC (RemoteServerListUrl config) newETag) ok # rest \<and>
               commits steps = [] \<and> commits rest = [] \<and> directoryStored steps \<and> newETag \<noteq> '''' \<and>
               (\<exists>lastETag. downloads steps = [(lastETag, newETag)] \<and> newETag \<noteq> lastETag))
      else commits (beforeQuery evs) = [])"
proof -
  let ?url = "GetOSLDirectoryURL env (ObfuscatedServerListRootURL config)"
  let ?info = "NoticeInfo ''fetching obfuscated remote server lists''"
  from main_structure[OF run] obtain failed tag d dirEvs r cacheEvs where
    dirF: "directoryFacts ?url failed tag d dirEvs" and
    cacheF: "cacheFacts failed tag d r cacheEvs" and
    rest: "case r of
         Inl e \<Rightarrow> out = Return (Some e) \<and> trace s' = trace s @ ?info # dirEvs @ cacheEvs
       | Inr x \<Rightarrow> (\<exists>directory commitEvs raised loopEvs w failed'.
           x = Some directory \<and> commitFacts config failed tag commitEvs \<and>
           trace s' = trace s @ ?info # dirEvs @ cacheEvs @
                        commitEvs @ map alertEvent raised @ [Called GetSeededOSLIDsC True] @ loopEvs \<and>
           fetches loopEvs = map (GetOSLFileURL env (ObfuscatedServerListRootURL config))
              (fst (fst (GetSeededOSLIDs env directory (lookupSLOKs env) seededOSLIDsErrorSink w))) \<and>
           fileFacts config failed failed' loopEvs \<and>
           (\<exists>oslIDs s4. fetchOSLFiles env config tunnel untunneledDialConfig directory failed oslIDs s4
                          = (failed', s')) \<and>
           out = Return (if failed' then Some (New ''failed to fetch obfuscated remote server lists'')
                         else None))"
    by blast
  show ?thesis
  proof (cases r)
    case (Inl e)
    with rest have tr: "trace s' = trace s @ ?info # dirEvs @ cacheEvs"
      by simp
    note ev = fatal_events[OF dirF cacheF[unfolded Inl]]
    have nc: "\<not> list_ex isDirectoryCached (?info # dirEvs @ cacheEvs)" by (rule ev(6))
    have bq: "beforeQuery (?info # dirEvs @ cacheEvs) = ?info # dirEvs @ cacheEvs"
      by (rule beforeQuery_none[OF ev(3)])
    have cm: "commits (beforeQuery (?info # dirEvs @ cacheEvs)) = []"
      unfolding bq by (rule ev(2))
    show ?thesis
      apply (rule exI[of _ "?info # dirEvs @ cacheEvs"])
      apply (simp only: nc if_False)
      using tr cm apply blast
      done
  next
    case (Inr x)
    with rest obtain directory commitEvs raised loopEvs failed' where
      commitF: "commitFacts config failed tag commitEvs" and
      tr: "trace s' = trace s @ ?info # dirEvs @ cacheEvs @
                        commitEvs @ map alertEvent raised @ [Called GetSeededOSLIDsC True] @ loopEvs" and
      fileF: "fileFacts config failed failed' loopEvs"
      by auto
    let ?evs = "?info # dirEvs @ cacheEvs @ commitEvs @ map alertEvent raised @
                  [Called GetSeededOSLIDsC True] @ loopEvs"
    note ev = queried_events[OF dirF cacheF[unfolded Inr] commitF fileF]
    have tr': "trace s' = trace s @ ?evs" using tr by simp
    have dc: "list_ex isDirectoryCached ?evs = (\<not> failed \<and> tag \<noteq> '''')" by (rule ev(5))
    have bq: "beforeQuery ?evs = ?info # dirEvs @ cacheEvs @ commitEvs @ map alertEvent raised"
      by (rule ev(1))
    show ?thesis
    proof (cases "\<not> failed \<and> tag \<noteq> ''''")
      case True
      have fresh: "directoryStored dirEvs" "\<exists>lastETag. downloads dirEvs = [(lastETag, tag)] \<and> tag \<noteq> lastETag"
        "commits dirEvs = []"
        using dirF True unfolding directoryFacts_def by blast+
      have nolk: "cacheLookups cacheEvs = []" using ev(10) True by simp
      have empty: "cacheEvs = []" using cacheF True unfolding cacheFacts_def by blast
      from commitF True obtain ok rest' where
        ce: "commitEvs = Called (SetUrlETagC (RemoteServerListUrl config) tag) ok # rest'" "commits rest' = []"
        unfolding commitFacts_def by (auto split: if_splits)
      have lk: "cacheLookups ?evs = []" using ev(4) nolk by simp
      have shape: "beforeQuery ?evs = (?info # dirEvs) @
                     Called (SetUrlETagC (RemoteServerListUrl config) tag) ok # (rest' @ map alertEvent raised)"
        unfolding bq using empty ce(1) by simp
      have st: "directoryStored (?info # dirEvs)"
        using fresh(1) by (simp add: directoryStored_def)
      have dl: "\<exists>lastETag. downloads (?info # dirEvs) = [(lastETag, tag)] \<and> tag \<noteq> lastETag"
        using fresh(2) by simp
      have c1: "commits (?info # dirEvs) = []" using fresh(3) by simp
      have c2: "commits (rest' @ map alertEvent raised) = []" using ce(2) by simp
      have tg: "tag \<noteq> ''''" using True by simp
      have isdc: "list_ex isDirectoryCached ?evs" using dc True by simp
      show ?thesis
        apply (rule exI[of _ ?evs])
        apply (simp only: isdc if_True)
        using tr' lk shape st dl c1 c2 tg apply blast
        done
    next
      case False
      have ndc: "\<not> list_ex isDirectoryCached ?evs" using dc False by simp
      have "commits commitEvs = []" using commitF False unfolding commitFacts_def by auto
      then have cm: "commits (beforeQuery ?evs) = []" unfolding bq using ev(8) by simp
      show ?thesis
        apply (rule exI[of _ ?evs])
        apply (simp only: ndc if_False)
        using tr' cm apply blast
        done
    qed
  qed
qed

text \<open>
  Two examples: a new directory, whose ETag is committed after the cache store; an
  unchanged directory, taken from the cache, with no commit before the query.
\<close>

theorem directory_commit_only_after_fresh_branch_witness:
  "list_ex isDirectoryCached (trace (snd (FetchObfuscatedServerLists (exampleEnv serveGated [[1]] True)
                                            exampleConfig None None emptyStore))) \<and>
   commits (beforeQuery (trace (snd (FetchObfuscatedServerLists (exampleEnv serveGated [[1]] True)
                                       exampleConfig None None emptyStore))))
     = [(''https://example.org/server_list'', ''d1'')] \<and>
   \<not> list_ex isDirectoryCached (trace (snd (FetchObfuscatedServerLists
          (exampleEnv serveGated [[1]] True) exampleConfig None None cachedStore))) \<and>
   commits (beforeQuery (trace (snd (FetchObfuscatedServerLists (exampleEnv serveGated [[1]] True)
                                       exampleConfig None None cachedStore)))) = []"
  using directory_commit_only_after_fresh_branch[of "exampleEnv serveGated [[1]] True" exampleConfig
          None None emptyStore
          "fst (FetchObfuscatedServerLists (exampleEnv serveGated [[1]] True) exampleConfig None None
                  emptyStore)"
          "snd (FetchObfuscatedServerLists (exampleEnv serveGated [[1]] True) exampleConfig None None
                  emptyStore)"]
  by (simp add: example_defs code_defs)

subsection \<open>An empty value in the cache\<close>

text \<open>
  C10. When the lookup of the cached directory succeeds and returns the empty string, the
  cycle returns the error "failed to get cached obfuscated server list directory" with the
  cause "not found", fetches nothing but the directory and does not query the seeded
  identifiers; that is the error, but for its cause, and the end of the cycle that a
  lookup returning an error gets.
\<close>

theorem empty_cache_value_is_not_found:
  assumes run: "FetchObfuscatedServerLists env config tunnel untunneledDialConfig s = (out, s')"
  shows "\<exists>evs. trace s' = trace s @ evs \<and>
     (cacheLookups evs = [('''', True)] \<longrightarrow>
        out = Return (Some (Errorf ''failed to get cached obfuscated server list directory''
                              (ContextError (New ''not found'')))) \<and>
        fetches evs = [GetOSLDirectoryURL env (ObfuscatedServerListRootURL config)] \<and>
        \<not> list_ex isQuery evs) \<and>
     (\<forall>v. cacheLookups evs = [(v, False)] \<longrightarrow>
        (\<exists>e. out = Return (Some (Errorf ''failed to get cached obfuscated server list directory''
                                   (ContextError e)))) \<and>
        fetches evs = [GetOSLDirectoryURL env (ObfuscatedServerListRootURL config)] \<and>
        \<not> list_ex isQuery evs)"
proof -
  let ?url = "GetOSLDirectoryURL env (ObfuscatedServerListRootURL config)"
  let ?info = "NoticeInfo ''fetching obfuscated remote server lists''"
  from main_structure[OF run] obtain failed tag d dirEvs r cacheEvs where
    dirF: "directoryFacts ?url failed tag d dirEvs" and
    cacheF: "cacheFacts failed tag d r cacheEvs" and
    rest: "case r of
         Inl e \<Rightarrow> out = Return (Some e) \<and> trace s' = trace s @ ?info # dirEvs @ cacheEvs
       | Inr x \<Rightarrow> (\<exists>directory commitEvs raised loopEvs w failed'.
           x = Some directory \<and> commitFacts config failed tag commitEvs \<and>
           trace s' = trace s @ ?info # dirEvs @ cacheEvs @
                        commitEvs @ map alertEvent raised @ [Called GetSeededOSLIDsC True] @ loopEvs \<and>
           fetches loopEvs = map (GetOSLFileURL env (ObfuscatedServerListRootURL config))
              (fst (fst (GetSeededOSLIDs env directory (lookupSLOKs env) seededOSLIDsErrorSink w))) \<and>
           fileFacts config failed failed' loopEvs \<and>
           (\<exists>oslIDs s4. fetchOSLFiles env config tunnel untunneledDialConfig directory failed oslIDs s4
                          = (failed', s')) \<and>
           out = Return (if failed' then Some (New ''failed to fetch obfuscated remote server lists'')
                         else None))"
    by blast
  have found: "\<And>v ok. cacheLookups cacheEvs = [(v, ok)] \<Longrightarrow> \<not> ok \<or> v = '''' \<Longrightarrow>
             \<exists>e. r = Inl (Errorf ''failed to get cached obfuscated server list directory'' (ContextError e))"
    using cacheF unfolding cacheFacts_def by blast
  have empty: "cacheLookups cacheEvs = [('''', True)] \<Longrightarrow>
             r = Inl (Errorf ''failed to get cached obfuscated server list directory''
                        (ContextError (New ''not found'')))"
    using cacheF unfolding cacheFacts_def by blast
  show ?thesis
  proof (cases r)
    case (Inl e)
    with rest have out: "out = Return (Some e)" and tr: "trace s' = trace s @ ?info # dirEvs @ cacheEvs"
      by simp_all
    note ev = fatal_events[OF dirF cacheF[unfolded Inl]]
    show ?thesis
    proof (intro exI[of _ "?info # dirEvs @ cacheEvs"] conjI allI impI)
      show "trace s' = trace s @ ?info # dirEvs @ cacheEvs" by (rule tr)
    next
      assume "cacheLookups (?info # dirEvs @ cacheEvs) = [('''', True)]"
      then have "cacheLookups cacheEvs = [('''', True)]" using ev(4) by simp
      from empty[OF this] Inl out
      show "out = Return (Some (Errorf ''failed to get cached obfuscated server list directory''
                              (ContextError (New ''not found''))))" by simp
    next
      fix v assume "cacheLookups (?info # dirEvs @ cacheEvs) = [(v, False)]"
      then have "cacheLookups cacheEvs = [(v, False)]" using ev(4) by simp
      from found[OF this] Inl out
      show "\<exists>e. out = Return (Some (Errorf ''failed to get cached obfuscated server list directory''
                                   (ContextError e)))" by auto
    next
      show "fetches (?info # dirEvs @ cacheEvs) = [?url]" using ev(1) by simp
      then show "fetches (?info # dirEvs @ cacheEvs) = [?url]" .
    next
      show "\<not> list_ex isQuery (?info # dirEvs @ cacheEvs)" using ev(3) by simp
      then show "\<not> list_ex isQuery (?info # dirEvs @ cacheEvs)" .
    qed
  next
    case (Inr x)
    with rest obtain directory commitEvs raised loopEvs failed' where
      commitF: "commitFacts config failed tag commitEvs" and
      tr: "trace s' = trace s @ ?info # dirEvs @ cacheEvs @
                        commitEvs @ map alertEvent raised @ [Called GetSeededOSLIDsC True] @ loopEvs" and
      fileF: "fileFacts config failed failed' loopEvs"
      by auto
    let ?evs = "?info # dirEvs @ cacheEvs @ commitEvs @ map alertEvent raised @
                  [Called GetSeededOSLIDsC True] @ loopEvs"
    note ev = queried_events[OF dirF cacheF[unfolded Inr] commitF fileF]
    have lk: "cacheLookups ?evs = cacheLookups cacheEvs" using ev(4) by simp
    have no: "\<And>v ok. cacheLookups ?evs = [(v, ok)] \<Longrightarrow> \<not> ok \<or> v = '''' \<Longrightarrow> False"
      using found Inr unfolding lk by blast
    show ?thesis
    proof (intro exI[of _ ?evs] conjI allI impI)
      show "trace s' = trace s @ ?evs" using tr by simp
    next
      assume a: "cacheLookups ?evs = [('''', True)]"
      from no[OF a] have False by simp
      then show "out = Return (Some (Errorf ''failed to get cached obfuscated server list directory''
                              (ContextError (New ''not found''))))"
        "fetches ?evs = [?url]" "\<not> list_ex isQuery ?evs" by simp_all
    next
      fix v assume a: "cacheLookups ?evs = [(v, False)]"
      from no[OF a] have False by simp
      then show "\<exists>e. out = Return (Some (Errorf ''failed to get cached obfuscated server list directory''
                                   (ContextError e)))"
        "fetches ?evs = [?url]" "\<not> list_ex isQuery ?evs" by simp_all
    qed
  qed
qed

text \<open>
  Two examples. The directory is unchanged and the cache is empty: the lookup succeeds with
  an empty value. The key/value store cannot be read: the lookup fails. Both cycles end
  with the same error message, after the directory's fetch.
\<close>

theorem empty_cache_value_is_not_found_witness:
  "fst (FetchObfuscatedServerLists (exampleEnv serveGated [[1]] True) exampleConfig None None
          (storeWith [(''https://example.org/osl/osl-directory'', ''d1'')]))
     = Return (Some (Errorf ''failed to get cached obfuscated server list directory''
                       (ContextError (New ''not found'')))) \<and>
   cacheLookups (trace (snd (FetchObfuscatedServerLists (exampleEnv serveGated [[1]] True) exampleConfig
          None None (storeWith [(''https://example.org/osl/osl-directory'', ''d1'')]))))
     = [('''', True)] \<and>
   fst (FetchObfuscatedServerLists unreadableEnv exampleConfig None None emptyStore)
     = Return (Some (Errorf ''failed to get cached obfuscated server list directory''
                       (ContextError (New ''no such bucket'')))) \<and>
   cacheLookups (trace (snd (FetchObfuscatedServerLists unreadableEnv exampleConfig None None
                               emptyStore))) = [('''', False)]"
  using empty_cache_value_is_not_found[of "exampleEnv serveGated [[1]] True" exampleConfig None None
          "storeWith [(''https://example.org/osl/osl-directory'', ''d1'')]"
          "fst (FetchObfuscatedServerLists (exampleEnv serveGated [[1]] True) exampleConfig None None
                  (storeWith [(''https://example.org/osl/osl-directory'', ''d1'')]))"
          "snd (FetchObfuscatedServerLists (exampleEnv serveGated [[1]] True) exampleConfig None None
                  (storeWith [(''https://example.org/osl/osl-directory'', ''d1'')]))"]
  by (simp add: example_defs code_defs)

end
